(* ===== verification/Py_Prelude.thy ===== *)
theory Py_Prelude
  imports Complex_Main "HOL-Library.AList"
begin

text \<open>
  Shared vocabulary of the development: the values the script \<^verbatim>\<open>src/main.py\<close> moves
  around and the Python operations it applies to them.

  \<^item> \<open>py_error\<close>: the exceptions the script can meet, as values. A fallible
    operation returns \<open>'a result = py_error + 'a\<close>; \<open>Inl e\<close> is "raised \<open>e\<close>".
  \<^item> \<open>cell\<close>: a scalar held by a dictionary or a data frame: a Python/numpy integer,
    a float, or a bool. Integers are unbounded \<open>int\<close>s (every integer of the program
    is a widget value between 0 and 600, no arithmetic is done on them). A float
    \<open>FloatC q\<close> stands for the binary64 number nearest to the decimal \<open>q\<close>; the
    script only copies floats and prints them, and \<open>str_float\<close> prints the decimal,
    which is what Python prints for a float given by at most 15 significant digits.
  \<^item> \<open>cell\<close> is a linear order (numeric value first, then bool < int < float), so
    that the library's \<open>sort\<close> computes the sorted levels of a column.
  \<^item> \<open>dict\<close>: a Python \<^verbatim>\<open>dict\<close>, insertion-ordered, as an association list with
    distinct keys; \<open>dict_set\<close> is \<^verbatim>\<open>d[k] = v\<close> and \<open>dict_get\<close> is \<^verbatim>\<open>d[k]\<close>.
  \<^item> \<open>parse_nat\<close> reads a decimal numeral, digit by digit; it is not called by the
    script and serves to state that printed integers are read back (\<open>str_nat\<close> and
    \<open>str_int\<close> are injective, so the names \<^verbatim>\<open>field_value\<close> of indicator columns are
    distinct for distinct values).
  \<^item> the fact collections \<open>py_eval\<close> (definitions to unfold when a closed term is
    evaluated) and \<open>frame_wf\<close> (well-formedness rules), filled by the component
    theories.
\<close>

section \<open>Fact collections\<close>

named_theorems py_eval "definitions unfolded to evaluate the model on a concrete input"
named_theorems frame_wf "operations keep frames and dictionaries well formed"

section \<open>Exceptions as values\<close>

datatype py_error =
    KeyError "string list"
  | IndexError
  | TypeError
  | ValueError
  | AttributeError
  | FileNotFoundError string
  | OtherException

type_synonym 'a result = "py_error + 'a"

abbreviation Raise :: "py_error \<Rightarrow> 'a result" where
  "Raise e \<equiv> Inl e"

abbreviation Return :: "'a \<Rightarrow> 'a result" where
  "Return x \<equiv> Inr x"

definition and_then :: "'a result \<Rightarrow> ('a \<Rightarrow> 'b result) \<Rightarrow> 'b result" where
  "and_then r f = (case r of Inl e \<Rightarrow> Inl e | Inr x \<Rightarrow> f x)"

definition returns :: "'a result \<Rightarrow> bool" where
  "returns r = (case r of Inl e \<Rightarrow> False | Inr x \<Rightarrow> True)"

section \<open>Scalars\<close>

datatype cell = IntC int | FloatC rat | BoolC bool

fun num :: "cell \<Rightarrow> rat" where
  "num (IntC i) = of_int i"
| "num (FloatC q) = q"
| "num (BoolC b) = of_bool b"

fun rank :: "cell \<Rightarrow> nat" where
  "rank (BoolC b) = 0"
| "rank (IntC i) = 1"
| "rank (FloatC q) = 2"

instantiation cell :: linorder
begin

definition less_eq_cell :: "cell \<Rightarrow> cell \<Rightarrow> bool" where
  "less_eq_cell c d \<longleftrightarrow> num c < num d \<or> (num c = num d \<and> rank c \<le> rank d)"

definition less_cell :: "cell \<Rightarrow> cell \<Rightarrow> bool" where
  "less_cell c d \<longleftrightarrow> num c < num d \<or> (num c = num d \<and> rank c < rank d)"

instance
proof
  fix x y z :: cell
  show "x < y \<longleftrightarrow> x \<le> y \<and> \<not> y \<le> x"
    by (auto simp: less_eq_cell_def less_cell_def)
  show "x \<le> x"
    by (simp add: less_eq_cell_def)
  show "x \<le> y \<Longrightarrow> y \<le> z \<Longrightarrow> x \<le> z"
    by (auto simp: less_eq_cell_def)
  show "x \<le> y \<Longrightarrow> y \<le> x \<Longrightarrow> x = y"
    by (cases x; cases y) (auto simp: less_eq_cell_def split: if_splits)
  show "x \<le> y \<or> y \<le> x"
    by (auto simp: less_eq_cell_def)
qed

end

section \<open>Python's \<^verbatim>\<open>str\<close> on scalars\<close>

definition digit_char :: "nat \<Rightarrow> char" where
  "digit_char d = ''0123456789'' ! d"

fun str_nat :: "nat \<Rightarrow> string" where
  "str_nat n = (if n < 10 then [digit_char n] else str_nat (n div 10) @ [digit_char (n mod 10)])"

declare str_nat.simps [simp del]

definition str_int :: "int \<Rightarrow> string" where
  "str_int i = (if i < 0 then CHR ''-'' # str_nat (nat (- i)) else str_nat (nat i))"

fun frac_digits :: "nat \<Rightarrow> rat \<Rightarrow> string" where
  "frac_digits 0 r = []"
| "frac_digits (Suc n) r =
     (if r = 0 then []
      else digit_char (nat \<lfloor>r * 10\<rfloor>) # frac_digits n (r * 10 - of_int \<lfloor>r * 10\<rfloor>))"

definition str_float :: "rat \<Rightarrow> string" where
  "str_float q =
     (let a = \<bar>q\<bar>; ip = \<lfloor>a\<rfloor>; fr = a - of_int ip
      in (if q < 0 then ''-'' else []) @ str_nat (nat ip) @ ''.'' @
         (if fr = 0 then ''0'' else frac_digits 17 fr))"

fun str_cell :: "cell \<Rightarrow> string" where
  "str_cell (IntC i) = str_int i"
| "str_cell (FloatC q) = str_float q"
| "str_cell (BoolC b) = (if b then ''True'' else ''False'')"

section \<open>Reading a decimal numeral\<close>

definition digit_value :: "char \<Rightarrow> nat" where
  "digit_value c = of_char c - 48"

definition parse_nat :: "string \<Rightarrow> nat" where
  "parse_nat s = foldl (\<lambda>a c. a * 10 + digit_value c) 0 s"

section \<open>Dictionaries\<close>

type_synonym ('k, 'v) dict = "('k \<times> 'v) list"

definition dict_keys :: "('k, 'v) dict \<Rightarrow> 'k list" where
  "dict_keys d = map fst d"

definition dict_set :: "('k, 'v) dict \<Rightarrow> 'k \<Rightarrow> 'v \<Rightarrow> ('k, 'v) dict" where
  "dict_set d k v = AList.update k v d"

definition dict_get :: "(string, 'v) dict \<Rightarrow> string \<Rightarrow> 'v result" where
  "dict_get d k = (case map_of d k of None \<Rightarrow> Raise (KeyError [k]) | Some v \<Rightarrow> Return v)"

definition dict_ok :: "('k, 'v) dict \<Rightarrow> bool" where
  "dict_ok d = distinct (dict_keys d)"

section \<open>Lemmas: results\<close>

lemma and_then_simps [simp]:
  "and_then (Raise e) f = Raise e"
  "and_then (Return x) f = f x"
  by (simp_all add: and_then_def)

lemma and_then_Return_iff:
  "and_then r f = Return y \<longleftrightarrow> (\<exists>x. r = Return x \<and> f x = Return y)"
  by (cases r) simp_all

lemma and_then_Raise_iff:
  "and_then r f = Raise e \<longleftrightarrow> r = Raise e \<or> (\<exists>x. r = Return x \<and> f x = Raise e)"
  by (cases r) simp_all

lemma returns_simps [simp]:
  "returns (Return x)"
  "\<not> returns (Raise e)"
  by (simp_all add: returns_def)

lemma returns_iff: "returns r \<longleftrightarrow> (\<exists>x. r = Return x)"
  by (cases r) simp_all

lemma returns_and_then: "returns (and_then r f) \<longleftrightarrow> (\<exists>x. r = Return x \<and> returns (f x))"
  by (cases r) simp_all

section \<open>Lemmas: the order on scalars\<close>

lemma IntC_le_iff [simp]: "IntC a \<le> IntC b \<longleftrightarrow> a \<le> b"
  by (auto simp: less_eq_cell_def)

lemma IntC_less_iff [simp]: "IntC a < IntC b \<longleftrightarrow> a < b"
  by (auto simp: less_cell_def)

lemma FloatC_le_iff [simp]: "FloatC p \<le> FloatC q \<longleftrightarrow> p \<le> q"
  by (auto simp: less_eq_cell_def)

lemma BoolC_le_iff [simp]: "BoolC a \<le> BoolC b \<longleftrightarrow> (a \<longrightarrow> b)"
  by (auto simp: less_eq_cell_def)

lemma num_mono: "c \<le> d \<Longrightarrow> num c \<le> num d"
  by (auto simp: less_eq_cell_def)

lemma sorted_map_IntC [simp]: "sorted (map IntC xs) \<longleftrightarrow> sorted xs"
  by (induction xs) auto

section \<open>Lemmas: printed integers\<close>

lemma digit_char_cases:
  fixes d :: nat
  assumes "d < 10"
  obtains "d = 0" | "d = 1" | "d = 2" | "d = 3" | "d = 4" | "d = 5" | "d = 6" | "d = 7" | "d = 8" | "d = 9"
  using assms by atomize_elim presburger

lemma digit_value_digit_char: "d < 10 \<Longrightarrow> digit_value (digit_char d) = d"
  by (erule digit_char_cases) (simp_all add: digit_value_def digit_char_def)

lemma digit_char_not_mark:
  "d < 10 \<Longrightarrow> digit_char d \<noteq> CHR ''.'' \<and> digit_char d \<noteq> CHR ''-'' \<and> digit_char d \<noteq> CHR ''_''"
  by (erule digit_char_cases) (simp_all add: digit_char_def)

lemma parse_nat_snoc: "parse_nat (s @ [c]) = parse_nat s * 10 + digit_value c"
  by (simp add: parse_nat_def)

lemma parse_nat_str_nat: "parse_nat (str_nat n) = n"
proof (induction n rule: str_nat.induct)
  case (1 n)
  show ?case
  proof (cases "n < 10")
    case True
    then show ?thesis
      using parse_nat_snoc [of "[]" "digit_char n"]
      by (simp add: str_nat.simps [of n] digit_value_digit_char parse_nat_def)
  next
    case False
    with "1.IH" show ?thesis
      by (simp add: str_nat.simps [of n] parse_nat_snoc digit_value_digit_char)
  qed
qed

lemma str_nat_digits:
  "c \<in> set (str_nat n) \<Longrightarrow> c \<noteq> CHR ''.'' \<and> c \<noteq> CHR ''-'' \<and> c \<noteq> CHR ''_''"
proof (induction n rule: str_nat.induct)
  case (1 n)
  show ?case
  proof (cases "n < 10")
    case True
    with "1.prems" show ?thesis
      using digit_char_not_mark [of n] by (simp add: str_nat.simps [of n])
  next
    case False
    with "1.prems" "1.IH" show ?thesis
      using digit_char_not_mark [of "n mod 10"] by (auto simp: str_nat.simps [of n])
  qed
qed

lemma str_nat_nonempty [simp]: "str_nat n \<noteq> []"
  by (simp add: str_nat.simps [of n])

lemma str_nat_inject [simp]: "str_nat m = str_nat n \<longleftrightarrow> m = n"
  by (metis parse_nat_str_nat)

lemma hd_str_nat: "hd (str_nat n @ s) \<noteq> CHR ''-''"
  using str_nat_digits [of "hd (str_nat n)" n] by (simp add: hd_append)

lemma str_nat_not_minus [simp]: "str_nat n \<noteq> CHR ''-'' # s" "CHR ''-'' # s \<noteq> str_nat n"
  using hd_str_nat [of n "[]"] by (auto dest: arg_cong [where f = hd])

lemma str_int_inject [simp]: "str_int i = str_int j \<longleftrightarrow> i = j"
  by (auto simp: str_int_def)

lemma str_int_digits: "c \<in> set (str_int i) \<Longrightarrow> c \<noteq> CHR ''.'' \<and> c \<noteq> CHR ''_''"
  using str_nat_digits [of c] by (auto simp: str_int_def split: if_splits)

lemma append_mark_inject:
  assumes "xs @ a # ys = xs' @ a # ys'" and "a \<notin> set ys" and "a \<notin> set ys'"
  shows "xs = xs' \<and> ys = ys'"
proof -
  have tw: "takeWhile (\<lambda>c. c \<noteq> a) (rev zs @ a # ws) = rev zs" if "a \<notin> set zs" for zs ws
    using that by (auto simp: takeWhile_tail takeWhile_eq_all_conv [THEN iffD2])
  from assms(1) have "rev (xs @ a # ys) = rev (xs' @ a # ys')"
    by simp
  then have "takeWhile (\<lambda>c. c \<noteq> a) (rev ys @ a # rev xs) =
      takeWhile (\<lambda>c. c \<noteq> a) (rev ys' @ a # rev xs')"
    by simp
  then have "rev ys = rev ys'"
    by (simp only: tw [OF assms(2)] tw [OF assms(3)])
  with assms(1) show ?thesis
    by simp
qed

section \<open>Lemmas: dictionaries\<close>

lemma dict_keys_simps [simp]:
  "dict_keys [] = []"
  "dict_keys ((k, v) # d) = k # dict_keys d"
  by (simp_all add: dict_keys_def)

lemma dict_keys_set_new:
  "k \<notin> set (dict_keys d) \<Longrightarrow> dict_keys (dict_set d k v) = dict_keys d @ [k]"
  by (simp add: dict_keys_def dict_set_def update_keys image_iff)

lemma dict_keys_set_old:
  "k \<in> set (dict_keys d) \<Longrightarrow> dict_keys (dict_set d k v) = dict_keys d"
  by (simp add: dict_keys_def dict_set_def update_keys image_iff)

lemma set_dict_keys_set [simp]:
  "set (dict_keys (dict_set d k v)) = insert k (set (dict_keys d))"
  using dom_update [of k v d] by (simp add: dict_keys_def dict_set_def)

lemma dict_ok_Nil [simp, frame_wf]: "dict_ok []"
  by (simp add: dict_ok_def)

lemma dict_ok_set [simp, frame_wf]: "dict_ok d \<Longrightarrow> dict_ok (dict_set d k v)"
  by (simp add: dict_ok_def dict_keys_def dict_set_def distinct_update)

lemma map_of_dict_set [simp]: "map_of (dict_set d k v) = (map_of d)(k \<mapsto> v)"
  by (simp add: dict_set_def update_conv')

lemma dict_get_set_same [simp]: "dict_get (dict_set d k v) k = Return v"
  by (simp add: dict_get_def)

lemma dict_get_set_other [simp]: "k' \<noteq> k \<Longrightarrow> dict_get (dict_set d k v) k' = dict_get d k'"
  by (simp add: dict_get_def)

lemma map_of_absent: "k \<notin> set (dict_keys d) \<Longrightarrow> map_of d k = None"
  by (simp add: dict_keys_def map_of_eq_None_iff)

lemma map_of_present: "k \<in> set (dict_keys d) \<Longrightarrow> \<exists>v. map_of d k = Some v"
  by (cases "map_of d k") (auto simp: dict_keys_def map_of_eq_None_iff)

lemma map_of_Some_key: "map_of d k = Some v \<Longrightarrow> k \<in> set (dict_keys d)"
  using map_of_absent [of k d] by auto

lemma dict_get_Return_ex_iff: "(\<exists>v. dict_get d k = Return v) \<longleftrightarrow> k \<in> set (dict_keys d)"
  by (auto simp: dict_get_def map_of_absent split: option.splits
      dest: map_of_present map_of_Some_key)

lemma dict_get_Return_iff: "dict_get d k = Return v \<longleftrightarrow> map_of d k = Some v"
  by (simp add: dict_get_def split: option.splits)

lemma dict_get_returns_iff: "returns (dict_get d k) \<longleftrightarrow> k \<in> set (dict_keys d)"
  by (simp add: returns_iff dict_get_Return_ex_iff)

lemma dict_get_Raise: "k \<notin> set (dict_keys d) \<Longrightarrow> dict_get d k = Raise (KeyError [k])"
  by (simp add: dict_get_def map_of_absent)

section \<open>Lemmas: association lists\<close>

lemma map_of_map_value:
  "map_of (map (\<lambda>(k, v). (k, f v)) xs) k = map_option f (map_of xs k)"
  by (induction xs) auto

lemma map_of_restrict_Compl:
  "map_of (AList.restrict (- A) xs) k = (if k \<in> A then None else map_of xs k)"
  by (simp add: restr_conv' restrict_map_def)

lemma map_fst_restrict: "map fst (AList.restrict A xs) = filter (\<lambda>k. k \<in> A) (map fst xs)"
  by (induction xs) (auto simp: AList.restrict_eq)

lemma map_fst_map_value [simp]: "map fst (map (\<lambda>(k, v). (k, f k v)) xs) = map fst xs"
  by (induction xs) auto

lemma list_all_restrict: "list_all P xs \<Longrightarrow> list_all P (AList.restrict A xs)"
  by (induction xs) (auto simp: AList.restrict_eq)

lemmas py_eval_base [py_eval] =
  dict_set_def dict_get_def dict_keys_def dict_ok_def
  str_int_def str_nat.simps digit_char_def

end
