(* ===== verification/Data_Frame.thy ===== *)
theory Data_Frame
  imports Py_Prelude
begin

text \<open>
  The part of pandas that \<^verbatim>\<open>src/main.py\<close> calls, as functions on an explicit frame.

  A \<open>frame\<close> is a record of the row labels (\<open>index\<close>) and the columns in order
  (\<open>series\<close>: name and one cell per row). \<open>frame_ok\<close> says that every column has one
  cell per row. Column names may repeat, as pandas allows.

  Operations, each named after the pandas call it models:
  \<^item> \<open>DataFrame_row d\<close> is \<^verbatim>\<open>pd.DataFrame([d])\<close>, one row whose columns are the
    keys of \<open>d\<close> in insertion order;
  \<^item> \<open>DataFrame_fill v idx cols\<close> is \<^verbatim>\<open>pd.DataFrame(v, index=idx, columns=cols)\<close>;
  \<^item> \<open>has_column df c\<close> is \<^verbatim>\<open>c in df.columns\<close>; \<open>getitem df c\<close> is \<^verbatim>\<open>df[c]\<close>
    (a \<open>KeyError\<close> for an absent column); \<open>iloc xs i\<close> is \<^verbatim>\<open>s.iloc[i]\<close> (an
    \<open>IndexError\<close> out of range); \<open>setitem df c v\<close> is \<^verbatim>\<open>df[c] = v\<close> for a scalar:
    every column named \<open>c\<close> is overwritten, or one is appended when there is none;
  \<^item> \<open>to_numpy df\<close> is the frame as the list of its rows, what \<^verbatim>\<open>np.asarray(df)\<close> holds;
  \<^item> \<open>getitems df cs\<close> is \<^verbatim>\<open>df[cs]\<close> and \<open>drop_columns df cs\<close> is
    \<^verbatim>\<open>df.drop(cs, axis=1)\<close>, both raising \<open>KeyError\<close> with the absent labels;
  \<^item> \<open>get_dummies df cs drop_first\<close> is \<^verbatim>\<open>pd.get_dummies(df, columns=cs,
    drop_first=...)\<close>: the columns not in \<open>cs\<close>, then for each column of \<open>cs\<close> one
    indicator column per level (\<open>levels\<close>: the sorted distinct values), named
    \<^verbatim>\<open>prefix_level\<close>, without the first level when \<open>drop_first\<close> is set. Indicator
    cells are bools, as in pandas 2.

  The lemmas give the columns and the well-formedness of every result, the
  read-after-write laws of \<open>setitem\<close>, what each indicator column of an integer
  column holds, and the fact the feature aligner depends on: on a frame of one row
  \<open>get_dummies\<close> with \<open>drop_first\<close> produces no indicator column at all.

  \<open>levels\<close> orders cells of different kinds by value and then by kind; pandas
  columns hold one kind of value, and every column the lemmas below are applied to
  holds integers only.
\<close>

section \<open>Frames\<close>

type_synonym column = "string \<times> cell list"

record frame =
  index :: "int list"
  series :: "column list"

definition columns :: "frame \<Rightarrow> string list" where
  "columns df = map fst (series df)"

definition frame_ok :: "frame \<Rightarrow> bool" where
  "frame_ok df = list_all (\<lambda>(c, xs). length xs = length (index df)) (series df)"

definition DataFrame_row :: "(string, cell) dict \<Rightarrow> frame" where
  "DataFrame_row d = \<lparr>index = [0], series = map (\<lambda>(k, v). (k, [v])) d\<rparr>"

definition DataFrame_fill :: "cell \<Rightarrow> int list \<Rightarrow> string list \<Rightarrow> frame" where
  "DataFrame_fill v idx cols =
     \<lparr>index = idx, series = map (\<lambda>c. (c, replicate (length idx) v)) cols\<rparr>"

section \<open>Reading and writing columns\<close>

definition has_column :: "frame \<Rightarrow> string \<Rightarrow> bool" where
  "has_column df c = (c \<in> set (columns df))"

definition getitem :: "frame \<Rightarrow> string \<Rightarrow> cell list result" where
  "getitem df c =
     (case map_of (series df) c of None \<Rightarrow> Raise (KeyError [c]) | Some xs \<Rightarrow> Return xs)"

definition iloc :: "cell list \<Rightarrow> nat \<Rightarrow> cell result" where
  "iloc xs i = (if i < length xs then Return (xs ! i) else Raise IndexError)"

definition setitem :: "frame \<Rightarrow> string \<Rightarrow> cell \<Rightarrow> frame" where
  "setitem df c v =
     (let col = replicate (length (index df)) v
      in if has_column df c
         then df\<lparr>series := map (\<lambda>(k, xs). if k = c then (k, col) else (k, xs)) (series df)\<rparr>
         else df\<lparr>series := series df @ [(c, col)]\<rparr>)"

definition missing_columns :: "frame \<Rightarrow> string list \<Rightarrow> string list" where
  "missing_columns df cs = filter (\<lambda>c. \<not> has_column df c) cs"

definition getitems :: "frame \<Rightarrow> string list \<Rightarrow> frame result" where
  "getitems df cs =
     (if missing_columns df cs = []
      then Return (df\<lparr>series := concat (map (\<lambda>c. filter (\<lambda>(k, xs). k = c) (series df)) cs)\<rparr>)
      else Raise (KeyError (missing_columns df cs)))"

definition drop_columns :: "frame \<Rightarrow> string list \<Rightarrow> frame result" where
  "drop_columns df cs =
     (if missing_columns df cs = []
      then Return (df\<lparr>series := filter (\<lambda>(k, xs). k \<notin> set cs) (series df)\<rparr>)
      else Raise (KeyError (missing_columns df cs)))"

definition to_numpy :: "frame \<Rightarrow> cell list list" where
  "to_numpy df = map (\<lambda>i. map (\<lambda>(c, xs). xs ! i) (series df)) [0..<length (index df)]"

section \<open>One-hot encoding\<close>

definition levels :: "cell list \<Rightarrow> cell list" where
  "levels xs = sort (remdups xs)"

definition dummy_column :: "string \<Rightarrow> cell list \<Rightarrow> cell \<Rightarrow> column" where
  "dummy_column prefix xs l = (prefix @ ''_'' @ str_cell l, map (\<lambda>x. BoolC (x = l)) xs)"

definition get_dummies_1d :: "column \<Rightarrow> bool \<Rightarrow> column list" where
  "get_dummies_1d col drop_first =
     (case col of (prefix, xs) \<Rightarrow>
        map (dummy_column prefix xs) (if drop_first then tl (levels xs) else levels xs))"

definition get_dummies :: "frame \<Rightarrow> string list \<Rightarrow> bool \<Rightarrow> frame result" where
  "get_dummies df cs drop_first =
     and_then (getitems df cs) (\<lambda>data_to_encode.
     and_then (drop_columns df cs) (\<lambda>rest.
       Return (rest\<lparr>series := series rest @
         concat (map (\<lambda>col. get_dummies_1d col drop_first) (series data_to_encode))\<rparr>)))"

section \<open>Columns and well-formedness of the constructors\<close>

lemma columns_DataFrame_row [simp]: "columns (DataFrame_row d) = dict_keys d"
  by (simp add: columns_def DataFrame_row_def dict_keys_def comp_def case_prod_unfold)

lemma index_DataFrame_row [simp]: "index (DataFrame_row d) = [0]"
  by (simp add: DataFrame_row_def)

lemma frame_ok_DataFrame_row [simp, frame_wf]: "frame_ok (DataFrame_row d)"
  by (simp add: frame_ok_def DataFrame_row_def list_all_iff case_prod_unfold)

lemma map_of_DataFrame_row:
  "map_of (series (DataFrame_row d)) c = map_option (\<lambda>v. [v]) (map_of d c)"
  by (simp add: DataFrame_row_def map_of_map_value)

lemma columns_DataFrame_fill [simp]: "columns (DataFrame_fill v idx cols) = cols"
  by (simp add: columns_def DataFrame_fill_def comp_def)

lemma index_DataFrame_fill [simp]: "index (DataFrame_fill v idx cols) = idx"
  by (simp add: DataFrame_fill_def)

lemma frame_ok_DataFrame_fill [simp, frame_wf]: "frame_ok (DataFrame_fill v idx cols)"
  by (simp add: frame_ok_def DataFrame_fill_def list_all_iff)

section \<open>Reading after writing\<close>

lemma has_column_iff_map_of: "has_column df c \<longleftrightarrow> map_of (series df) c \<noteq> None"
  by (simp add: has_column_def columns_def map_of_eq_None_iff)

lemma getitem_returns_iff: "returns (getitem df c) \<longleftrightarrow> has_column df c"
  by (simp add: getitem_def has_column_iff_map_of split: option.splits)

lemma getitem_absent: "\<not> has_column df c \<Longrightarrow> getitem df c = Raise (KeyError [c])"
  by (simp add: getitem_def has_column_iff_map_of)

lemma index_setitem [simp]: "index (setitem df c v) = index df"
  by (simp add: setitem_def Let_def)

lemma columns_setitem:
  "columns (setitem df c v) = (if has_column df c then columns df else columns df @ [c])"
  by (simp add: setitem_def Let_def columns_def comp_def case_prod_unfold if_distrib cong: if_cong)

lemma columns_setitem_present [simp]:
  "has_column df c \<Longrightarrow> columns (setitem df c v) = columns df"
  by (simp add: columns_setitem)

lemma has_column_setitem [simp]:
  "has_column (setitem df c v) c' \<longleftrightarrow> c' = c \<or> has_column df c'"
  by (auto simp: has_column_def columns_setitem)

lemma frame_ok_setitem [simp, frame_wf]: "frame_ok df \<Longrightarrow> frame_ok (setitem df c v)"
  by (auto simp: frame_ok_def setitem_def Let_def list_all_iff split: if_splits)

lemma map_of_setitem:
  "map_of (series (setitem df c v)) c' =
     (if c' = c then Some (replicate (length (index df)) v) else map_of (series df) c')"
proof -
  have upd: "map_of (map (\<lambda>(k, xs). if k = c then (k, col) else (k, xs)) s) c' =
      (if c' = c then map_option (\<lambda>_. col) (map_of s c') else map_of s c')" for s col
    by (induction s) auto
  show ?thesis
    by (cases "map_of (series df) c")
      (auto simp: setitem_def Let_def upd has_column_iff_map_of map_add_def
        split: option.splits)
qed

lemma getitem_setitem_same [simp]:
  "getitem (setitem df c v) c = Return (replicate (length (index df)) v)"
  by (simp add: getitem_def map_of_setitem)

lemma getitem_setitem_other [simp]:
  "c' \<noteq> c \<Longrightarrow> getitem (setitem df c v) c' = getitem df c'"
  by (simp add: getitem_def map_of_setitem)

lemma iloc_replicate [simp]: "i < n \<Longrightarrow> iloc (replicate n v) i = Return v"
  by (simp add: iloc_def)

lemma iloc_singleton [simp]: "iloc [v] 0 = Return v"
  by (simp add: iloc_def)

lemma iloc_Nil [simp]: "iloc [] i = Raise IndexError"
  by (simp add: iloc_def)

section \<open>Selecting and dropping columns\<close>

lemma missing_columns_Nil_iff:
  "missing_columns df cs = [] \<longleftrightarrow> set cs \<subseteq> set (columns df)"
  by (auto simp: missing_columns_def has_column_def filter_empty_conv)

lemma getitems_returns_iff: "returns (getitems df cs) \<longleftrightarrow> set cs \<subseteq> set (columns df)"
  by (simp add: getitems_def missing_columns_Nil_iff)

lemma drop_columns_returns_iff: "returns (drop_columns df cs) \<longleftrightarrow> set cs \<subseteq> set (columns df)"
  by (simp add: drop_columns_def missing_columns_Nil_iff)

lemma drop_columns_Return:
  "drop_columns df cs = Return r \<Longrightarrow>
     index r = index df \<and> columns r = filter (\<lambda>c. c \<notin> set cs) (columns df)"
  by (auto simp: drop_columns_def columns_def filter_map comp_def case_prod_unfold
      split: if_splits)

lemma frame_ok_drop_columns [frame_wf]:
  "frame_ok df \<Longrightarrow> drop_columns df cs = Return r \<Longrightarrow> frame_ok r"
  by (auto simp: drop_columns_def frame_ok_def list_all_iff split: if_splits)

lemma frame_ok_getitems [frame_wf]:
  "frame_ok df \<Longrightarrow> getitems df cs = Return r \<Longrightarrow> frame_ok r"
  by (auto simp: getitems_def frame_ok_def list_all_iff split: if_splits)

lemma getitems_series_lengths:
  "frame_ok df \<Longrightarrow> getitems df cs = Return r \<Longrightarrow> (c, xs) \<in> set (series r) \<Longrightarrow>
     length xs = length (index df)"
  by (auto simp: getitems_def frame_ok_def list_all_iff split: if_splits)

section \<open>Levels and indicator columns\<close>

lemma set_levels [simp]: "set (levels xs) = set xs"
  by (simp add: levels_def)

lemma distinct_levels [simp]: "distinct (levels xs)"
  by (simp add: levels_def)

lemma sorted_levels [simp]: "sorted (levels xs)"
  by (simp add: levels_def)

lemma length_levels: "length (levels xs) = card (set xs)"
  by (simp add: levels_def length_remdups_card_conv)

lemma levels_Nil [simp]: "levels [] = []"
  by (simp add: levels_def)

lemma levels_singleton [simp]: "levels [v] = [v]"
  by (simp add: levels_def)

lemma levels_le_one: "length xs \<le> 1 \<Longrightarrow> tl (levels xs) = []"
  by (cases xs) simp_all

lemma levels_map_IntC_sort: "levels (map IntC ns) = map IntC (sort (remdups ns))"
proof -
  have "sorted (map IntC (sort (remdups ns)))" "distinct (map IntC (sort (remdups ns)))"
    "set (map IntC (sort (remdups ns))) = set (levels (map IntC ns))"
    by (simp_all add: distinct_map inj_on_def)
  then show ?thesis
    by (metis sorted_distinct_set_unique sorted_levels distinct_levels)
qed

lemma map_of_named:
  assumes "inj f"
  shows "map_of (map (\<lambda>x. (f x, g x)) ls) (f l) = (if l \<in> set ls then Some (g l) else None)"
  using assms by (induction ls) (auto simp: inj_def)

lemma set_tl_sorted:
  fixes ls :: "'a::linorder list"
  assumes "sorted ls" and "distinct ls"
  shows "l \<in> set (tl ls) \<longleftrightarrow> l \<in> set ls \<and> l \<noteq> Min (set ls)"
proof (cases ls)
  case Nil
  then show ?thesis
    by simp
next
  case (Cons x xs)
  with assms have "Min (set ls) = x"
    by (intro Min_eqI) auto
  with Cons assms(2) show ?thesis
    by auto
qed

lemma get_dummies_1d_lengths:
  "(c, ys) \<in> set (get_dummies_1d (p, xs) drop_first) \<Longrightarrow> length ys = length xs"
  by (auto simp: get_dummies_1d_def dummy_column_def split: if_splits)

lemma get_dummies_1d_one_row:
  "length xs \<le> 1 \<Longrightarrow> get_dummies_1d (p, xs) True = []"
  by (simp add: get_dummies_1d_def levels_le_one)

lemma concat_get_dummies_one_row:
  "\<forall>(c, xs) \<in> set s. length xs \<le> 1 \<Longrightarrow>
     concat (map (\<lambda>col. get_dummies_1d col True) s) = []"
  by (induction s) (auto simp: get_dummies_1d_one_row)

section \<open>One-hot encoding of a whole frame\<close>

lemma get_dummies_returns_iff:
  "returns (get_dummies df cs drop_first) \<longleftrightarrow> set cs \<subseteq> set (columns df)"
  by (auto simp: get_dummies_def getitems_def drop_columns_def missing_columns_Nil_iff)

lemma get_dummies_missing:
  "\<not> set cs \<subseteq> set (columns df) \<Longrightarrow>
     get_dummies df cs drop_first = Raise (KeyError (missing_columns df cs))"
  by (simp add: get_dummies_def getitems_def missing_columns_Nil_iff)

lemma frame_ok_get_dummies [frame_wf]:
  assumes "frame_ok df" and "get_dummies df cs drop_first = Return r"
  shows "frame_ok r"
proof -
  from assms(2) obtain enc rest where enc: "getitems df cs = Return enc"
    and rest: "drop_columns df cs = Return rest"
    and r: "r = rest\<lparr>series := series rest @
        concat (map (\<lambda>col. get_dummies_1d col drop_first) (series enc))\<rparr>"
    by (auto simp: get_dummies_def and_then_Return_iff)
  have "frame_ok rest" and idx: "index rest = index df"
    using assms(1) rest by (auto intro: frame_ok_drop_columns dest: drop_columns_Return)
  moreover have "length ys = length (index df)"
    if "(p, xs) \<in> set (series enc)" and "(c, ys) \<in> set (get_dummies_1d (p, xs) drop_first)"
    for p xs c ys
    using that getitems_series_lengths [OF assms(1) enc] get_dummies_1d_lengths by metis
  ultimately show ?thesis
    by (fastforce simp: r frame_ok_def list_all_iff)
qed

lemma get_dummies_one_row:
  assumes ok: "frame_ok df" and one: "length (index df) \<le> 1"
    and present: "set cs \<subseteq> set (columns df)"
  shows "get_dummies df cs True =
     Return (df\<lparr>series := filter (\<lambda>(k, xs). k \<notin> set cs) (series df)\<rparr>)"
proof -
  from present have m: "missing_columns df cs = []"
    by (simp add: missing_columns_Nil_iff)
  then obtain enc where enc: "getitems df cs = Return enc"
    by (simp add: getitems_def)
  have "length xs \<le> 1" if "(c, xs) \<in> set (series enc)" for c xs
    using getitems_series_lengths [OF ok enc that] one by simp
  then have "concat (map (\<lambda>col. get_dummies_1d col True) (series enc)) = []"
    by (intro concat_get_dummies_one_row) auto
  then show ?thesis
    by (simp add: get_dummies_def enc drop_columns_def m)
qed

lemma to_numpy_one_row:
  "index df = [i] \<Longrightarrow> to_numpy df = [map (\<lambda>(c, xs). xs ! 0) (series df)]"
  by (simp add: to_numpy_def)

lemma length_to_numpy [simp]: "length (to_numpy df) = length (index df)"
  by (simp add: to_numpy_def)

lemma to_numpy_widths: "r \<in> set (to_numpy df) \<Longrightarrow> length r = length (columns df)"
  by (auto simp: to_numpy_def columns_def)

lemmas frame_eval [py_eval] =
  to_numpy_def columns_def frame_ok_def DataFrame_row_def DataFrame_fill_def has_column_def
  getitem_def iloc_def setitem_def missing_columns_def getitems_def drop_columns_def
  levels_def dummy_column_def get_dummies_1d_def get_dummies_def

section \<open>Properties of the encoding\<close>

text \<open>
  A frame of three patients in which \<^verbatim>\<open>sex\<close> takes both values and \<^verbatim>\<open>thal\<close> takes
  three: the encoding keeps \<^verbatim>\<open>age\<close> and adds one indicator per level but the first.
\<close>

lemma get_dummies_three_rows:
  "get_dummies
     \<lparr>index = [0, 1, 2],
      series = [(''age'', [IntC 63, IntC 41, IntC 57]), (''sex'', [IntC 1, IntC 0, IntC 1]),
        (''thal'', [IntC 6, IntC 3, IntC 7])]\<rparr> [''sex'', ''thal''] True =
   Return
     \<lparr>index = [0, 1, 2],
      series = [(''age'', [IntC 63, IntC 41, IntC 57]),
        (''sex_1'', [BoolC True, BoolC False, BoolC True]),
        (''thal_6'', [BoolC True, BoolC False, BoolC False]),
        (''thal_7'', [BoolC False, BoolC False, BoolC True])]\<rparr>"
  by (simp add: py_eval)

text \<open>
  C3. One-hot encoding with \<^verbatim>\<open>drop_first\<close> of a frame that has a single row returns
  the frame without the encoded columns and with no indicator column added: each
  encoded column has one level, and that level is the one dropped.
\<close>

theorem get_dummies_one_row_drops:
  assumes "frame_ok df" and "length (index df) = 1" and "get_dummies df cs True = Return r"
  shows "r = df\<lparr>series := filter (\<lambda>(k, xs). k \<notin> set cs) (series df)\<rparr>"
proof -
  from assms(3) have "set cs \<subseteq> set (columns df)"
    using get_dummies_returns_iff [of df cs True] by simp
  with assms show ?thesis
    by (simp add: get_dummies_one_row)
qed

theorem get_dummies_one_row_drops_witness:
  "get_dummies (DataFrame_row [(''age'', IntC 50), (''sex'', IntC 1), (''thal'', IntC 7)])
     [''sex'', ''thal''] True = Return \<lparr>index = [0], series = [(''age'', [IntC 50])]\<rparr>"
proof -
  let ?df = "DataFrame_row [(''age'', IntC 50), (''sex'', IntC 1), (''thal'', IntC 7)]"
  obtain r where r: "get_dummies ?df [''sex'', ''thal''] True = Return r"
    using get_dummies_returns_iff [of ?df "[''sex'', ''thal'']" True] by (auto simp: returns_iff)
  have "r = ?df\<lparr>series := filter (\<lambda>(k, xs). k \<notin> set [''sex'', ''thal'']) (series ?df)\<rparr>"
    by (rule get_dummies_one_row_drops [OF _ _ r]) simp_all
  with r show ?thesis
    by (simp add: DataFrame_row_def)
qed

text \<open>
  C17. What each indicator column of an integer-coded column holds. The column
  named \<^verbatim>\<open>p_l\<close> exists exactly for the values \<open>l\<close> the column takes, except, with
  \<^verbatim>\<open>drop_first\<close>, for the smallest of them; its cell in a row is \<^verbatim>\<open>True\<close> exactly
  when the row holds \<open>l\<close>. So a row that holds the smallest value is all
  \<^verbatim>\<open>False\<close> under \<^verbatim>\<open>drop_first\<close>, and a column with a single value gets no indicator.
\<close>

theorem get_dummies_1d_indicator:
  "map_of (get_dummies_1d (p, map IntC ns) drop_first) (p @ ''_'' @ str_int l) =
     (if l \<in> set ns \<and> \<not> (drop_first \<and> l = Min (set ns))
      then Some (map (\<lambda>n. BoolC (n = l)) ns) else None)"
proof -
  define ls where "ls = (if drop_first then tl (sort (remdups ns)) else sort (remdups ns))"
  have "get_dummies_1d (p, map IntC ns) drop_first =
      map (\<lambda>v. (p @ ''_'' @ str_int v, map (\<lambda>n. BoolC (n = v)) ns)) ls"
    by (simp add: get_dummies_1d_def levels_map_IntC_sort dummy_column_def ls_def map_tl comp_def)
  moreover have "inj (\<lambda>v. p @ ''_'' @ str_int v)"
    by (simp add: inj_def)
  from map_of_named [OF this, of "\<lambda>v. map (\<lambda>n. BoolC (n = v)) ns" ls l]
  have "map_of (map (\<lambda>v. (p @ ''_'' @ str_int v, map (\<lambda>n. BoolC (n = v)) ns)) ls)
      (p @ ''_'' @ str_int l) = (if l \<in> set ls then Some (map (\<lambda>n. BoolC (n = l)) ns) else None)" .
  moreover have "l \<in> set ls \<longleftrightarrow> l \<in> set ns \<and> \<not> (drop_first \<and> l = Min (set ns))"
    using set_tl_sorted [of "sort (remdups ns)" l] by (auto simp: ls_def)
  ultimately show ?thesis
    by (simp only:)
qed

theorem get_dummies_1d_indicator_witness:
  "map_of (get_dummies_1d (''thal'', map IntC [6, 3, 7, 3]) True) ''thal_7'' =
     Some [BoolC False, BoolC False, BoolC True, BoolC False] \<and>
   map_of (get_dummies_1d (''thal'', map IntC [6, 3, 7, 3]) True) ''thal_3'' = None"
  using get_dummies_1d_indicator [of "''thal''" "[6, 3, 7, 3]" True 7]
    get_dummies_1d_indicator [of "''thal''" "[6, 3, 7, 3]" True 3]
  by (simp add: py_eval)

end
