(* ===== verification/Input_Collector.thy ===== *)
theory Input_Collector
  imports Py_Prelude
begin

text \<open>
  The input form of \<^verbatim>\<open>src/main.py\<close> (lines 78 to 116): thirteen Streamlit widgets
  whose values are written into the dictionary \<^verbatim>\<open>input_data\<close> or kept as a selected
  label.

  Streamlit reruns the script on every interaction and each widget call returns the
  widget's current value: its default until the user has touched it, the user's
  value afterwards. \<open>ui_state\<close> is what the browser holds for the widgets (\<open>None\<close>
  for an untouched widget) and whether the button was pressed; \<open>slider\<close>,
  \<open>number_input\<close>, \<open>radio\<close> and \<open>selectbox\<close> read it. The bounds of a numeric widget
  and the options of a choice widget are enforced by the browser, not by the script:
  \<open>ui_ok\<close> states them as an assumption on the state, and the lemmas say what the
  script may rely on under it. An untouched choice widget returns its first option;
  every option list of the script is a non-empty literal (\<open>options_nonempty\<close>).

  A \<open>widget\<close> is a widget call as the script writes it: the kind of widget, its
  label and its bounds or options (a \<open>Radio\<close> shows the first component of an
  option, the \<^verbatim>\<open>format_func\<close> of lines 97, 102 and 108; a \<open>Button\<close> has a label and a
  type). The page shows the widgets (theory \<open>App_Script\<close>); here they are read.

  \<open>collect\<close> is the block itself: the nine assignments to \<^verbatim>\<open>input_data\<close> in source
  order and the four selected labels. The four label dictionaries \<open>cp_map\<close>,
  \<open>restecg_map\<close>, \<open>slope_map\<close> and \<open>thal_map\<close> are the literals of lines 99, 105, 110
  and 115.
\<close>

section \<open>Widgets\<close>

record 'a bounds =
  min_value :: 'a
  max_value :: 'a
  default_value :: 'a

definition in_bounds :: "('a::linorder) bounds \<Rightarrow> 'a \<Rightarrow> bool" where
  "in_bounds b v \<longleftrightarrow> min_value b \<le> v \<and> v \<le> max_value b"

definition slider :: "'a bounds \<Rightarrow> 'a option \<Rightarrow> 'a" where
  "slider b st = (case st of None \<Rightarrow> default_value b | Some v \<Rightarrow> v)"

definition number_input :: "'a bounds \<Rightarrow> 'a option \<Rightarrow> 'a" where
  "number_input b st = (case st of None \<Rightarrow> default_value b | Some v \<Rightarrow> v)"

definition radio :: "'a list \<Rightarrow> 'a option \<Rightarrow> 'a" where
  "radio options st = (case st of None \<Rightarrow> hd options | Some x \<Rightarrow> x)"

definition selectbox :: "'a list \<Rightarrow> 'a option \<Rightarrow> 'a" where
  "selectbox options st = (case st of None \<Rightarrow> hd options | Some x \<Rightarrow> x)"

datatype widget =
    Slider string "int bounds"
  | Float_slider string "rat bounds"
  | Number_input string "int bounds"
  | Radio string "(string \<times> int) list"
  | Selectbox string "string list"
  | Int_selectbox string "int list"
  | Button string string

section \<open>The literals of the form\<close>

definition age_bounds :: "int bounds" where
  "age_bounds = \<lparr>min_value = 20, max_value = 80, default_value = 50\<rparr>"

definition trestbps_bounds :: "int bounds" where
  "trestbps_bounds = \<lparr>min_value = 90, max_value = 200, default_value = 120\<rparr>"

definition chol_bounds :: "int bounds" where
  "chol_bounds = \<lparr>min_value = 100, max_value = 600, default_value = 240\<rparr>"

definition thalach_bounds :: "int bounds" where
  "thalach_bounds = \<lparr>min_value = 70, max_value = 220, default_value = 150\<rparr>"

definition oldpeak_bounds :: "rat bounds" where
  "oldpeak_bounds = \<lparr>min_value = 0.0, max_value = 6.2, default_value = 1.0\<rparr>"

definition sex_options :: "(string \<times> int) list" where
  "sex_options = [(''Pria'', 1), (''Wanita'', 0)]"

definition yes_no_options :: "(string \<times> int) list" where
  "yes_no_options = [(''Ya'', 1), (''Tidak'', 0)]"

definition ca_options :: "int list" where
  "ca_options = [0, 1, 2, 3]"

definition cp_map :: "(string, int) dict" where
  "cp_map = [(''Typical Angina'', 0), (''Atypical Angina'', 1), (''Non-Anginal'', 2),
     (''Asymptomatic'', 3)]"

definition restecg_map :: "(string, int) dict" where
  "restecg_map = [(''Normal'', 0), (''ST-T Abnormality'', 1), (''LV Hypertrophy'', 2)]"

definition slope_map :: "(string, int) dict" where
  "slope_map = [(''Up-sloping'', 0), (''Flat'', 1), (''Down-sloping'', 2)]"

definition thal_map :: "(string, int) dict" where
  "thal_map = [(''Normal (3)'', 3), (''Fixed Defect (6)'', 6), (''Reversable Defect (7)'', 7)]"

section \<open>The state of the form and the collected record\<close>

record ui_state =
  age_w :: "int option"
  trestbps_w :: "int option"
  chol_w :: "int option"
  thalach_w :: "int option"
  oldpeak_w :: "rat option"
  sex_w :: "(string \<times> int) option"
  cp_w :: "string option"
  fbs_w :: "(string \<times> int) option"
  restecg_w :: "string option"
  exang_w :: "(string \<times> int) option"
  slope_w :: "string option"
  ca_w :: "int option"
  thal_w :: "string option"
  button_w :: bool

record collected =
  input_data :: "(string, cell) dict"
  cp_selection :: string
  restecg_selection :: string
  slope_selection :: string
  thal_selection :: string

definition bounded :: "('a::linorder) bounds \<Rightarrow> 'a option \<Rightarrow> bool" where
  "bounded b st = (case st of None \<Rightarrow> True | Some v \<Rightarrow> in_bounds b v)"

definition offered :: "'a list \<Rightarrow> 'a option \<Rightarrow> bool" where
  "offered options st = (case st of None \<Rightarrow> True | Some x \<Rightarrow> List.member options x)"

definition ui_ok :: "ui_state \<Rightarrow> bool" where
  "ui_ok ui \<longleftrightarrow>
     bounded age_bounds (age_w ui) \<and> bounded trestbps_bounds (trestbps_w ui) \<and>
     bounded chol_bounds (chol_w ui) \<and> bounded thalach_bounds (thalach_w ui) \<and>
     bounded oldpeak_bounds (oldpeak_w ui) \<and>
     offered sex_options (sex_w ui) \<and> offered (dict_keys cp_map) (cp_w ui) \<and>
     offered yes_no_options (fbs_w ui) \<and> offered (dict_keys restecg_map) (restecg_w ui) \<and>
     offered yes_no_options (exang_w ui) \<and> offered (dict_keys slope_map) (slope_w ui) \<and>
     offered ca_options (ca_w ui) \<and> offered (dict_keys thal_map) (thal_w ui)"

definition initial_ui :: ui_state where
  "initial_ui = \<lparr>age_w = None, trestbps_w = None, chol_w = None, thalach_w = None,
     oldpeak_w = None, sex_w = None, cp_w = None, fbs_w = None, restecg_w = None,
     exang_w = None, slope_w = None, ca_w = None, thal_w = None, button_w = False\<rparr>"

section \<open>The form\<close>

definition collect :: "ui_state \<Rightarrow> collected" where
  "collect ui =
     (let d = [];
          d = dict_set d ''age'' (IntC (slider age_bounds (age_w ui)));
          d = dict_set d ''trestbps'' (IntC (number_input trestbps_bounds (trestbps_w ui)));
          d = dict_set d ''chol'' (IntC (number_input chol_bounds (chol_w ui)));
          d = dict_set d ''thalach'' (IntC (number_input thalach_bounds (thalach_w ui)));
          d = dict_set d ''oldpeak'' (FloatC (slider oldpeak_bounds (oldpeak_w ui)));
          d = dict_set d ''sex'' (IntC (snd (radio sex_options (sex_w ui))));
          cp = selectbox (dict_keys cp_map) (cp_w ui);
          d = dict_set d ''fbs'' (IntC (snd (radio yes_no_options (fbs_w ui))));
          restecg = selectbox (dict_keys restecg_map) (restecg_w ui);
          d = dict_set d ''exang'' (IntC (snd (radio yes_no_options (exang_w ui))));
          slope = selectbox (dict_keys slope_map) (slope_w ui);
          d = dict_set d ''ca'' (IntC (selectbox ca_options (ca_w ui)));
          thal = selectbox (dict_keys thal_map) (thal_w ui)
      in \<lparr>input_data = d, cp_selection = cp, restecg_selection = restecg,
           slope_selection = slope, thal_selection = thal\<rparr>)"

section \<open>What the widgets return\<close>

lemma slider_bounded:
  "in_bounds b (default_value b) \<Longrightarrow> bounded b st \<Longrightarrow> in_bounds b (slider b st)"
  by (simp add: slider_def bounded_def split: option.splits)

lemma number_input_bounded:
  "in_bounds b (default_value b) \<Longrightarrow> bounded b st \<Longrightarrow> in_bounds b (number_input b st)"
  by (simp add: number_input_def bounded_def split: option.splits)

lemma radio_offered: "options \<noteq> [] \<Longrightarrow> offered options st \<Longrightarrow> radio options st \<in> set options"
  by (simp add: radio_def offered_def split: option.splits)

lemma selectbox_offered:
  "options \<noteq> [] \<Longrightarrow> offered options st \<Longrightarrow> selectbox options st \<in> set options"
  by (simp add: selectbox_def offered_def split: option.splits)

lemma defaults_in_bounds:
  "in_bounds age_bounds (default_value age_bounds)"
  "in_bounds trestbps_bounds (default_value trestbps_bounds)"
  "in_bounds chol_bounds (default_value chol_bounds)"
  "in_bounds thalach_bounds (default_value thalach_bounds)"
  "in_bounds oldpeak_bounds (default_value oldpeak_bounds)"
  by (simp_all add: in_bounds_def age_bounds_def trestbps_bounds_def chol_bounds_def
      thalach_bounds_def oldpeak_bounds_def)

lemma options_nonempty:
  "sex_options \<noteq> []" "yes_no_options \<noteq> []" "ca_options \<noteq> []"
  "dict_keys cp_map \<noteq> []" "dict_keys restecg_map \<noteq> []"
  "dict_keys slope_map \<noteq> []" "dict_keys thal_map \<noteq> []"
  by (simp_all add: sex_options_def yes_no_options_def ca_options_def cp_map_def
      restecg_map_def slope_map_def thal_map_def)

lemma label_maps_ok:
  "dict_ok cp_map" "dict_ok restecg_map" "dict_ok slope_map" "dict_ok thal_map"
  by (simp_all add: dict_ok_def cp_map_def restecg_map_def slope_map_def thal_map_def)

lemma ui_ok_initial [simp]: "ui_ok initial_ui"
  by (simp add: ui_ok_def initial_ui_def bounded_def offered_def)

section \<open>What the form collects\<close>

lemma input_data_collect:
  "input_data (collect ui) =
     [(''age'', IntC (slider age_bounds (age_w ui))),
      (''trestbps'', IntC (number_input trestbps_bounds (trestbps_w ui))),
      (''chol'', IntC (number_input chol_bounds (chol_w ui))),
      (''thalach'', IntC (number_input thalach_bounds (thalach_w ui))),
      (''oldpeak'', FloatC (slider oldpeak_bounds (oldpeak_w ui))),
      (''sex'', IntC (snd (radio sex_options (sex_w ui)))),
      (''fbs'', IntC (snd (radio yes_no_options (fbs_w ui)))),
      (''exang'', IntC (snd (radio yes_no_options (exang_w ui)))),
      (''ca'', IntC (selectbox ca_options (ca_w ui)))]"
  by (simp add: collect_def Let_def dict_set_def)

lemma dict_keys_collect:
  "dict_keys (input_data (collect ui)) =
     [''age'', ''trestbps'', ''chol'', ''thalach'', ''oldpeak'', ''sex'', ''fbs'', ''exang'', ''ca'']"
  by (simp add: collect_def Let_def dict_set_def dict_keys_def)

lemma dict_ok_collect [simp, frame_wf]: "dict_ok (input_data (collect ui))"
  by (simp add: dict_ok_def dict_keys_collect)

lemma collect_selections:
  "cp_selection (collect ui) = selectbox (dict_keys cp_map) (cp_w ui)"
  "restecg_selection (collect ui) = selectbox (dict_keys restecg_map) (restecg_w ui)"
  "slope_selection (collect ui) = selectbox (dict_keys slope_map) (slope_w ui)"
  "thal_selection (collect ui) = selectbox (dict_keys thal_map) (thal_w ui)"
  by (simp_all add: collect_def Let_def)

lemma collect_numeric:
  "map_of (input_data (collect ui)) ''age'' = Some (IntC (slider age_bounds (age_w ui)))"
  "map_of (input_data (collect ui)) ''trestbps'' =
     Some (IntC (number_input trestbps_bounds (trestbps_w ui)))"
  "map_of (input_data (collect ui)) ''chol'' = Some (IntC (number_input chol_bounds (chol_w ui)))"
  "map_of (input_data (collect ui)) ''thalach'' =
     Some (IntC (number_input thalach_bounds (thalach_w ui)))"
  "map_of (input_data (collect ui)) ''oldpeak'' =
     Some (FloatC (slider oldpeak_bounds (oldpeak_w ui)))"
  by (simp_all add: collect_def Let_def)

lemma collect_codes:
  "map_of (input_data (collect ui)) ''sex'' = Some (IntC (snd (radio sex_options (sex_w ui))))"
  "map_of (input_data (collect ui)) ''fbs'' = Some (IntC (snd (radio yes_no_options (fbs_w ui))))"
  "map_of (input_data (collect ui)) ''exang'' =
     Some (IntC (snd (radio yes_no_options (exang_w ui))))"
  "map_of (input_data (collect ui)) ''ca'' = Some (IntC (selectbox ca_options (ca_w ui)))"
  by (simp_all add: collect_def Let_def)

lemma selections_offered:
  assumes "ui_ok ui"
  shows "cp_selection (collect ui) \<in> set (dict_keys cp_map)"
    and "restecg_selection (collect ui) \<in> set (dict_keys restecg_map)"
    and "slope_selection (collect ui) \<in> set (dict_keys slope_map)"
    and "thal_selection (collect ui) \<in> set (dict_keys thal_map)"
  using assms by (simp_all add: collect_selections ui_ok_def selectbox_offered options_nonempty)

lemmas collector_eval [py_eval] =
  in_bounds_def slider_def number_input_def radio_def selectbox_def
  age_bounds_def trestbps_bounds_def chol_bounds_def thalach_bounds_def oldpeak_bounds_def
  sex_options_def yes_no_options_def ca_options_def
  cp_map_def restecg_map_def slope_map_def thal_map_def
  bounded_def offered_def ui_ok_def initial_ui_def collect_def

section \<open>Properties of the form\<close>

text \<open>
  C13. Bounds of the collected record: on every state the browser can produce, the
  nine entries written by the form hold an age from 20 to 80, a resting blood
  pressure from 90 to 200, a cholesterol from 100 to 600, a maximum heart rate from 70
  to 220, an ST depression from 0.0 to 6.2, the flags sex, fasting blood sugar and
  exercise angina in 0 or 1, and a vessel count from 0 to 3.
\<close>

theorem collect_in_bounds:
  assumes "ui_ok ui"
  shows "\<exists>age trestbps chol thalach oldpeak sex fbs exang ca.
     input_data (collect ui) =
       [(''age'', IntC age), (''trestbps'', IntC trestbps), (''chol'', IntC chol),
        (''thalach'', IntC thalach), (''oldpeak'', FloatC oldpeak), (''sex'', IntC sex),
        (''fbs'', IntC fbs), (''exang'', IntC exang), (''ca'', IntC ca)] \<and>
     20 \<le> age \<and> age \<le> 80 \<and> 90 \<le> trestbps \<and> trestbps \<le> 200 \<and> 100 \<le> chol \<and> chol \<le> 600 \<and>
     70 \<le> thalach \<and> thalach \<le> 220 \<and> 0 \<le> oldpeak \<and> oldpeak \<le> 6.2 \<and>
     sex \<in> {0, 1} \<and> fbs \<in> {0, 1} \<and> exang \<in> {0, 1} \<and> ca \<in> {0, 1, 2, 3}"
proof -
  have "in_bounds age_bounds (slider age_bounds (age_w ui))"
    "in_bounds trestbps_bounds (number_input trestbps_bounds (trestbps_w ui))"
    "in_bounds chol_bounds (number_input chol_bounds (chol_w ui))"
    "in_bounds thalach_bounds (number_input thalach_bounds (thalach_w ui))"
    "in_bounds oldpeak_bounds (slider oldpeak_bounds (oldpeak_w ui))"
    using assms
    by (simp_all add: ui_ok_def slider_bounded number_input_bounded defaults_in_bounds)
  moreover have "radio sex_options (sex_w ui) \<in> set sex_options"
    "radio yes_no_options (fbs_w ui) \<in> set yes_no_options"
    "radio yes_no_options (exang_w ui) \<in> set yes_no_options"
    "selectbox ca_options (ca_w ui) \<in> set ca_options"
    using assms by (simp_all add: ui_ok_def radio_offered selectbox_offered options_nonempty)
  ultimately show ?thesis
    unfolding input_data_collect
    by (auto simp: in_bounds_def age_bounds_def trestbps_bounds_def chol_bounds_def
        thalach_bounds_def oldpeak_bounds_def sex_options_def yes_no_options_def ca_options_def)
qed

theorem collect_in_bounds_witness:
  "\<exists>age trestbps chol thalach oldpeak sex fbs exang ca.
     input_data (collect initial_ui) =
       [(''age'', IntC age), (''trestbps'', IntC trestbps), (''chol'', IntC chol),
        (''thalach'', IntC thalach), (''oldpeak'', FloatC oldpeak), (''sex'', IntC sex),
        (''fbs'', IntC fbs), (''exang'', IntC exang), (''ca'', IntC ca)] \<and>
     20 \<le> age \<and> age \<le> 80 \<and> 90 \<le> trestbps \<and> trestbps \<le> 200 \<and> 100 \<le> chol \<and> chol \<le> 600 \<and>
     70 \<le> thalach \<and> thalach \<le> 220 \<and> 0 \<le> oldpeak \<and> oldpeak \<le> 6.2 \<and>
     sex \<in> {0, 1} \<and> fbs \<in> {0, 1} \<and> exang \<in> {0, 1} \<and> ca \<in> {0, 1, 2, 3}"
  by (rule collect_in_bounds) simp

end
