(* ===== verification/Feature_Aligner.thy ===== *)
theory Feature_Aligner
  imports Data_Frame Input_Collector
begin

text \<open>
  The first three steps of the prediction handler of \<^verbatim>\<open>src/main.py\<close> (lines 120 to
  143), which turn the collected form into the one-row frame handed to the scaler.

  \<^item> \<open>convert_selections\<close> (lines 123 to 126) looks the four selected labels up in
    their dictionaries and stores the codes under \<^verbatim>\<open>cp\<close>, \<^verbatim>\<open>restecg\<close>, \<^verbatim>\<open>slope\<close>
    and \<^verbatim>\<open>thal\<close>; a label that is no key raises \<open>KeyError\<close>.
  \<^item> \<open>encode_input\<close> (lines 129 to 134) builds the one-row frame \<^verbatim>\<open>input_df\<close> and
    one-hot encodes the eight columns \<open>cols_to_ohe\<close> with \<^verbatim>\<open>drop_first=True\<close>.
  \<^item> \<open>fill_final_input\<close> (lines 141 to 143) is the loop over the encoded frame's
    columns: a column that the model knows is copied into \<^verbatim>\<open>final_input\<close>, any other
    is skipped.
  \<^item> \<open>build_final_input\<close> (lines 129 to 143) composes them, starting the loop from
    the all-zero frame over \<^verbatim>\<open>model_columns\<close> (line 138); \<open>prepare_features\<close> puts
    \<open>convert_selections\<close> in front.

  \<open>reindex_row src cols\<close> is the reference the loop is compared with: the row that
  has, for each name of \<open>cols\<close> in order, the value \<open>src\<close> gives it or zero.

  The lemmas characterise every step on every input: when each raises, and what it
  returns otherwise. The central one, \<open>build_final_input_eq\<close>, shows that the handler
  computes \<open>reindex_row\<close> of the numeric fields alone: the frame has one row, so each
  encoded column has a single level, which \<^verbatim>\<open>drop_first\<close> removes, and no indicator
  column is ever produced.
\<close>

section \<open>The handler's steps\<close>

definition cols_to_ohe :: "string list" where
  "cols_to_ohe = [''sex'', ''cp'', ''fbs'', ''restecg'', ''exang'', ''slope'', ''ca'', ''thal'']"

definition convert_selections :: "collected \<Rightarrow> (string, cell) dict result" where
  "convert_selections c =
     and_then (dict_get cp_map (cp_selection c)) (\<lambda>cp.
     let d = dict_set (input_data c) ''cp'' (IntC cp) in
     and_then (dict_get restecg_map (restecg_selection c)) (\<lambda>restecg.
     let d = dict_set d ''restecg'' (IntC restecg) in
     and_then (dict_get slope_map (slope_selection c)) (\<lambda>slope.
     let d = dict_set d ''slope'' (IntC slope) in
     and_then (dict_get thal_map (thal_selection c)) (\<lambda>thal.
     Return (dict_set d ''thal'' (IntC thal))))))"

definition encode_input :: "(string, cell) dict \<Rightarrow> frame result" where
  "encode_input d = get_dummies (DataFrame_row d) cols_to_ohe True"

fun fill_final_input :: "frame \<Rightarrow> string list \<Rightarrow> frame \<Rightarrow> frame result" where
  "fill_final_input input_df_ohe [] final_input = Return final_input"
| "fill_final_input input_df_ohe (col # cols) final_input =
     (if has_column final_input col
      then and_then (getitem input_df_ohe col) (\<lambda>s.
           and_then (iloc s 0) (\<lambda>v.
           fill_final_input input_df_ohe cols (setitem final_input col v)))
      else fill_final_input input_df_ohe cols final_input)"

definition build_final_input :: "(string, cell) dict \<Rightarrow> string list \<Rightarrow> frame result" where
  "build_final_input d model_columns =
     and_then (encode_input d) (\<lambda>input_df_ohe.
     fill_final_input input_df_ohe (columns input_df_ohe)
       (DataFrame_fill (IntC 0) [0] model_columns))"

definition prepare_features :: "collected \<Rightarrow> string list \<Rightarrow> frame result" where
  "prepare_features c model_columns =
     and_then (convert_selections c) (\<lambda>d. build_final_input d model_columns)"

section \<open>The reference: reindexing a row\<close>

definition numeric_part :: "(string, cell) dict \<Rightarrow> (string, cell) dict" where
  "numeric_part d = filter (\<lambda>(k, v). k \<notin> set cols_to_ohe) d"

definition reindex_row :: "(string, cell) dict \<Rightarrow> string list \<Rightarrow> frame" where
  "reindex_row src cols =
     \<lparr>index = [0],
      series = map (\<lambda>c. (c, [case map_of src c of None \<Rightarrow> IntC 0 | Some v \<Rightarrow> v])) cols\<rparr>"

fun overlay :: "(string \<rightharpoonup> cell) \<Rightarrow> column \<Rightarrow> column" where
  "overlay m (k, xs) = (k, case m k of None \<Rightarrow> xs | Some v \<Rightarrow> [v])"

text \<open>
  The record of the specification's end-to-end scenario A, as it stands after
  \<open>convert_selections\<close>: the default numeric values, a male patient, and the first
  code of every other categorical field.
\<close>

definition scenario_A :: "(string, cell) dict" where
  "scenario_A =
     [(''age'', IntC 50), (''trestbps'', IntC 120), (''chol'', IntC 240), (''thalach'', IntC 150),
      (''oldpeak'', FloatC 1.0), (''sex'', IntC 1), (''fbs'', IntC 0), (''exang'', IntC 0),
      (''ca'', IntC 0), (''cp'', IntC 0), (''restecg'', IntC 0), (''slope'', IntC 0),
      (''thal'', IntC 3)]"

section \<open>Converting the selected labels\<close>

lemma convert_selections_Return:
  assumes "map_of cp_map (cp_selection c) = Some cp"
    and "map_of restecg_map (restecg_selection c) = Some restecg"
    and "map_of slope_map (slope_selection c) = Some slope"
    and "map_of thal_map (thal_selection c) = Some thal"
  shows "convert_selections c =
     Return (dict_set (dict_set (dict_set (dict_set (input_data c)
       ''cp'' (IntC cp)) ''restecg'' (IntC restecg)) ''slope'' (IntC slope)) ''thal'' (IntC thal))"
  using assms by (simp add: convert_selections_def dict_get_def)

lemma convert_selections_returns_iff:
  "returns (convert_selections c) \<longleftrightarrow>
     cp_selection c \<in> set (dict_keys cp_map) \<and>
     restecg_selection c \<in> set (dict_keys restecg_map) \<and>
     slope_selection c \<in> set (dict_keys slope_map) \<and>
     thal_selection c \<in> set (dict_keys thal_map)"
  by (simp add: convert_selections_def returns_and_then Let_def dict_get_Return_ex_iff)

lemma convert_selections_keys:
  assumes "convert_selections c = Return d"
  shows "set (dict_keys d) = set (dict_keys (input_data c)) \<union> {''cp'', ''restecg'', ''slope'', ''thal''}"
  using assms by (auto simp: convert_selections_def and_then_Return_iff Let_def)

lemma convert_selections_ok [frame_wf]:
  "dict_ok (input_data c) \<Longrightarrow> convert_selections c = Return d \<Longrightarrow> dict_ok d"
  by (auto simp: convert_selections_def and_then_Return_iff Let_def)

lemma convert_selections_other:
  assumes "convert_selections c = Return d" and "k \<notin> {''cp'', ''restecg'', ''slope'', ''thal''}"
  shows "map_of d k = map_of (input_data c) k"
  using assms by (auto simp: convert_selections_def and_then_Return_iff Let_def)

section \<open>Encoding one row\<close>

lemma filter_row: "filter (\<lambda>(k, xs). P k) (map (\<lambda>(k, v). (k, [v])) d) =
    map (\<lambda>(k, v). (k, [v])) (filter (\<lambda>(k, v). P k) d)"
  by (induction d) auto

lemma encode_input_Return:
  assumes "set cols_to_ohe \<subseteq> set (dict_keys d)"
  shows "encode_input d = Return (DataFrame_row (numeric_part d))"
proof -
  have "get_dummies (DataFrame_row d) cols_to_ohe True =
      Return ((DataFrame_row d)\<lparr>series :=
        filter (\<lambda>(k, xs). k \<notin> set cols_to_ohe) (series (DataFrame_row d))\<rparr>)"
    using assms by (intro get_dummies_one_row) simp_all
  then show ?thesis
    by (simp add: encode_input_def numeric_part_def DataFrame_row_def filter_row)
qed

lemma encode_input_Raise:
  assumes "\<not> set cols_to_ohe \<subseteq> set (dict_keys d)"
  shows "encode_input d =
     Raise (KeyError (filter (\<lambda>c. c \<notin> set (dict_keys d)) cols_to_ohe))"
  using assms
  by (simp add: encode_input_def get_dummies_missing missing_columns_def has_column_def)

section \<open>The loop\<close>

lemma getitem_DataFrame_row:
  "getitem (DataFrame_row src) c =
     (case map_of src c of None \<Rightarrow> Raise (KeyError [c]) | Some v \<Rightarrow> Return [v])"
  by (simp add: getitem_def map_of_DataFrame_row split: option.splits)

lemma setitem_one_row:
  "length (index fin) = 1 \<Longrightarrow> has_column fin c \<Longrightarrow>
     setitem fin c v = fin\<lparr>series := map (\<lambda>(k, xs). if k = c then (k, [v]) else (k, xs)) (series fin)\<rparr>"
  by (simp add: setitem_def)

lemma map_overlay_setitem:
  assumes "map_of src c = Some v"
  shows "map (overlay (map_of src |` set cs))
      (map (\<lambda>(k, xs). if k = c then (k, [v]) else (k, xs)) s) =
    map (overlay (map_of src |` set (c # cs))) s"
  using assms by (induction s) (auto simp: restrict_map_def)

lemma map_overlay_skip:
  assumes "c \<notin> fst ` set s"
  shows "map (overlay (m |` insert c A)) s = map (overlay (m |` A)) s"
  using assms by (induction s) (auto simp: restrict_map_def)

lemma fill_final_input_eq:
  assumes "length (index fin) = 1" and "set cs \<subseteq> set (dict_keys src)"
  shows "fill_final_input (DataFrame_row src) cs fin =
     Return (fin\<lparr>series := map (overlay (map_of src |` set cs)) (series fin)\<rparr>)"
  using assms
proof (induction cs arbitrary: fin)
  case Nil
  have "map (overlay Map.empty) s = s" for s
    by (induction s) auto
  then show ?case by simp
next
  case (Cons c cs)
  from Cons.prems(2) obtain v where v: "map_of src c = Some v"
    using map_of_present [of c src] by auto
  from Cons.prems(2) have sub: "set cs \<subseteq> set (dict_keys src)"
    by simp
  show ?case
  proof (cases "has_column fin c")
    case True
    have "length (index (setitem fin c v)) = 1"
      using Cons.prems(1) by simp
    from Cons.IH [OF this sub] True v Cons.prems(1) show ?thesis
      by (simp add: getitem_DataFrame_row setitem_one_row map_overlay_setitem del: map_map)
  next
    case False
    then have "c \<notin> fst ` set (series fin)"
      by (simp add: has_column_def columns_def)
    with Cons.IH [OF Cons.prems(1) sub] False show ?thesis
      by (simp add: map_overlay_skip)
  qed
qed

lemma fill_final_input_reindex:
  "fill_final_input (DataFrame_row src) (dict_keys src) (DataFrame_fill (IntC 0) [0] cols) =
     Return (reindex_row src cols)"
proof -
  have "map_of src |` set (dict_keys src) = map_of src"
    by (auto simp: restrict_map_def map_of_absent)
  moreover have "map (overlay m) (map (\<lambda>c. (c, [IntC 0])) cols) =
      map (\<lambda>c. (c, [case m c of None \<Rightarrow> IntC 0 | Some v \<Rightarrow> v])) cols" for m
    by (induction cols) (auto split: option.splits)
  ultimately show ?thesis
    by (simp add: fill_final_input_eq reindex_row_def DataFrame_fill_def)
qed

section \<open>The whole alignment\<close>

lemma build_final_input_eq:
  assumes "set cols_to_ohe \<subseteq> set (dict_keys d)"
  shows "build_final_input d model_columns = Return (reindex_row (numeric_part d) model_columns)"
  by (simp add: build_final_input_def encode_input_Return [OF assms] fill_final_input_reindex)

lemma build_final_input_Raise:
  assumes "\<not> set cols_to_ohe \<subseteq> set (dict_keys d)"
  shows "build_final_input d model_columns =
     Raise (KeyError (filter (\<lambda>c. c \<notin> set (dict_keys d)) cols_to_ohe))"
  by (simp add: build_final_input_def encode_input_Raise [OF assms])

lemma build_final_input_ReturnD:
  assumes "build_final_input d model_columns = Return f"
  shows "set cols_to_ohe \<subseteq> set (dict_keys d)"
    and "f = reindex_row (numeric_part d) model_columns"
proof -
  show sub: "set cols_to_ohe \<subseteq> set (dict_keys d)"
    using assms build_final_input_Raise [of d model_columns] by (cases ?thesis) simp_all
  from assms show "f = reindex_row (numeric_part d) model_columns"
    by (simp add: build_final_input_eq [OF sub])
qed

lemma columns_reindex_row [simp]: "columns (reindex_row src cols) = cols"
  by (simp add: columns_def reindex_row_def comp_def)

lemma index_reindex_row [simp]: "index (reindex_row src cols) = [0]"
  by (simp add: reindex_row_def)

lemma frame_ok_reindex_row [simp, frame_wf]: "frame_ok (reindex_row src cols)"
  by (simp add: frame_ok_def reindex_row_def list_all_iff)

lemma getitem_reindex_row:
  "c \<in> set cols \<Longrightarrow>
     getitem (reindex_row src cols) c =
       Return [case map_of src c of None \<Rightarrow> IntC 0 | Some v \<Rightarrow> v]"
proof -
  have "map_of (map (\<lambda>c. (c, f c)) cols) c = (if c \<in> set cols then Some (f c) else None)"
    for f :: "string \<Rightarrow> cell list"
    by (induction cols) auto
  then show "c \<in> set cols \<Longrightarrow> ?thesis"
    by (simp add: getitem_def reindex_row_def)
qed

lemma map_of_numeric_part:
  "map_of (numeric_part d) k = (if k \<in> set cols_to_ohe then None else map_of d k)"
  by (induction d) (auto simp: numeric_part_def)

lemmas aligner_eval [py_eval] =
  cols_to_ohe_def convert_selections_def encode_input_def build_final_input_def
  prepare_features_def numeric_part_def reindex_row_def

section \<open>Properties of the alignment\<close>

text \<open>
  C1. The frame handed to the scaler does not depend on any categorical input: two
  records that carry all eight categorical fields and agree on the remaining fields
  are aligned to the same frame, whatever sex, chest-pain type, blood-sugar flag, ECG
  result, angina flag, slope, vessel count and thalassemia code they hold.
\<close>

theorem final_input_ignores_categoricals:
  assumes "set cols_to_ohe \<subseteq> set (dict_keys d)" and "set cols_to_ohe \<subseteq> set (dict_keys d')"
    and "numeric_part d = numeric_part d'"
  shows "build_final_input d model_columns = build_final_input d' model_columns"
  using assms by (simp add: build_final_input_eq)

theorem final_input_ignores_categoricals_witness:
  "build_final_input
     [(''age'', IntC 50), (''sex'', IntC 1), (''cp'', IntC 3), (''fbs'', IntC 1),
      (''restecg'', IntC 2), (''exang'', IntC 1), (''slope'', IntC 2), (''ca'', IntC 3),
      (''thal'', IntC 7)] [''age'', ''sex_1'', ''thal_7''] =
   build_final_input
     [(''age'', IntC 50), (''sex'', IntC 0), (''cp'', IntC 0), (''fbs'', IntC 0),
      (''restecg'', IntC 0), (''exang'', IntC 0), (''slope'', IntC 0), (''ca'', IntC 0),
      (''thal'', IntC 3)] [''age'', ''sex_1'', ''thal_7'']"
  by (rule final_input_ignores_categoricals) (simp_all add: cols_to_ohe_def numeric_part_def)

text \<open>
  C2. The alignment on every input: when one of the eight categorical fields is
  missing from the record it raises \<open>KeyError\<close> with the missing names; otherwise it
  returns the one-row frame over the model's columns, in the model's order, that
  holds the record's non-categorical value under each name the record has and zero
  under every other name.
\<close>

theorem build_final_input_cases:
  "build_final_input d model_columns =
     (if set cols_to_ohe \<subseteq> set (dict_keys d)
      then Return (reindex_row (numeric_part d) model_columns)
      else Raise (KeyError (filter (\<lambda>c. c \<notin> set (dict_keys d)) cols_to_ohe)))"
  by (simp add: build_final_input_eq build_final_input_Raise)

text \<open>
  C4. Whenever the alignment returns, the frame has exactly the model's columns in the
  model's order and one row, so the array given to the scaler is one vector whose
  length is the number of model columns, whichever options were chosen.
\<close>

theorem final_input_shape:
  assumes "build_final_input d model_columns = Return f"
  shows "columns f = model_columns \<and> index f = [0] \<and> frame_ok f \<and>
     (\<exists>r. to_numpy f = [r] \<and> length r = length model_columns)"
proof -
  from assms have "f = reindex_row (numeric_part d) model_columns"
    by (rule build_final_input_ReturnD)
  then show ?thesis
    by (simp add: to_numpy_one_row) (simp add: reindex_row_def)
qed

theorem final_input_shape_witness:
  "\<exists>f. build_final_input
       [(''age'', IntC 50), (''sex'', IntC 1), (''cp'', IntC 3), (''fbs'', IntC 1),
        (''restecg'', IntC 2), (''exang'', IntC 1), (''slope'', IntC 2), (''ca'', IntC 3),
        (''thal'', IntC 7)] [''thal_7'', ''age''] = Return f \<and>
     columns f = [''thal_7'', ''age''] \<and> index f = [0] \<and> frame_ok f \<and>
     (\<exists>r. to_numpy f = [r] \<and> length r = length [''thal_7'', ''age''])"
proof -
  let ?d = "[(''age'', IntC 50), (''sex'', IntC 1), (''cp'', IntC 3), (''fbs'', IntC 1),
        (''restecg'', IntC 2), (''exang'', IntC 1), (''slope'', IntC 2), (''ca'', IntC 3),
        (''thal'', IntC 7)]"
  have "build_final_input ?d [''thal_7'', ''age''] =
      Return (reindex_row (numeric_part ?d) [''thal_7'', ''age''])"
    by (rule build_final_input_eq) (simp add: cols_to_ohe_def)
  then show ?thesis
    using final_input_shape by blast
qed

text \<open>
  C5. Round trip of a numeric field: if the model has a column named like a
  non-categorical field of the record, the aligned frame holds the record's value in
  that column.
\<close>

theorem final_input_roundtrip:
  assumes "build_final_input d model_columns = Return f"
    and "c \<in> set model_columns" and "c \<notin> set cols_to_ohe" and "map_of d c = Some v"
  shows "getitem f c = Return [v]"
proof -
  from assms(1) have "f = reindex_row (numeric_part d) model_columns"
    by (rule build_final_input_ReturnD)
  with assms(2-4) show ?thesis
    by (simp add: getitem_reindex_row map_of_numeric_part)
qed

theorem final_input_roundtrip_witness:
  "getitem (reindex_row (numeric_part scenario_A) [''sex_1'', ''oldpeak'', ''age'']) ''oldpeak'' =
     Return [FloatC 1.0]"
proof (rule final_input_roundtrip [where d = scenario_A])
  show "build_final_input scenario_A [''sex_1'', ''oldpeak'', ''age''] =
      Return (reindex_row (numeric_part scenario_A) [''sex_1'', ''oldpeak'', ''age''])"
    by (rule build_final_input_eq) (simp add: scenario_A_def cols_to_ohe_def)
qed (simp_all add: scenario_A_def cols_to_ohe_def)

text \<open>
  C6. Zero fill: a model column that is not a non-categorical field of the record is
  zero in the aligned frame. This covers every indicator column such as \<^verbatim>\<open>sex_1\<close>
  or \<^verbatim>\<open>thal_7\<close>: it is zero even when the record has that very category.
\<close>

theorem final_input_zero_fill:
  assumes "build_final_input d model_columns = Return f"
    and "c \<in> set model_columns" and "c \<in> set cols_to_ohe \<or> c \<notin> set (dict_keys d)"
  shows "getitem f c = Return [IntC 0]"
proof -
  from assms(1) have "f = reindex_row (numeric_part d) model_columns"
    by (rule build_final_input_ReturnD)
  moreover from assms(3) have "map_of (numeric_part d) c = None"
    by (auto simp: map_of_numeric_part map_of_absent)
  ultimately show ?thesis
    using assms(2) by (simp add: getitem_reindex_row)
qed

theorem final_input_zero_fill_witness:
  "getitem (reindex_row (numeric_part scenario_A) [''sex_1'', ''oldpeak'', ''age'']) ''sex_1'' =
     Return [IntC 0]"
proof (rule final_input_zero_fill [where d = scenario_A])
  show "build_final_input scenario_A [''sex_1'', ''oldpeak'', ''age''] =
      Return (reindex_row (numeric_part scenario_A) [''sex_1'', ''oldpeak'', ''age''])"
    by (rule build_final_input_eq) (simp add: scenario_A_def cols_to_ohe_def)
qed (simp_all add: scenario_A_def cols_to_ohe_def dict_keys_def)

text \<open>
  C12. A selected label that is not a key of its dictionary makes the handler raise
  \<open>KeyError\<close> on the first such label, here the chest-pain label, before any frame
  is built.
\<close>

theorem convert_selections_KeyError:
  assumes "cp_selection c \<notin> set (dict_keys cp_map)"
  shows "convert_selections c = Raise (KeyError [cp_selection c]) \<and>
     prepare_features c model_columns = Raise (KeyError [cp_selection c])"
  using assms by (simp add: prepare_features_def convert_selections_def dict_get_Raise)

theorem convert_selections_KeyError_witness:
  "convert_selections
     \<lparr>input_data = [], cp_selection = ''Angina'', restecg_selection = ''Normal'',
      slope_selection = ''Flat'', thal_selection = ''Normal (3)''\<rparr> =
     Raise (KeyError [''Angina''])"
  using convert_selections_KeyError [of
      "\<lparr>input_data = [], cp_selection = ''Angina'', restecg_selection = ''Normal'',
        slope_selection = ''Flat'', thal_selection = ''Normal (3)''\<rparr>"]
  by (simp add: cp_map_def)

end
