(* ===== verification/Align_Spec.thy ===== *)
theory Align_Spec
  imports Feature_Aligner
begin

text \<open>
  The contract of the feature aligner as the specification states it (section 4.3),
  and how the handler of \<^verbatim>\<open>src/main.py\<close> relates to it.

  The specification's aligner expands every categorical field into one indicator per
  value of the field's domain except the reference value, and then reads the schema
  off the expanded record, zero where a name is absent. \<open>domains\<close> lists the eight
  domains of section 6 in ascending order, the first value being the reference, which
  is the level \<^verbatim>\<open>drop_first\<close> removes when the training frame is encoded
  (\<open>training_columns\<close>). \<open>expand\<close> is step 1, \<open>align_spec\<close> steps 1 and 2; a code
  outside its domain is the error \<open>UnknownCategoryCode\<close>.

  \<open>in_domain\<close> says that a record carries a code of the domain in a categorical
  field; with \<open>dict_ok\<close> it is the invariant of the specification's raw record.
  \<open>chosen_indicators\<close> lists the indicators such a record sets to one: one for every
  categorical field that does not hold its reference value.
  \<open>reset_categoricals\<close> replaces every categorical value by its reference value.

  The refinement lemma \<open>build_final_input_refines\<close> says that the handler computes
  the specification's vector of the record so reset, and \<open>handler_meets_spec_iff\<close>
  that it computes the specification's vector of the record itself exactly when
  none of the indicators the record sets is a column of the model.
\<close>

section \<open>The specification's aligner\<close>

datatype spec_error = ArtifactMissing | ArtifactCorrupt | UnknownCategoryCode | DimensionMismatch

definition domains :: "(string, int list) dict" where
  "domains = [(''sex'', [0, 1]), (''cp'', [0, 1, 2, 3]), (''fbs'', [0, 1]),
     (''restecg'', [0, 1, 2]), (''exang'', [0, 1]), (''slope'', [0, 1, 2]),
     (''ca'', [0, 1, 2, 3]), (''thal'', [3, 6, 7])]"

definition indicator_name :: "string \<Rightarrow> int \<Rightarrow> string" where
  "indicator_name field v = field @ ''_'' @ str_int v"

definition indicators :: "string \<Rightarrow> int list \<Rightarrow> int \<Rightarrow> (string, cell) dict" where
  "indicators field codes code =
     map (\<lambda>v. (indicator_name field v, IntC (if code = v then 1 else 0))) (tl codes)"

fun expand_field :: "(string, int list) dict \<Rightarrow> string \<times> cell \<Rightarrow> spec_error + (string, cell) dict"
  where
  "expand_field doms (k, v) =
     (case map_of doms k of
        None \<Rightarrow> Inr [(k, v)]
      | Some codes \<Rightarrow>
          (case v of
             IntC code \<Rightarrow>
               if code \<in> set codes then Inr (indicators k codes code) else Inl UnknownCategoryCode
           | _ \<Rightarrow> Inl UnknownCategoryCode))"

fun expand :: "(string, int list) dict \<Rightarrow> (string, cell) dict \<Rightarrow> spec_error + (string, cell) dict"
  where
  "expand doms [] = Inr []"
| "expand doms (f # fs) =
     (case expand_field doms f of
        Inl e \<Rightarrow> Inl e
      | Inr xs \<Rightarrow> (case expand doms fs of Inl e \<Rightarrow> Inl e | Inr ys \<Rightarrow> Inr (xs @ ys)))"

definition lookup_or_zero :: "(string, cell) dict \<Rightarrow> string \<Rightarrow> cell" where
  "lookup_or_zero r c = (case map_of r c of None \<Rightarrow> IntC 0 | Some v \<Rightarrow> v)"

definition align_spec :: "(string, cell) dict \<Rightarrow> string list \<Rightarrow> spec_error + cell list" where
  "align_spec raw schema =
     (case expand domains raw of
        Inl e \<Rightarrow> Inl e
      | Inr expanded \<Rightarrow> Inr (map (lookup_or_zero expanded) schema))"

definition reset_categoricals :: "(string, cell) dict \<Rightarrow> (string, cell) dict" where
  "reset_categoricals d =
     map (\<lambda>(k, v). case map_of domains k of None \<Rightarrow> (k, v) | Some codes \<Rightarrow> (k, IntC (hd codes))) d"

definition indicator_names :: "string list" where
  "indicator_names = concat (map (\<lambda>(k, codes). map (indicator_name k) (tl codes)) domains)"

definition training_columns :: "string \<Rightarrow> int list \<Rightarrow> string list" where
  "training_columns field xs = map fst (get_dummies_1d (field, map IntC xs) True)"

section \<open>Records of the specification and the indicators they set\<close>

definition in_domain :: "(string, cell) dict \<Rightarrow> string \<times> int list \<Rightarrow> bool" where
  "in_domain d = (\<lambda>(k, codes). case map_of d k of
       Some (IntC code) \<Rightarrow> List.member codes code | _ \<Rightarrow> False)"

fun chosen_field :: "string \<times> cell \<Rightarrow> string list" where
  "chosen_field (k, v) =
     (case map_of domains k of
        None \<Rightarrow> []
      | Some codes \<Rightarrow>
          (case v of
             IntC code \<Rightarrow> if code \<in> set (tl codes) then [indicator_name k code] else []
           | _ \<Rightarrow> []))"

definition chosen_indicators :: "(string, cell) dict \<Rightarrow> string list" where
  "chosen_indicators d = concat (map chosen_field d)"

section \<open>The domains\<close>

lemma dict_keys_domains: "dict_keys domains = cols_to_ohe"
  by (simp add: domains_def cols_to_ohe_def)

lemma map_of_domains_None: "map_of domains k = None \<longleftrightarrow> k \<notin> set cols_to_ohe"
  using map_of_absent [of k domains] map_of_present [of k domains]
  by (auto simp: dict_keys_domains)

lemma domains_sorted_distinct:
  "(k, codes) \<in> set domains \<Longrightarrow> sorted codes \<and> distinct codes \<and> codes \<noteq> []"
  by (auto simp: domains_def)

lemma map_of_domains_Some:
  "map_of domains k = Some codes \<Longrightarrow> sorted codes \<and> distinct codes \<and> codes \<noteq> []"
  by (auto dest!: map_of_SomeD domains_sorted_distinct)

lemma indicator_name_mem:
  "map_of domains k = Some codes \<Longrightarrow> v \<in> set (tl codes) \<Longrightarrow> indicator_name k v \<in> set indicator_names"
  by (force simp: indicator_names_def dest!: map_of_SomeD)

section \<open>The training run names the indicators as the specification does\<close>

lemma levels_map_IntC:
  "sorted codes \<Longrightarrow> distinct codes \<Longrightarrow> set xs = set codes \<Longrightarrow> levels (map IntC xs) = map IntC codes"
proof -
  assume a: "sorted codes" "distinct codes" "set xs = set codes"
  have "sorted (levels (map IntC xs))" "distinct (levels (map IntC xs))"
    "set (levels (map IntC xs)) = set (map IntC codes)"
    using a(3) by simp_all
  moreover have "sorted (map IntC codes)" "distinct (map IntC codes)"
    using a by (simp_all add: distinct_map inj_on_def)
  ultimately show ?thesis
    by (metis sorted_distinct_set_unique)
qed

lemma indicator_names_eq:
  "indicator_names =
     [''sex_1'', ''cp_1'', ''cp_2'', ''cp_3'', ''fbs_1'', ''restecg_1'', ''restecg_2'',
      ''exang_1'', ''slope_1'', ''slope_2'', ''ca_1'', ''ca_2'', ''ca_3'', ''thal_6'', ''thal_7'']"
  by (simp add: indicator_names_def domains_def indicator_name_def py_eval)

section \<open>Expanding a record at the reference levels\<close>

lemma expand_field_reference:
  assumes "map_of domains k = Some codes"
  shows "expand_field domains (k, IntC (hd codes)) =
     Inr (map (\<lambda>v. (indicator_name k v, IntC 0)) (tl codes))"
proof -
  from assms have d: "distinct codes" "codes \<noteq> []"
    by (auto dest: map_of_domains_Some)
  then have "hd codes \<notin> set (tl codes)"
    by (cases codes) auto
  then have "v \<in> set (tl codes) \<Longrightarrow> hd codes \<noteq> v" for v
    by auto
  with assms d show ?thesis
    by (simp add: indicators_def)
qed

lemma lookup_or_zero_Cons:
  "lookup_or_zero ((k, v) # r) c = (if c = k then v else lookup_or_zero r c)"
  by (simp add: lookup_or_zero_def)

lemma lookup_or_zero_zeros:
  "lookup_or_zero (map (\<lambda>v. (f v, IntC 0)) vs @ r) c =
     (if c \<in> f ` set vs then IntC 0 else lookup_or_zero r c)"
  by (induction vs) (auto simp: lookup_or_zero_Cons)

lemma lookup_or_zero_absent: "c \<notin> set (dict_keys r) \<Longrightarrow> lookup_or_zero r c = IntC 0"
  by (simp add: lookup_or_zero_def map_of_absent)

lemma expand_reset:
  assumes "set (dict_keys (numeric_part d)) \<inter> set indicator_names = {}"
  shows "\<exists>ex. expand domains (reset_categoricals d) = Inr ex \<and>
     (\<forall>c. lookup_or_zero ex c = lookup_or_zero (numeric_part d) c)"
  using assms
proof (induction d)
  case Nil
  then show ?case by (simp add: reset_categoricals_def numeric_part_def)
next
  case (Cons f d)
  obtain k v where f: "f = (k, v)"
    by (cases f)
  have keys: "set (dict_keys (numeric_part d)) \<subseteq> set (dict_keys (numeric_part (f # d)))"
    by (auto simp: numeric_part_def dict_keys_def)
  with Cons.prems have "set (dict_keys (numeric_part d)) \<inter> set indicator_names = {}"
    by blast
  from Cons.IH [OF this] obtain ex where ex: "expand domains (reset_categoricals d) = Inr ex"
    and eq: "\<And>c. lookup_or_zero ex c = lookup_or_zero (numeric_part d) c"
    by (auto simp: reset_categoricals_def)
  show ?case
  proof (cases "map_of domains k")
    case None
    then have "k \<notin> set cols_to_ohe"
      by (simp add: map_of_domains_None)
    with None ex eq f show ?thesis
      by (simp add: reset_categoricals_def numeric_part_def lookup_or_zero_Cons)
  next
    case (Some codes)
    then have k: "k \<in> set cols_to_ohe"
      using map_of_domains_None [of k] by simp
    have "lookup_or_zero (numeric_part d) c = IntC 0" if "c \<in> indicator_name k ` set (tl codes)" for c
    proof -
      from that Some have "c \<in> set indicator_names"
        by (auto intro: indicator_name_mem)
      with Cons.prems keys have "c \<notin> set (dict_keys (numeric_part d))"
        by blast
      then show ?thesis
        by (rule lookup_or_zero_absent)
    qed
    with Some k ex eq f show ?thesis
      using expand_field_reference [OF Some]
      by (simp add: reset_categoricals_def numeric_part_def lookup_or_zero_zeros)
  qed
qed

section \<open>Records whose codes lie in their domains\<close>

lemma expand_field_returns:
  assumes "case map_of domains k of None \<Rightarrow> True
     | Some codes \<Rightarrow> (\<exists>code \<in> set codes. v = IntC code)"
  shows "\<exists>xs. expand_field domains (k, v) = Inr xs"
  using assms by (auto split: option.splits)

lemma expand_returns:
  assumes "list_all (\<lambda>(k, v). case map_of domains k of None \<Rightarrow> True
     | Some codes \<Rightarrow> (\<exists>code \<in> set codes. v = IntC code)) d"
  shows "\<exists>ex. expand domains d = Inr ex"
  using assms
proof (induction d)
  case Nil
  then show ?case by simp
next
  case (Cons f d)
  obtain k v where f: "f = (k, v)"
    by (cases f)
  with Cons.prems obtain xs where "expand_field domains (k, v) = Inr xs"
    using expand_field_returns [where k = k and v = v] by auto
  moreover from Cons obtain ys where "expand domains d = Inr ys"
    by auto
  ultimately show ?case
    by (simp add: f)
qed

section \<open>Expanding a record of the domain\<close>

lemma indicator_name_inject [simp]:
  "indicator_name k v = indicator_name k' w \<longleftrightarrow> k = k' \<and> v = w"
proof
  assume "indicator_name k v = indicator_name k' w"
  then have "k @ CHR ''_'' # str_int v = k' @ CHR ''_'' # str_int w"
    by (simp add: indicator_name_def)
  from append_mark_inject [OF this] str_int_digits [of "CHR ''_''"] show "k = k' \<and> v = w"
    by auto
qed simp

lemma chosen_field_keys:
  "c \<in> set (chosen_field (k, v)) \<Longrightarrow> \<exists>codes code. map_of domains k = Some codes \<and>
     code \<in> set (tl codes) \<and> c = indicator_name k code"
  by (cases "map_of domains k"; cases v) (auto split: if_splits)

lemma chosen_indicators_key:
  assumes "c \<in> set (chosen_indicators d)"
  obtains k code where "k \<in> set (dict_keys d)" and "c = indicator_name k code"
    and "c \<in> set indicator_names"
proof -
  from assms obtain k v where kv: "(k, v) \<in> set d" and "c \<in> set (chosen_field (k, v))"
    by (auto simp: chosen_indicators_def)
  with chosen_field_keys obtain codes code where "map_of domains k = Some codes"
    "code \<in> set (tl codes)" "c = indicator_name k code"
    by blast
  moreover from kv have "k \<in> set (dict_keys d)"
    by (force simp: dict_keys_def)
  ultimately show ?thesis
    using that indicator_name_mem by blast
qed

lemma lookup_indicator_list:
  "lookup_or_zero (map (\<lambda>v. (indicator_name k v, IntC (if code = v then 1 else 0))) vs @ r) c =
     (if c \<in> indicator_name k ` set vs
      then IntC (if c = indicator_name k code then 1 else 0) else lookup_or_zero r c)"
  by (induction vs) (auto simp: lookup_or_zero_Cons)

lemma lookup_indicators:
  "lookup_or_zero (indicators k codes code @ r) c =
     (if c \<in> indicator_name k ` set (tl codes)
      then IntC (if c = indicator_name k code then 1 else 0) else lookup_or_zero r c)"
  by (simp only: indicators_def lookup_indicator_list)

lemma expand_chosen:
  assumes "dict_ok d"
    and "list_all (\<lambda>(k, v). case map_of domains k of None \<Rightarrow> True
       | Some codes \<Rightarrow> (\<exists>code \<in> set codes. v = IntC code)) d"
    and "set (dict_keys (numeric_part d)) \<inter> set indicator_names = {}"
  shows "\<exists>ex. expand domains d = Inr ex \<and>
     (\<forall>c. lookup_or_zero ex c =
        (if c \<in> set (chosen_indicators d) then IntC 1 else lookup_or_zero (numeric_part d) c))"
  using assms
proof (induction d)
  case Nil
  then show ?case
    by (simp add: chosen_indicators_def numeric_part_def)
next
  case (Cons f d)
  obtain k v where f: "f = (k, v)"
    by (cases f)
  from Cons.prems(1) have ok: "dict_ok d" and fresh: "k \<notin> set (dict_keys d)"
    by (simp_all add: dict_ok_def f)
  have keys: "set (dict_keys (numeric_part d)) \<subseteq> set (dict_keys (numeric_part (f # d)))"
    by (auto simp: numeric_part_def dict_keys_def)
  with Cons.prems(3) have disj: "set (dict_keys (numeric_part d)) \<inter> set indicator_names = {}"
    by blast
  from Cons.IH [OF ok _ disj] Cons.prems(2) obtain ex where ex: "expand domains d = Inr ex"
    and eq: "\<And>c. lookup_or_zero ex c =
      (if c \<in> set (chosen_indicators d) then IntC 1 else lookup_or_zero (numeric_part d) c)"
    by auto
  have other: "c \<notin> set (chosen_indicators d)" if "c = indicator_name k w" for c w
  proof
    assume "c \<in> set (chosen_indicators d)"
    then obtain k' code where "k' \<in> set (dict_keys d)" "c = indicator_name k' code"
      by (rule chosen_indicators_key)
    with that fresh show False
      by simp
  qed
  show ?case
  proof (cases "map_of domains k")
    case None
    then have num: "k \<notin> set cols_to_ohe"
      by (simp add: map_of_domains_None)
    with Cons.prems(3) have "k \<notin> set indicator_names"
      by (auto simp: numeric_part_def f)
    then have "k \<notin> set (chosen_indicators d)"
      by (auto elim: chosen_indicators_key)
    with None num ex eq show ?thesis
      by (simp add: f chosen_indicators_def numeric_part_def lookup_or_zero_Cons)
  next
    case (Some codes)
    then have cat: "k \<in> set cols_to_ohe"
      using map_of_domains_None [of k] by simp
    from Cons.prems(2) Some obtain code where v: "v = IntC code" and code: "code \<in> set codes"
      by (auto simp: f)
    have zero: "lookup_or_zero (numeric_part d) c = IntC 0"
      if "c \<in> indicator_name k ` set (tl codes)" for c
    proof -
      from that Some have "c \<in> set indicator_names"
        by (auto intro: indicator_name_mem)
      with disj have "c \<notin> set (dict_keys (numeric_part d))"
        by blast
      then show ?thesis
        by (rule lookup_or_zero_absent)
    qed
    have "lookup_or_zero (indicators k codes code @ ex) c =
        (if c \<in> set (chosen_indicators (f # d)) then IntC 1
         else lookup_or_zero (numeric_part (f # d)) c)" for c
    proof (cases "c \<in> indicator_name k ` set (tl codes)")
      case True
      then obtain w where w: "w \<in> set (tl codes)" "c = indicator_name k w"
        by blast
      with other [OF w(2)] zero [OF True] Some cat show ?thesis
        by (auto simp: lookup_indicators f v chosen_indicators_def numeric_part_def)
    next
      case False
      with Some cat eq [of c] show ?thesis
        by (auto simp: lookup_indicators f v chosen_indicators_def numeric_part_def)
    qed
    with Some code ex show ?thesis
      by (simp add: f v)
  qed
qed

lemma in_domain_fields:
  assumes "dict_ok d" and "list_all (in_domain d) domains"
  shows "set cols_to_ohe \<subseteq> set (dict_keys d)"
    and "list_all (\<lambda>(k, v). case map_of domains k of None \<Rightarrow> True
       | Some codes \<Rightarrow> (\<exists>code \<in> set codes. v = IntC code)) d"
proof -
  have dom: "\<exists>code \<in> set codes. map_of d k = Some (IntC code)" if "(k, codes) \<in> set domains" for k codes
  proof -
    from assms(2) that have "in_domain d (k, codes)"
      by (auto simp: list_all_iff)
    then show ?thesis
      by (cases "map_of d k") (auto simp: in_domain_def split: cell.splits)
  qed
  show "set cols_to_ohe \<subseteq> set (dict_keys d)"
  proof
    fix k
    assume "k \<in> set cols_to_ohe"
    then obtain codes where "(k, codes) \<in> set domains"
      by (auto simp: dict_keys_domains [symmetric] dict_keys_def)
    from dom [OF this] show "k \<in> set (dict_keys d)"
      by (auto dest: map_of_Some_key)
  qed
  have "\<exists>code \<in> set codes. v = IntC code"
    if "(k, v) \<in> set d" and "map_of domains k = Some codes" for k v codes
  proof -
    from that(2) have "(k, codes) \<in> set domains"
      by (rule map_of_SomeD)
    from dom [OF this] obtain code where "code \<in> set codes" "map_of d k = Some (IntC code)"
      by blast
    moreover from assms(1) that(1) have "map_of d k = Some v"
      by (simp add: dict_ok_def dict_keys_def)
    ultimately show ?thesis
      by auto
  qed
  then show "list_all (\<lambda>(k, v). case map_of domains k of None \<Rightarrow> True
       | Some codes \<Rightarrow> (\<exists>code \<in> set codes. v = IntC code)) d"
    by (auto simp: list_all_iff split: option.splits)
qed

lemma vectors_agree_iff:
  assumes "\<And>c. lookup_or_zero ex c =
        (if c \<in> set (chosen_indicators d) then IntC 1 else lookup_or_zero (numeric_part d) c)"
    and "set (dict_keys (numeric_part d)) \<inter> set indicator_names = {}"
  shows "map (lookup_or_zero (numeric_part d)) cols = map (lookup_or_zero ex) cols \<longleftrightarrow>
     set (chosen_indicators d) \<inter> set cols = {}"
proof -
  have "lookup_or_zero (numeric_part d) c = IntC 0" if "c \<in> set (chosen_indicators d)" for c
  proof -
    from that have "c \<in> set indicator_names"
      by (rule chosen_indicators_key)
    with assms(2) show ?thesis
      by (intro lookup_or_zero_absent) blast
  qed
  then show ?thesis
    by (auto simp: assms(1))
qed

section \<open>Refinement\<close>

lemma to_numpy_reindex_row:
  "to_numpy (reindex_row src cols) = [map (lookup_or_zero src) cols]"
  by (simp add: to_numpy_def reindex_row_def lookup_or_zero_def comp_def)

lemma scenario_A_fields:
  "set cols_to_ohe \<subseteq> set (dict_keys scenario_A)"
  "set (dict_keys (numeric_part scenario_A)) \<inter> set indicator_names = {}"
  by (simp_all add: scenario_A_def cols_to_ohe_def numeric_part_def indicator_names_eq)

lemma scenario_A_record:
  "dict_ok scenario_A" "list_all (in_domain scenario_A) domains"
  "chosen_indicators scenario_A = [''sex_1'']"
  by (simp_all add: scenario_A_def dict_ok_def dict_keys_def in_domain_def domains_def
      chosen_indicators_def indicator_name_def str_int_def str_nat.simps digit_char_def)

lemmas spec_eval [py_eval] =
  domains_def indicator_name_def indicators_def lookup_or_zero_def align_spec_def
  reset_categoricals_def indicator_names_def training_columns_def in_domain_def
  chosen_indicators_def

section \<open>Properties relating the handler to the specification\<close>

text \<open>
  C7. Refinement up to the reference levels: for a record that has the eight
  categorical fields and no field named like an indicator, the handler returns, the
  specification's aligner returns on the record whose categorical fields are reset to
  their reference values, and the row given to the scaler is that vector. The handler
  implements the specified alignment of a different patient: the one with the
  reference value in every categorical field.
\<close>

theorem build_final_input_refines:
  assumes "set cols_to_ohe \<subseteq> set (dict_keys d)"
    and "set (dict_keys (numeric_part d)) \<inter> set indicator_names = {}"
  shows "\<exists>f v. build_final_input d model_columns = Return f \<and>
     align_spec (reset_categoricals d) model_columns = Inr v \<and> to_numpy f = [v]"
proof -
  from expand_reset [OF assms(2)] obtain ex
    where "expand domains (reset_categoricals d) = Inr ex"
      and "\<And>c. lookup_or_zero ex c = lookup_or_zero (numeric_part d) c"
    by blast
  then show ?thesis
    by (simp add: build_final_input_eq [OF assms(1)] align_spec_def to_numpy_reindex_row
        cong: map_cong)
qed

theorem build_final_input_refines_witness:
  "\<exists>f v. build_final_input scenario_A [''age'', ''sex_1'', ''thal_7''] = Return f \<and>
     align_spec (reset_categoricals scenario_A) [''age'', ''sex_1'', ''thal_7''] = Inr v \<and>
     to_numpy f = [v]"
  by (rule build_final_input_refines) (rule scenario_A_fields)+

text \<open>
  C9. When the handler computes what the specification asks. For a record of the
  specification (every field once, every categorical code in its domain, no numeric
  field named like an indicator) both aligners return, and the row given to the
  scaler is the specification's vector exactly when the model has no column for any
  non-reference category of the patient. With such a column, say \<^verbatim>\<open>sex_1\<close> for a
  male patient, the handler gives 0 where the specification gives 1.
\<close>

theorem handler_meets_spec_iff:
  assumes "dict_ok d" and "list_all (in_domain d) domains"
    and "set (dict_keys (numeric_part d)) \<inter> set indicator_names = {}"
  shows "\<exists>f v. build_final_input d model_columns = Return f \<and>
     align_spec d model_columns = Inr v \<and>
     (to_numpy f = [v] \<longleftrightarrow> set (chosen_indicators d) \<inter> set model_columns = {})"
proof -
  note fields = in_domain_fields [OF assms(1,2)]
  from expand_chosen [OF assms(1) fields(2) assms(3)] obtain ex
    where "expand domains d = Inr ex"
      and "\<And>c. lookup_or_zero ex c =
        (if c \<in> set (chosen_indicators d) then IntC 1 else lookup_or_zero (numeric_part d) c)"
    by blast
  with vectors_agree_iff [OF this(2) assms(3), of model_columns] show ?thesis
    by (simp add: build_final_input_eq [OF fields(1)] align_spec_def to_numpy_reindex_row)
qed


theorem handler_meets_spec_iff_witness:
  "(\<exists>f v. build_final_input scenario_A [''age'', ''thal_7''] = Return f \<and>
      align_spec scenario_A [''age'', ''thal_7''] = Inr v \<and> to_numpy f = [v]) \<and>
   (\<exists>f v. build_final_input scenario_A [''age'', ''sex_1''] = Return f \<and>
      align_spec scenario_A [''age'', ''sex_1''] = Inr v \<and> to_numpy f \<noteq> [v])"
  using handler_meets_spec_iff [OF scenario_A_record(1,2) scenario_A_fields(2), of "[''age'', ''thal_7'']"]
    handler_meets_spec_iff [OF scenario_A_record(1,2) scenario_A_fields(2), of "[''age'', ''sex_1'']"]
  by (simp add: scenario_A_record(3))

text \<open>
  C16. The schema's indicator names are the specification's: encoding, as the
  training run does, a column that takes every value of a domain yields exactly the
  columns \<^verbatim>\<open>field_value\<close> for the values of the domain but the first, in ascending
  order.
\<close>

theorem training_columns_match_spec:
  assumes "sorted codes" and "distinct codes" and "set xs = set codes"
  shows "training_columns field xs = map (indicator_name field) (tl codes)"
  by (simp add: training_columns_def get_dummies_1d_def levels_map_IntC [OF assms]
      dummy_column_def indicator_name_def [abs_def] map_tl comp_def)

theorem training_columns_match_spec_witness:
  "training_columns ''thal'' [6, 3, 7, 3, 7] = [''thal_6'', ''thal_7'']"
  using training_columns_match_spec [of "[3, 6, 7]" "[6, 3, 7, 3, 7]" "''thal''"]
  by (simp add: indicator_name_def py_eval)

end
