(* ===== verification/Py_Float.thy ===== *)
theory Py_Float
  imports Py_Prelude
begin

text \<open>
  The floating-point arithmetic behind the percentages of \<^verbatim>\<open>src/main.py\<close>: the
  literals \<^verbatim>\<open>0.925\<close>, \<^verbatim>\<open>0.880\<close>, \<^verbatim>\<open>0.865\<close> (lines 46-48), the products \<^verbatim>\<open>x * 100\<close>
  (lines 68, 72, 73, 153) and the format \<^verbatim>\<open>f"{x:.2f}%"\<close> (lines 68-73, 161, 165).

  \<^item> A Python float is a binary64 number; the model holds its exact value as a
    \<open>rat\<close>. \<open>fl64 q\<close> is the binary64 number nearest to \<open>q\<close>, ties going to the even
    significand. It is computed the way the standard defines it: \<open>ilog2 q\<close> is the
    exponent \<open>e\<close> with \<open>2^e \<le> |q| < 2^(e+1)\<close> (found by the halving loop \<open>log2_up\<close>),
    \<open>ulp q\<close> the spacing of the doubles around \<open>q\<close> (\<open>2^(e-52)\<close>, and \<open>2^(-1074)\<close> below
    the normal range), \<open>round_to u q\<close> the nearest multiple of \<open>u\<close>. These five
    belong to the arithmetic of the machine, not to the script; what the script
    writes is a literal \<open>d\<close>, which is \<open>fl64 d\<close>, and a product, which is
    \<open>fmul a b = fl64 (a * b)\<close>. \<open>fsub\<close> and \<open>fdiv\<close> serve the scaler of the
    specification (no divisor of the model is zero).
  \<^item> The exponent of the model is not bounded above, and infinities and NaN are
    not values of it: \<open>fl64\<close> agrees with binary64 on the finite range, up to
    \<open>max_double\<close>, and the floats of the script are probabilities and percentages.
  \<^item> \<open>format_2f q\<close> is \<^verbatim>\<open>f"{q:.2f}"\<close>: the exact value of the double rounded to
    hundredths, ties to even, printed with two decimals and a sign.
    \<open>percent x\<close> is \<^verbatim>\<open>f"{x*100:.2f}%"\<close>.
  \<^item> \<open>read_decimal\<close> gives the value of a decimal numeral by the place of its
    digits and \<open>decimals\<close> counts the digits after the point; they are not part of
    the script and state what the printed text means.

  The lemmas show that \<open>fl64\<close> is monotone, returns a binary64 number and none is
  nearer (\<open>fl64_nearest_double\<close>), with relative error at most \<open>2^(-53)\<close>; that a
  probability times 100 stays in \<open>[0, 100]\<close>; and that the printed text denotes the
  value rounded to hundredths. The rounding is not decoration:
  \<open>product_rounding_shows\<close> gives a probability whose percentage prints \<^verbatim>\<open>0.12\<close>
  where exact arithmetic would print \<^verbatim>\<open>0.13\<close>.
\<close>

section \<open>Rounding to an integer, ties to even\<close>

definition tie_even :: "int \<Rightarrow> rat \<Rightarrow> int" where
  "tie_even f r = (if r < 1 / 2 then f else if 1 / 2 < r then f + 1 else if even f then f else f + 1)"

definition round_half_even :: "rat \<Rightarrow> int" where
  "round_half_even q = tie_even \<lfloor>q\<rfloor> (q - of_int \<lfloor>q\<rfloor>)"

section \<open>The binary exponent of a rational\<close>

function log2_up :: "rat \<Rightarrow> nat" where
  "log2_up q = (if q < 2 then 0 else Suc (log2_up (q / 2)))"
  by pat_completeness auto
termination
proof (relation "measure (\<lambda>q. nat \<lfloor>q\<rfloor>)")
  fix q :: rat
  assume "\<not> q < 2"
  then have "\<lfloor>q / 2\<rfloor> < \<lfloor>q\<rfloor>" and "0 < \<lfloor>q\<rfloor>"
    by linarith+
  then show "(q / 2, q) \<in> measure (\<lambda>q. nat \<lfloor>q\<rfloor>)"
    by simp
qed simp

declare log2_up.simps [simp del]

definition neg_exp :: "rat \<Rightarrow> nat \<Rightarrow> int" where
  "neg_exp x n = (if 2 ^ n = x then - int n else - int n - 1)"

definition ilog2 :: "rat \<Rightarrow> int" where
  "ilog2 q =
     (if 1 \<le> \<bar>q\<bar> then int (log2_up \<bar>q\<bar>) else neg_exp (1 / \<bar>q\<bar>) (log2_up (1 / \<bar>q\<bar>)))"

section \<open>binary64\<close>

definition ulp :: "rat \<Rightarrow> rat" where
  "ulp q = 2 powi (max (ilog2 q) (- 1022) - 52)"

definition round_to :: "rat \<Rightarrow> rat \<Rightarrow> rat" where
  "round_to u q = of_int (round_half_even (q / u)) * u"

definition fl64 :: "rat \<Rightarrow> rat" where
  "fl64 q = (if q = 0 then 0 else round_to (ulp q) q)"

definition fmul :: "rat \<Rightarrow> rat \<Rightarrow> rat" where
  "fmul a b = fl64 (a * b)"

definition fsub :: "rat \<Rightarrow> rat \<Rightarrow> rat" where
  "fsub a b = fl64 (a - b)"

definition fdiv :: "rat \<Rightarrow> rat \<Rightarrow> rat" where
  "fdiv a b = fl64 (a / b)"

definition max_double :: rat where
  "max_double = (2 ^ 53 - 1) * 2 ^ 971"

definition hundredths :: "bool \<Rightarrow> nat \<Rightarrow> string" where
  "hundredths neg n =
     (if neg then ''-'' else []) @ str_nat (n div 100) @ ''.'' @
     [digit_char (n div 10 mod 10), digit_char (n mod 10)]"

definition format_2f :: "rat \<Rightarrow> string" where
  "format_2f q = hundredths (q < 0) (nat (round_half_even (\<bar>q\<bar> * 100)))"

definition percent :: "rat \<Rightarrow> string" where
  "percent x = format_2f (fmul x 100) @ ''%''"

section \<open>Reading a printed number back\<close>

definition read_decimal :: "string \<Rightarrow> rat" where
  "read_decimal s =
     (let neg = (s \<noteq> [] \<and> hd s = CHR ''-'');
          body = (if neg then tl s else s);
          ip = takeWhile (\<lambda>c. c \<noteq> CHR ''.'') body;
          fp = tl (dropWhile (\<lambda>c. c \<noteq> CHR ''.'') body)
      in (if neg then - 1 else 1) *
         (of_nat (parse_nat ip) + of_nat (parse_nat fp) / 10 ^ length fp))"

definition decimals :: "string \<Rightarrow> nat" where
  "decimals s = length (tl (dropWhile (\<lambda>c. c \<noteq> CHR ''.'') s))"

section \<open>Lemmas on rounding\<close>

lemma round_half_even_range: "\<lfloor>q\<rfloor> \<le> round_half_even q \<and> round_half_even q \<le> \<lfloor>q\<rfloor> + 1"
  by (simp add: round_half_even_def tie_even_def)

lemma round_half_even_of_int [simp]: "round_half_even (of_int n) = n"
  by (simp add: round_half_even_def tie_even_def)

lemma round_half_even_error: "\<bar>of_int (round_half_even q) - q\<bar> \<le> 1 / 2"
  by (auto simp: round_half_even_def tie_even_def abs_if; linarith)

lemma round_half_even_mono:
  assumes "x \<le> y"
  shows "round_half_even x \<le> round_half_even y"
proof (cases "\<lfloor>x\<rfloor> = \<lfloor>y\<rfloor>")
  case True
  with assms have "x - of_int \<lfloor>x\<rfloor> \<le> y - of_int \<lfloor>y\<rfloor>"
    by simp
  with True show ?thesis
    by (auto simp: round_half_even_def tie_even_def)
next
  case False
  with assms have "\<lfloor>x\<rfloor> + 1 \<le> \<lfloor>y\<rfloor>"
    using floor_mono [of x y] by linarith
  with round_half_even_range [of x] round_half_even_range [of y] show ?thesis
    by linarith
qed

lemma round_half_even_le: "q \<le> of_int n \<Longrightarrow> round_half_even q \<le> n"
  using round_half_even_mono [of q "of_int n"] by simp

lemma round_half_even_ge: "of_int n \<le> q \<Longrightarrow> n \<le> round_half_even q"
  using round_half_even_mono [of "of_int n" q] by simp

lemma round_half_even_minus: "round_half_even (- q) = - round_half_even q"
proof (cases "q = of_int \<lfloor>q\<rfloor>")
  case True
  then obtain n where "q = of_int n" ..
  then have "- q = of_int (- n)"
    by simp
  with \<open>q = of_int n\<close> show ?thesis
    by (simp only: round_half_even_of_int)
next
  case False
  then have "\<lfloor>- q\<rfloor> = - \<lfloor>q\<rfloor> - 1"
    by (simp add: floor_minus ceiling_altdef)
  moreover from False have "q - of_int \<lfloor>q\<rfloor> > 0"
    using of_int_floor_le [of q] by linarith
  ultimately show ?thesis
    by (auto simp: round_half_even_def tie_even_def)
qed

lemma round_half_even_nearest: "\<bar>of_int (round_half_even x) - x\<bar> \<le> \<bar>of_int j - x\<bar>"
proof -
  consider "j \<le> \<lfloor>x\<rfloor>" | "\<lfloor>x\<rfloor> + 1 \<le> j"
    by linarith
  then show ?thesis
  proof cases
    case 1
    then have "(of_int j :: rat) \<le> of_int \<lfloor>x\<rfloor>"
      by (simp only: of_int_le_iff)
    then have "x - of_int \<lfloor>x\<rfloor> \<le> \<bar>of_int j - x\<bar>"
      using of_int_floor_le [of x] by linarith
    moreover have "\<bar>of_int (round_half_even x) - x\<bar> \<le> x - of_int \<lfloor>x\<rfloor>"
      by (auto simp: round_half_even_def tie_even_def abs_if; linarith)
    ultimately show ?thesis
      by linarith
  next
    case 2
    then have "(of_int (\<lfloor>x\<rfloor> + 1) :: rat) \<le> of_int j"
      by (simp only: of_int_le_iff)
    then have "of_int \<lfloor>x\<rfloor> + 1 - x \<le> \<bar>of_int j - x\<bar>"
      using floor_correct [of x] by simp
    moreover have "\<bar>of_int (round_half_even x) - x\<bar> \<le> of_int \<lfloor>x\<rfloor> + 1 - x"
      by (auto simp: round_half_even_def tie_even_def abs_if; linarith)
    ultimately show ?thesis
      by linarith
  qed
qed

section \<open>Lemmas on the exponent\<close>

lemma log2_up_bounds: "1 \<le> q \<Longrightarrow> 2 ^ log2_up q \<le> q \<and> q < 2 ^ Suc (log2_up q)"
proof (induction q rule: log2_up.induct)
  case (1 q)
  show ?case
  proof (cases "q < 2")
    case True
    with "1.prems" show ?thesis
      by (simp add: log2_up.simps [of q])
  next
    case False
    with "1.IH" have "2 ^ log2_up (q / 2) \<le> q / 2 \<and> q / 2 < 2 ^ Suc (log2_up (q / 2))"
      by simp
    with False show ?thesis
      by (simp add: log2_up.simps [of q])
  qed
qed

lemma two_powi_pos [simp]: "0 < (2 :: rat) powi e"
  by (simp add: zero_less_power_int)

lemma two_powi_less_iff [simp]: "(2 :: rat) powi a < 2 powi b \<longleftrightarrow> a < b"
  using power_int_strict_increasing [of a b "2 :: rat"] power_int_increasing [of b a "2 :: rat"]
  by (auto simp: not_less [symmetric])

lemma two_powi_le_iff [simp]: "(2 :: rat) powi a \<le> 2 powi b \<longleftrightarrow> a \<le> b"
  using two_powi_less_iff [of b a] by (simp only: not_less [symmetric])

lemma two_powi_Suc: "(2 :: rat) powi (e + 1) = 2 * 2 powi e"
  by (simp add: power_int_add)

lemma ilog2_bounds:
  assumes "q \<noteq> 0"
  shows "2 powi ilog2 q \<le> \<bar>q\<bar> \<and> \<bar>q\<bar> < 2 powi (ilog2 q + 1)"
proof (cases "1 \<le> \<bar>q\<bar>")
  case True
  with log2_up_bounds [of "\<bar>q\<bar>"] show ?thesis
    by (simp add: ilog2_def two_powi_Suc)
next
  case False
  define x where "x = 1 / \<bar>q\<bar>"
  define n where "n = log2_up x"
  from False assms have x: "1 \<le> x" "0 < \<bar>q\<bar>" "\<bar>q\<bar> = 1 / x"
    by (simp_all add: x_def)
  from log2_up_bounds [OF x(1)] have n: "2 ^ n \<le> x" "x < 2 * 2 ^ n"
    by (simp_all add: n_def)
  have e: "ilog2 q = (if 2 ^ n = x then - int n else - int n - 1)"
    using False by (simp add: ilog2_def neg_exp_def x_def n_def)
  have p: "(2 :: rat) powi (- int n) = 1 / 2 ^ n"
    by (simp add: power_int_minus field_simps)
  show ?thesis
  proof (cases "2 ^ n = x")
    case True
    have a: "\<bar>q\<bar> = 2 powi (- int n)"
      using True p x(3) by simp
    have "2 powi (- int n) < 2 * (2 :: rat) powi (- int n)"
      using two_powi_pos [of "- int n"] by linarith
    then have "\<bar>q\<bar> < 2 powi (- int n + 1)"
      unfolding two_powi_Suc a .
    with a True e show ?thesis
      by simp
  next
    case False
    with n have "2 ^ n < x"
      by simp
    then have "1 / x < 1 / 2 ^ n"
      using frac_less2 [of 1 1 "2 ^ n" x] by simp
    moreover from n(2) x(1) have "1 / (2 * 2 ^ n) < 1 / x"
      using frac_less2 [of 1 1 x "2 * 2 ^ n"] by simp
    moreover have "(2 :: rat) powi (- int n - 1) = 1 / (2 * 2 ^ n)"
      using two_powi_Suc [of "- int n - 1"] p by simp
    ultimately show ?thesis
      using False e p x(3) by simp
  qed
qed

lemma ilog2_unique:
  assumes "2 powi e \<le> \<bar>q\<bar>" and "\<bar>q\<bar> < 2 powi (e + 1)"
  shows "ilog2 q = e"
proof -
  have "0 < \<bar>q\<bar>"
    using assms(1) two_powi_pos [of e] by linarith
  then have "q \<noteq> 0"
    by simp
  from ilog2_bounds [OF this] assms have "2 powi e < (2 :: rat) powi (ilog2 q + 1)"
    and "2 powi ilog2 q < (2 :: rat) powi (e + 1)"
    by linarith+
  then show ?thesis
    by simp
qed

lemma ilog2_minus [simp]: "ilog2 (- q) = ilog2 q"
  by (simp add: ilog2_def)

lemma ilog2_mono:
  assumes "0 < x" and "x \<le> y"
  shows "ilog2 x \<le> ilog2 y"
proof -
  from assms have "2 powi ilog2 x \<le> x" and "y < 2 powi (ilog2 y + 1)"
    using ilog2_bounds [of x] ilog2_bounds [of y] by simp_all
  with assms(2) have "2 powi ilog2 x < (2 :: rat) powi (ilog2 y + 1)"
    by linarith
  then show ?thesis
    by simp
qed

section \<open>Lemmas on binary64 rounding\<close>

lemma ulp_pos [simp]: "0 < ulp q"
  by (simp add: ulp_def)

lemma ulp_nonneg [simp]: "0 \<le> ulp q"
  by (simp add: ulp_def)

lemma ulp_minus [simp]: "ulp (- q) = ulp q"
  by (simp add: ulp_def)

lemma two_powi_split: "(2 :: rat) powi (e + 1) = 2 ^ 53 * 2 powi (e - 52)"
  using power_int_add [of "2 :: rat" 53 "e - 52"] by (simp add: add.commute)

lemma two_powi_split': "(2 :: rat) powi e = 2 ^ 52 * 2 powi (e - 52)"
  using power_int_add [of "2 :: rat" 52 "e - 52"] by simp

lemma scaled_less:
  assumes "q \<noteq> 0"
  shows "\<bar>q\<bar> / ulp q < 2 ^ 53"
proof -
  have "\<bar>q\<bar> < 2 powi (ilog2 q + 1)"
    using ilog2_bounds [OF assms] by simp
  also have "\<dots> \<le> 2 powi (max (ilog2 q) (- 1022) + 1)"
    by simp
  also have "\<dots> = 2 ^ 53 * ulp q"
    by (simp only: two_powi_split ulp_def)
  finally show ?thesis
    by (simp add: pos_divide_less_eq)
qed

lemma scaled_ge:
  assumes "q \<noteq> 0" and "- 1022 \<le> ilog2 q"
  shows "2 ^ 52 \<le> \<bar>q\<bar> / ulp q"
proof -
  from assms(2) have "2 ^ 52 * ulp q = 2 powi ilog2 q"
    using two_powi_split' [of "ilog2 q"] by (simp add: ulp_def max_def)
  also have "\<dots> \<le> \<bar>q\<bar>"
    using ilog2_bounds [OF assms(1)] by simp
  finally show ?thesis
    by (simp add: pos_le_divide_eq)
qed

lemma round_to_minus: "round_to u (- q) = - round_to u q"
  by (simp add: round_to_def round_half_even_minus)

lemma fl64_minus: "fl64 (- q) = - fl64 q"
  by (simp add: fl64_def round_to_minus)

lemma fl64_zero [simp]: "fl64 0 = 0"
  by (simp add: fl64_def)

lemma round_to_error:
  assumes "0 < u"
  shows "\<bar>round_to u q - q\<bar> \<le> u / 2"
proof -
  have "round_to u q - q = (of_int (round_half_even (q / u)) - q / u) * u"
    using assms by (simp add: round_to_def field_simps)
  then have "\<bar>round_to u q - q\<bar> = \<bar>of_int (round_half_even (q / u)) - q / u\<bar> * u"
    using assms by (simp add: abs_mult)
  also have "\<dots> \<le> 1 / 2 * u"
    using assms round_half_even_error [of "q / u"] by (intro mult_right_mono) simp_all
  finally show ?thesis
    by simp
qed

lemma round_to_mono: "0 < u \<Longrightarrow> x \<le> y \<Longrightarrow> round_to u x \<le> round_to u y"
  by (simp add: round_to_def round_half_even_mono divide_right_mono)

lemma round_to_of_int: "0 < u \<Longrightarrow> round_to u (of_int n * u) = of_int n * u"
  by (simp add: round_to_def)

lemma fl64_nonneg: "0 \<le> q \<Longrightarrow> 0 \<le> fl64 q"
  using round_to_mono [of "ulp q" 0 q] round_to_of_int [of "ulp q" 0] by (simp add: fl64_def)

lemma fl64_grid:
  assumes "\<bar>n\<bar> < 2 ^ 53" and "- 1074 \<le> k"
  shows "fl64 (of_int n * 2 powi k) = of_int n * 2 powi k"
proof (cases "n = 0")
  case True
  then show ?thesis
    by (simp add: fl64_def)
next
  case False
  define v :: rat where "v = of_int n * 2 powi k"
  define e where "e = max (ilog2 v) (- 1022) - 52"
  from False have v0: "v \<noteq> 0"
    by (simp add: v_def)
  have "\<bar>v\<bar> = of_int \<bar>n\<bar> * 2 powi k"
    by (simp add: v_def abs_mult)
  also from assms(1) have "\<dots> < 2 ^ 53 * 2 powi k"
    by (intro mult_strict_right_mono) (simp_all flip: of_int_less_iff [where 'a = rat])
  also have "\<dots> = 2 powi (k + 52 + 1)"
    using two_powi_split [of "k + 52"] by simp
  finally have "2 powi ilog2 v < (2 :: rat) powi (k + 52 + 1)"
    using ilog2_bounds [OF v0] by linarith
  with assms(2) have "e \<le> k"
    by (simp add: e_def)
  define d where "d = nat (k - e)"
  with \<open>e \<le> k\<close> have d: "k = e + int d"
    by simp
  have "v = of_int (n * 2 ^ d) * 2 powi e"
    by (simp add: v_def d power_int_add)
  then have "round_to (2 powi e) v = v"
    using round_to_of_int [of "2 powi e" "n * 2 ^ d"] by simp
  with v0 show ?thesis
    by (simp add: fl64_def ulp_def e_def v_def)
qed

lemma fl64_of_int: "\<bar>n\<bar> < 2 ^ 53 \<Longrightarrow> fl64 (of_int n) = of_int n"
  using fl64_grid [of n 0] by simp

lemma fl64_error: "\<bar>fl64 q - q\<bar> \<le> ulp q / 2"
  using round_to_error [of "ulp q" q] by (simp add: fl64_def)

lemma scaled_round_le:
  assumes "q \<noteq> 0"
  shows "\<bar>round_half_even (q / ulp q)\<bar> \<le> 2 ^ 53"
proof -
  from scaled_less [OF assms] have "q / ulp q \<le> of_int (2 ^ 53)" and "of_int (- (2 ^ 53)) \<le> q / ulp q"
    by (simp_all add: field_simps abs_less_iff)
  then show ?thesis
    using round_half_even_le [of "q / ulp q" "2 ^ 53"] round_half_even_ge [of "- (2 ^ 53)" "q / ulp q"]
    by linarith
qed

lemma fl64_le_binade:
  assumes "0 < q"
  shows "fl64 q \<le> 2 powi (max (ilog2 q) (- 1022) + 1)"
proof -
  from assms have "q \<noteq> 0"
    by simp
  from scaled_round_le [OF this] have "round_half_even (q / ulp q) \<le> 2 ^ 53"
    by linarith
  then have "(of_int (round_half_even (q / ulp q)) :: rat) \<le> of_int (2 ^ 53)"
    by (simp only: of_int_le_iff)
  then have "of_int (round_half_even (q / ulp q)) \<le> (2 ^ 53 :: rat)"
    by simp
  then have "of_int (round_half_even (q / ulp q)) * ulp q \<le> 2 ^ 53 * ulp q"
    by (intro mult_right_mono) simp_all
  with \<open>q \<noteq> 0\<close> show ?thesis
    by (simp add: fl64_def round_to_def two_powi_split ulp_def)
qed

lemma fl64_ge_binade:
  assumes "0 < q" and "- 1022 \<le> ilog2 q"
  shows "2 powi ilog2 q \<le> fl64 q"
proof -
  from assms have "q \<noteq> 0"
    by simp
  from scaled_ge [OF this assms(2)] assms(1) have "of_int (2 ^ 52) \<le> q / ulp q"
    by simp
  from round_half_even_ge [OF this] have "(of_int (2 ^ 52) :: rat) \<le> of_int (round_half_even (q / ulp q))"
    by (simp only: of_int_le_iff)
  then have "(2 ^ 52 :: rat) \<le> of_int (round_half_even (q / ulp q))"
    by simp
  then have "2 ^ 52 * ulp q \<le> of_int (round_half_even (q / ulp q)) * ulp q"
    by (intro mult_right_mono) simp_all
  moreover from assms(2) have "2 ^ 52 * ulp q = 2 powi ilog2 q"
    using two_powi_split' [of "ilog2 q"] by (simp add: ulp_def max_def)
  ultimately have "2 powi ilog2 q \<le> round_to (ulp q) q"
    unfolding round_to_def by linarith
  with \<open>q \<noteq> 0\<close> show ?thesis
    by (simp add: fl64_def)
qed

lemma fl64_mono_pos:
  assumes "0 < x" and "x \<le> y"
  shows "fl64 x \<le> fl64 y"
proof (cases "max (ilog2 x) (- 1022) = max (ilog2 y) (- 1022)")
  case True
  then have "ulp x = ulp y"
    by (simp add: ulp_def)
  with assms round_to_mono [of "ulp y" x y] show ?thesis
    by (simp add: fl64_def)
next
  case False
  with ilog2_mono [OF assms] have e: "max (ilog2 x) (- 1022) + 1 \<le> ilog2 y" "- 1022 \<le> ilog2 y"
    by (simp_all add: max_def split: if_splits)
  from assms have "0 < y"
    by simp
  from fl64_le_binade [OF assms(1)] fl64_ge_binade [OF this e(2)] e(1) show ?thesis
    using two_powi_le_iff [of "max (ilog2 x) (- 1022) + 1" "ilog2 y"] by linarith
qed

lemma fl64_mono:
  assumes "x \<le> y"
  shows "fl64 x \<le> fl64 y"
proof -
  consider "0 < x" | "y < 0" | "x \<le> 0" "0 \<le> y"
    by linarith
  then show ?thesis
  proof cases
    case 1
    from this assms show ?thesis
      by (rule fl64_mono_pos)
  next
    case 2
    with assms fl64_mono_pos [of "- y" "- x"] show ?thesis
      by (simp add: fl64_minus)
  next
    case 3
    with fl64_nonneg [of y] fl64_nonneg [of "- x"] show ?thesis
      by (simp add: fl64_minus)
  qed
qed

lemma round_to_nearest:
  assumes "0 < u"
  shows "\<bar>round_to u q - q\<bar> \<le> \<bar>of_int j * u - q\<bar>"
proof -
  have "\<bar>round_to u q - q\<bar> = \<bar>of_int (round_half_even (q / u)) - q / u\<bar> * u"
    using assms by (simp add: round_to_def abs_mult [symmetric] field_simps)
  also have "\<dots> \<le> \<bar>of_int j - q / u\<bar> * u"
    using assms round_half_even_nearest [of "q / u" j] by (intro mult_right_mono) simp_all
  also have "\<dots> = \<bar>of_int j * u - q\<bar>"
    using assms by (simp add: abs_mult [symmetric] field_simps)
  finally show ?thesis .
qed

lemma multiple_of_ulp:
  assumes "k \<le> e"
  shows "\<exists>j. of_int m * 2 powi e = of_int j * (2 :: rat) powi k"
proof -
  define d where "d = nat (e - k)"
  with assms have "e = k + int d"
    by simp
  then have "of_int m * 2 powi e = of_int (m * 2 ^ d) * (2 :: rat) powi k"
    by (simp add: power_int_add)
  then show ?thesis ..
qed

lemma fl64_nearest_pos:
  assumes "q \<noteq> 0" and "\<bar>m\<bar> < 2 ^ 53" and "- 1074 \<le> e"
  shows "\<bar>fl64 q - q\<bar> \<le> \<bar>of_int m * 2 powi e - q\<bar>"
proof -
  define k where "k = max (ilog2 q) (- 1022) - 52"
  have u: "ulp q = 2 powi k"
    by (simp add: ulp_def k_def)
  have near: "\<bar>fl64 q - q\<bar> \<le> \<bar>of_int j * 2 powi k - q\<bar>" for j
    using round_to_nearest [of "ulp q" q j] assms(1) by (simp add: fl64_def u)
  show ?thesis
  proof (cases "k \<le> e")
    case True
    from multiple_of_ulp [OF this, of m] near show ?thesis
      by auto
  next
    case False
    with assms(3) have k: "k = ilog2 q - 52" and e: "e + 1 \<le> k"
      by (simp_all add: k_def max_def split: if_splits)
    define r :: rat where "r = of_int m * 2 powi e"
    have "\<bar>r\<bar> = of_int \<bar>m\<bar> * 2 powi e"
      by (simp add: r_def abs_mult)
    also have "\<dots> \<le> 2 ^ 53 * 2 powi e"
      using assms(2) by (intro mult_right_mono) (simp_all flip: of_int_less_iff [where 'a = rat])
    also have "\<dots> = 2 powi (e + 1 + 52)"
      using two_powi_split [of "e + 52"] by (simp add: add.commute)
    also have "\<dots> \<le> 2 powi ilog2 q"
      using e k by simp
    finally have r: "\<bar>r\<bar> \<le> 2 powi ilog2 q" .
    have g: "2 powi ilog2 q = of_int (2 ^ 52) * (2 :: rat) powi k"
      using two_powi_split' [of "ilog2 q"] by (simp add: k)
    have b: "2 powi ilog2 q \<le> \<bar>q\<bar>"
      using ilog2_bounds [OF assms(1)] by simp
    have "\<bar>fl64 q - q\<bar> \<le> \<bar>q\<bar> - 2 powi ilog2 q"
    proof (cases "0 < q")
      case True
      from near [of "2 ^ 52"] have "\<bar>fl64 q - q\<bar> \<le> \<bar>2 powi ilog2 q - q\<bar>"
        unfolding g [symmetric] .
      with True b show ?thesis
        by linarith
    next
      case False
      from near [of "- (2 ^ 52)"] have "\<bar>fl64 q - q\<bar> \<le> \<bar>- (2 powi ilog2 q) - q\<bar>"
        unfolding g by simp
      with False b show ?thesis
        by linarith
    qed
    also have "\<dots> \<le> \<bar>r - q\<bar>"
      using r by linarith
    finally show ?thesis
      by (simp only: r_def)
  qed
qed

lemma fl64_is_double:
  "\<exists>m e. \<bar>m\<bar> < 2 ^ 53 \<and> - 1074 \<le> e \<and> fl64 q = of_int m * 2 powi e"
proof (cases "q = 0")
  case True
  then have "\<bar>0 :: int\<bar> < 2 ^ 53 \<and> - 1074 \<le> (0 :: int) \<and> fl64 q = of_int 0 * 2 powi 0"
    by simp
  then show ?thesis
    by blast
next
  case False
  define k where "k = max (ilog2 q) (- 1022) - 52"
  define n where "n = round_half_even (q / ulp q)"
  have k: "- 1074 \<le> k" "- 1074 \<le> k + 1"
    by (simp_all add: k_def)
  have v: "fl64 q = of_int n * 2 powi k"
    using False by (simp add: fl64_def round_to_def n_def ulp_def k_def)
  from scaled_round_le [OF False] consider "\<bar>n\<bar> < 2 ^ 53" | "n = 2 ^ 53" | "n = - (2 ^ 53)"
    unfolding n_def by linarith
  then show ?thesis
  proof cases
    case 1
    with k(1) v show ?thesis
      by blast
  next
    case 2
    then have "fl64 q = of_int (2 ^ 52) * 2 powi (k + 1)"
      by (simp add: v two_powi_Suc)
    moreover have "\<bar>2 ^ 52 :: int\<bar> < 2 ^ 53"
      by simp
    ultimately show ?thesis
      using k(2) by blast
  next
    case 3
    then have "fl64 q = of_int (- (2 ^ 52)) * 2 powi (k + 1)"
      by (simp add: v two_powi_Suc)
    moreover have "\<bar>- (2 ^ 52) :: int\<bar> < 2 ^ 53"
      by simp
    ultimately show ?thesis
      using k(2) by blast
  qed
qed

lemma fl64_max_double: "fl64 max_double = max_double"
  using fl64_grid [of "2 ^ 53 - 1" 971] by (simp add: max_double_def)

lemma fl64_finite:
  assumes "\<bar>q\<bar> \<le> max_double"
  shows "\<bar>fl64 q\<bar> \<le> max_double"
proof -
  from assms have "- max_double \<le> q" and "q \<le> max_double"
    by linarith+
  from fl64_mono [OF this(1)] fl64_mono [OF this(2)] show ?thesis
    by (simp add: fl64_minus fl64_max_double abs_le_iff)
qed

section \<open>Lemmas on printing\<close>

lemma takeWhile_str_nat:
  "takeWhile (\<lambda>c. c \<noteq> CHR ''.'') (str_nat n @ CHR ''.'' # rest) = str_nat n"
  using str_nat_digits [of _ n] by (simp add: takeWhile_tail)

lemma dropWhile_str_nat:
  "dropWhile (\<lambda>c. c \<noteq> CHR ''.'') (str_nat n @ CHR ''.'' # rest) = CHR ''.'' # rest"
  using str_nat_digits [of _ n] by (simp add: dropWhile_append3)

lemma read_decimal_hundredths:
  "read_decimal (hundredths neg n) = (if neg then - 1 else 1) * (of_nat n / 100)"
proof -
  have two: "parse_nat [digit_char (n div 10 mod 10), digit_char (n mod 10)] = n mod 100"
    using mod_mult2_eq [of n 10 10] by (simp add: parse_nat_def digit_value_digit_char)
  have body: "(if neg then tl (hundredths neg n) else hundredths neg n) =
      str_nat (n div 100) @ CHR ''.'' # [digit_char (n div 10 mod 10), digit_char (n mod 10)]"
    by (simp add: hundredths_def)
  have sign: "(hundredths neg n \<noteq> [] \<and> hd (hundredths neg n) = CHR ''-'') = neg"
    using hd_str_nat [of "n div 100"] by (simp add: hundredths_def)
  have e: "(of_nat n :: rat) = of_nat (n div 100) * 100 + of_nat (n mod 100)"
    by (metis div_mult_mod_eq of_nat_add of_nat_mult of_nat_numeral)
  have val: "(of_nat (n div 100) :: rat) + of_nat (n mod 100) / 100 = of_nat n / 100"
    unfolding e by (simp add: add_divide_distrib)
  show ?thesis
    unfolding read_decimal_def Let_def sign body takeWhile_str_nat dropWhile_str_nat
    using val by (simp add: parse_nat_str_nat two)
qed

lemma decimals_hundredths: "decimals (hundredths neg n) = 2"
  using dropWhile_str_nat [of "n div 100"] by (simp add: decimals_def hundredths_def)

lemma format_2f_value: "read_decimal (format_2f q) = of_int (round_half_even (q * 100)) / 100"
proof (cases "q < 0")
  case True
  then have "0 \<le> round_half_even (- q * 100)"
    by (intro round_half_even_ge) simp
  with True show ?thesis
    using round_half_even_minus [of "q * 100"]
    by (simp add: format_2f_def read_decimal_hundredths abs_if)
next
  case False
  then have "0 \<le> round_half_even (q * 100)"
    by (intro round_half_even_ge) simp
  with False show ?thesis
    by (simp add: format_2f_def read_decimal_hundredths abs_if)
qed

lemma decimals_format_2f: "decimals (format_2f q) = 2"
  by (simp add: format_2f_def decimals_hundredths)

lemma fl64_hundred [simp]: "fl64 100 = 100"
  using fl64_of_int [of 100] by simp

lemma ulp_le_magnitude:
  assumes "- 1022 \<le> ilog2 q" and "q \<noteq> 0"
  shows "ulp q \<le> \<bar>q\<bar> / 2 ^ 52"
  using scaled_ge [OF assms(2) assms(1)] by (simp add: field_simps)

lemmas float_eval [py_eval] =
  tie_even_def round_half_even_def neg_exp_def ilog2_def ulp_def round_to_def fl64_def
  fmul_def fsub_def fdiv_def hundredths_def format_2f_def percent_def

lemma product_rounding_shows:
  "format_2f (fmul (fl64 (125 / 100000)) 100) = ''0.12'' \<and>
   format_2f (fl64 (125 / 100000) * 100) = ''0.13''"
  by code_simp

section \<open>Properties of the arithmetic\<close>

text \<open>
  C20. \<open>fl64\<close> rounds correctly. Its result is a binary64 number, a significand
  of at most 53 bits times a power of two not below \<open>2^(-1074)\<close>; no binary64 number
  is nearer to the exact value; and the result of rounding a value of the finite
  range of binary64 lies in that range, so the overflow that the model leaves out
  cannot occur there.
\<close>
theorem fl64_nearest_double:
  "(\<exists>m e. \<bar>m\<bar> < 2 ^ 53 \<and> - 1074 \<le> e \<and> fl64 q = of_int m * 2 powi e) \<and>
   (\<forall>m e. \<bar>m\<bar> < 2 ^ 53 \<and> - 1074 \<le> e \<longrightarrow> \<bar>fl64 q - q\<bar> \<le> \<bar>of_int m * 2 powi e - q\<bar>) \<and>
   (\<bar>q\<bar> \<le> max_double \<longrightarrow> \<bar>fl64 q\<bar> \<le> max_double)"
proof (cases "q = 0")
  case True
  with fl64_is_double [of q] show ?thesis
    by (simp add: max_double_def)
next
  case False
  with fl64_is_double [of q] fl64_finite [of q] show ?thesis
    by (simp add: fl64_nearest_pos)
qed

theorem fl64_nearest_double_witness:
  "\<bar>fl64 (1 / 10) - 1 / 10\<bar> \<le> \<bar>of_int 3602879701896396 * 2 powi (- 55) - 1 / 10\<bar> \<and>
   \<bar>fl64 (1 / 10)\<bar> \<le> max_double"
proof -
  have "\<bar>3602879701896396 :: int\<bar> < 2 ^ 53 \<and> - 1074 \<le> (- 55 :: int)"
    by simp
  moreover have "\<bar>1 / 10 :: rat\<bar> \<le> max_double"
    by (simp add: max_double_def)
  ultimately show ?thesis
    using fl64_nearest_double [of "1 / 10"] by blast
qed

text \<open>
  C21. In the normal range the product and the literals are correctly rounded:
  the double differs from the exact value by at most half a unit in the last
  place, a relative error of at most \<open>2^(-53)\<close>.
\<close>
theorem fl64_relative_error:
  assumes "- 1022 \<le> ilog2 q"
  shows "\<bar>fl64 q - q\<bar> \<le> \<bar>q\<bar> / 2 ^ 53"
proof (cases "q = 0")
  case True
  then show ?thesis
    by simp
next
  case False
  from ulp_le_magnitude [OF assms False] fl64_error [of q] show ?thesis
    by simp
qed

theorem fl64_relative_error_witness:
  "- 1022 \<le> ilog2 (1 / 10) \<and> \<bar>fl64 (1 / 10) - 1 / 10\<bar> \<le> \<bar>1 / 10\<bar> / 2 ^ 53"
proof -
  have "ilog2 (1 / 10) = - 4"
    by (rule ilog2_unique) (simp_all add: power_int_minus)
  with fl64_relative_error [of "1 / 10"] show ?thesis
    by simp
qed

text \<open>
  C22. \<^verbatim>\<open>risk_level = p * 100\<close> of a probability \<open>p\<close> between 0 and 1 is a
  percentage between 0 and 100: rounding the product cannot leave the interval,
  because \<open>fl64\<close> is monotone and 0 and 100 are doubles.
\<close>
theorem percentage_in_range:
  assumes "0 \<le> p" and "p \<le> 1"
  shows "0 \<le> fmul p 100 \<and> fmul p 100 \<le> 100"
proof -
  from assms have "0 \<le> p * 100" and "p * 100 \<le> 100"
    by simp_all
  from fl64_nonneg [OF this(1)] fl64_mono [OF this(2)] show ?thesis
    by (simp add: fmul_def)
qed

theorem percentage_in_range_witness:
  "(0 :: rat) \<le> 1 / 2 \<and> (1 / 2 :: rat) \<le> 1 \<and> 0 \<le> fmul (1 / 2) 100 \<and> fmul (1 / 2) 100 \<le> 100"
  using percentage_in_range [of "1 / 2"] by simp

text \<open>
  C23. The text \<^verbatim>\<open>f"{q:.2f}"\<close>, read as an ordinary decimal numeral (sign, integer
  digits, point, fraction digits by their place), is \<open>q\<close> rounded to the nearest
  hundredth, ties to even; it differs from \<open>q\<close> by at most half a hundredth, and it
  has exactly two digits after the point.
\<close>
theorem format_2f_decimal:
  "read_decimal (format_2f q) = of_int (round_half_even (q * 100)) / 100 \<and>
   \<bar>read_decimal (format_2f q) - q\<bar> \<le> 1 / 200 \<and> decimals (format_2f q) = 2"
proof -
  have "of_int (round_half_even (q * 100)) / 100 - q = (of_int (round_half_even (q * 100)) - q * 100) / 100"
    by (simp add: diff_divide_distrib)
  then have "\<bar>of_int (round_half_even (q * 100)) / 100 - q\<bar> =
      \<bar>of_int (round_half_even (q * 100)) - q * 100\<bar> / 100"
    by (simp only: abs_divide)
  also have "\<dots> \<le> (1 / 2) / 100"
    by (intro divide_right_mono round_half_even_error) simp
  finally have "\<bar>of_int (round_half_even (q * 100)) / 100 - q\<bar> \<le> 1 / 200"
    by simp
  then show ?thesis
    by (simp only: format_2f_value decimals_format_2f simp_thms)
qed

end
