(* ===== verification/St_Page.thy ===== *)
theory St_Page
  imports Input_Collector
begin

text \<open>
  What a run of the script shows, as data. Every \<^verbatim>\<open>st.*\<close> display call of
  \<^verbatim>\<open>src/main.py\<close> appends one \<open>element\<close> to the \<open>page\<close>, tagged with the container it
  is drawn in (\<^verbatim>\<open>st.sidebar.*\<close> draws in \<open>Sidebar\<close>). Texts are the UTF-8 bytes of the
  source's literals: a character outside ASCII is written as its bytes
  (\<open>CHR 0xE2\<close>, ...). The text of an f-string that interpolates an exception is a
  list of \<open>fragment\<close>s, because \<^verbatim>\<open>str(e)\<close> is chosen by the library that raised \<open>e\<close>.

  The main area holds the three columns of \<^verbatim>\<open>st.columns(3)\<close> (line 82);
  an element drawn under \<^verbatim>\<open>with col1:\<close> is tagged \<open>Column 1\<close>. A widget call draws
  the widget as the script declares it (\<open>St_widget\<close>); the value it shows is the
  browser's (\<open>ui_state\<close>). \<^verbatim>\<open>st.set_page_config\<close> draws nothing; its arguments are
  kept as the one element of the container \<open>Page_settings\<close>.

  A part of the script that can end the run returns \<open>'a run\<close>: the elements it
  drew and an \<open>outcome\<close>, \<open>Continue x\<close> when the script goes on with the value \<open>x\<close>,
  \<open>Stop\<close> after \<^verbatim>\<open>st.stop()\<close>, \<open>Uncaught e\<close> when an exception leaves the script
  (Streamlit then draws the exception and ends the run).
\<close>

section \<open>Elements\<close>

datatype fragment = Lit string | Str_exc py_error

record page_config =
  page_title :: string
  layout :: string
  initial_sidebar_state :: string

datatype element =
    St_title string
  | St_header string
  | St_subheader string
  | St_markdown string
  | St_caption string
  | St_metric string string "string option"
  | St_error "fragment list"
  | St_success string
  | St_exception py_error
  | St_widget widget
  | St_page_config page_config

datatype container = Main_area | Sidebar | Column nat | Page_settings

type_synonym page = "(container \<times> element) list"

definition in_main :: "element list \<Rightarrow> page" where
  "in_main es = map (Pair Main_area) es"

definition in_sidebar :: "element list \<Rightarrow> page" where
  "in_sidebar es = map (Pair Sidebar) es"

definition in_column :: "nat \<Rightarrow> element list \<Rightarrow> page" where
  "in_column i es = map (Pair (Column i)) es"

definition drawn_in :: "container \<Rightarrow> page \<Rightarrow> element list" where
  "drawn_in c p = map snd (filter (\<lambda>x. fst x = c) p)"

section \<open>Runs\<close>

datatype 'a outcome = Continue 'a | Stop | Uncaught py_error

type_synonym 'a run = "page \<times> 'a outcome"

definition then_run :: "'a run \<Rightarrow> ('a \<Rightarrow> 'b run) \<Rightarrow> 'b run" where
  "then_run r f =
     (case r of
        (out, Continue x) \<Rightarrow> (case f x of (out', r') \<Rightarrow> (out @ out', r'))
      | (out, Stop) \<Rightarrow> (out, Stop)
      | (out, Uncaught e) \<Rightarrow> (out, Uncaught e))"

definition draw :: "page \<Rightarrow> unit run" where
  "draw p = (p, Continue ())"

definition try_run :: "'a result \<Rightarrow> 'a run" where
  "try_run r = (case r of Inl e \<Rightarrow> ([(Main_area, St_exception e)], Uncaught e) | Inr x \<Rightarrow> ([], Continue x))"

definition main_only :: "page \<Rightarrow> bool" where
  "main_only p = list_all (\<lambda>x. fst x = Main_area) p"

definition never_stops :: "'a run \<Rightarrow> bool" where
  "never_stops r = (main_only (fst r) \<and> snd r \<noteq> Stop)"

section \<open>Lemmas\<close>

lemma then_run_simps [simp]:
  "then_run (out, Continue x) f = (out @ fst (f x), snd (f x))"
  "then_run (out, Stop) f = (out, Stop)"
  "then_run (out, Uncaught e) f = (out, Uncaught e)"
  by (simp_all add: then_run_def split: prod.splits)

lemma try_run_simps [simp]:
  "try_run (Raise e) = ([(Main_area, St_exception e)], Uncaught e)"
  "try_run (Return x) = ([], Continue x)"
  by (simp_all add: try_run_def)

lemma drawn_in_append [simp]: "drawn_in c (p @ q) = drawn_in c p @ drawn_in c q"
  by (simp add: drawn_in_def)

lemma drawn_in_main [simp]:
  "drawn_in Main_area (in_main es) = es"
  "drawn_in Sidebar (in_main es) = []"
  by (induction es) (simp_all add: drawn_in_def in_main_def)

lemma drawn_in_sidebar [simp]:
  "drawn_in Sidebar (in_sidebar es) = es"
  "drawn_in Main_area (in_sidebar es) = []"
  by (induction es) (simp_all add: drawn_in_def in_sidebar_def)

lemma drawn_in_column [simp]:
  "drawn_in (Column i) (in_column i es) = es"
  "drawn_in Sidebar (in_column i es) = []"
  "drawn_in Main_area (in_column i es) = []"
  by (induction es) (simp_all add: drawn_in_def in_column_def)

lemma drawn_in_Cons [simp]:
  "drawn_in c ((c', e) # p) = (if c' = c then e # drawn_in c p else drawn_in c p)"
  by (simp add: drawn_in_def)

lemma drawn_in_Nil [simp]: "drawn_in c [] = []"
  by (simp add: drawn_in_def)

lemma main_only_simps [simp]:
  "main_only []"
  "main_only (x # p) \<longleftrightarrow> fst x = Main_area \<and> main_only p"
  "main_only (p @ q) \<longleftrightarrow> main_only p \<and> main_only q"
  "main_only (in_main es)"
  by (auto simp: main_only_def in_main_def list_all_iff)

lemma drawn_in_main_only [simp]: "main_only p \<Longrightarrow> drawn_in Sidebar p = []"
  by (induction p) (auto simp: drawn_in_def)

lemma never_stops_try_run [simp, intro]: "never_stops (try_run r)"
  by (cases r) (simp_all add: never_stops_def)

lemma never_stops_draw [simp, intro]: "main_only p \<Longrightarrow> never_stops (draw p)"
  by (simp add: never_stops_def draw_def)

lemma never_stops_then_run [intro]:
  assumes "never_stops r" and "\<And>x. never_stops (f x)"
  shows "never_stops (then_run r f)"
proof (cases r)
  case (Pair out res)
  with assms show ?thesis
    by (cases res) (simp_all add: never_stops_def)
qed

lemmas page_eval [py_eval] = in_main_def in_sidebar_def in_column_def drawn_in_def draw_def

end
