(* ===== verification/Artifact_Loader.thy ===== *)
theory Artifact_Loader
  imports St_Page
begin

text \<open>
  The artifact loader, \<^verbatim>\<open>load_assets\<close> of \<^verbatim>\<open>src/main.py\<close> (lines 15-40).

  \<^item> The working directory is \<open>'o files\<close>, a map from file names to \<open>blob\<close>s. A blob is
    \<open>Pickle x\<close>, bytes that \<^verbatim>\<open>pickle.load\<close> turns into the object \<open>x\<close>, or \<open>Garbage\<close>,
    bytes it rejects. \<open>open_rb\<close> is \<^verbatim>\<open>open(name, 'rb')\<close>: an absent file raises
    \<open>FileNotFoundError\<close>. \<open>pickle_load\<close> raises \<open>OtherException\<close> on \<open>Garbage\<close> (the
    class Python raises there is not \<^verbatim>\<open>FileNotFoundError\<close>, and the script asks
    nothing more of it). The objects are of one type \<open>'o\<close>: pickle does not check
    what kind of object a file holds, and neither does the loader.
  \<^item> \<open>load_assets_try\<close> is the body of the \<^verbatim>\<open>try\<close>: three loads in the order of the
    source, the first exception ending it. \<open>load_assets_except\<close> is the two
    handlers: each draws one \<^verbatim>\<open>st.error\<close> and calls \<^verbatim>\<open>st.stop()\<close>.
  \<^item> \<open>load_assets_cached\<close> is the function under \<^verbatim>\<open>@st.cache_resource\<close>: the first
    call that returns stores its triple, later calls return the stored triple
    without reading a file; a call that stops stores nothing.

  The lemmas give the loader's result on every state of the three files, the
  order in which the failures are reported, and what the cache keeps.
\<close>

section \<open>Files and pickles\<close>

datatype 'o blob = Garbage | Pickle 'o

type_synonym 'o files = "string \<Rightarrow> 'o blob option"

definition open_rb :: "'o files \<Rightarrow> string \<Rightarrow> 'o blob result" where
  "open_rb fs name = (case fs name of None \<Rightarrow> Raise (FileNotFoundError name) | Some b \<Rightarrow> Return b)"

definition pickle_load :: "'o blob \<Rightarrow> 'o result" where
  "pickle_load b = (case b of Garbage \<Rightarrow> Raise OtherException | Pickle x \<Rightarrow> Return x)"

definition load_file :: "'o files \<Rightarrow> string \<Rightarrow> 'o result" where
  "load_file fs name = and_then (open_rb fs name) pickle_load"

section \<open>The loader\<close>

definition asset_files :: "string list" where
  "asset_files = [''ensemble_model.pkl'', ''scaler.pkl'', ''model_columns.pkl'']"

type_synonym 'o assets = "'o \<times> 'o \<times> 'o"

definition load_assets_try :: "'o files \<Rightarrow> 'o assets result" where
  "load_assets_try fs =
     and_then (load_file fs ''ensemble_model.pkl'') (\<lambda>model.
     and_then (load_file fs ''scaler.pkl'') (\<lambda>scaler.
     and_then (load_file fs ''model_columns.pkl'') (\<lambda>model_columns.
     Return (model, scaler, model_columns))))"

definition not_found_text :: string where
  "not_found_text =
     [CHR 0xE2, CHR 0x9A, CHR 0xA0, CHR 0xEF, CHR 0xB8, CHR 0x8F] @
     '' ERROR: File model, scaler, atau kolom tidak ditemukan. Pastikan file .pkl sudah dibuat dan ada di direktori yang sama.''"

definition load_error_text :: string where
  "load_error_text =
     [CHR 0xE2, CHR 0x9A, CHR 0xA0, CHR 0xEF, CHR 0xB8, CHR 0x8F] @ '' ERROR saat memuat aset: ''"

fun load_assets_except :: "py_error \<Rightarrow> 'a run" where
  "load_assets_except (FileNotFoundError name) = ([(Main_area, St_error [Lit not_found_text])], Stop)"
| "load_assets_except e = ([(Main_area, St_error [Lit load_error_text, Str_exc e])], Stop)"

definition load_assets :: "'o files \<Rightarrow> 'o assets run" where
  "load_assets fs =
     (case load_assets_try fs of
        Inr assets \<Rightarrow> ([], Continue assets)
      | Inl e \<Rightarrow> load_assets_except e)"

definition load_assets_cached :: "'o assets option \<Rightarrow> 'o files \<Rightarrow> 'o assets option \<times> 'o assets run" where
  "load_assets_cached cache fs =
     (case cache of
        Some assets \<Rightarrow> (cache, ([], Continue assets))
      | None \<Rightarrow>
         (case load_assets fs of
            (out, Continue assets) \<Rightarrow> (Some assets, (out, Continue assets))
          | r \<Rightarrow> (None, r)))"

section \<open>The state of the files\<close>

definition file_ok :: "'o files \<Rightarrow> string \<Rightarrow> bool" where
  "file_ok fs name = (case fs name of Some (Pickle x) \<Rightarrow> True | _ \<Rightarrow> False)"

definition first_bad :: "'o files \<Rightarrow> string option" where
  "first_bad fs = List.find (\<lambda>name. \<not> file_ok fs name) asset_files"

definition object_in :: "'o files \<Rightarrow> string \<Rightarrow> 'o" where
  "object_in fs name = (case fs name of Some (Pickle x) \<Rightarrow> x)"

definition assets_in :: "'o files \<Rightarrow> 'o assets" where
  "assets_in fs =
     (object_in fs ''ensemble_model.pkl'', object_in fs ''scaler.pkl'', object_in fs ''model_columns.pkl'')"

section \<open>One file\<close>

lemma load_file_cases:
  "load_file fs name =
     (case fs name of
        None \<Rightarrow> Raise (FileNotFoundError name)
      | Some Garbage \<Rightarrow> Raise OtherException
      | Some (Pickle x) \<Rightarrow> Return x)"
  by (simp add: load_file_def open_rb_def pickle_load_def split: option.splits blob.splits)

lemma load_file_ok: "file_ok fs name \<Longrightarrow> load_file fs name = Return (object_in fs name)"
  by (simp add: load_file_cases file_ok_def object_in_def split: option.splits blob.splits)

lemma load_file_bad:
  "\<not> file_ok fs name \<Longrightarrow>
   load_file fs name = Raise (if fs name = None then FileNotFoundError name else OtherException)"
  by (simp add: load_file_cases file_ok_def split: option.splits blob.splits)

lemma load_file_Return_iff: "load_file fs name = Return x \<longleftrightarrow> fs name = Some (Pickle x)"
  by (simp add: load_file_cases split: option.splits blob.splits)

section \<open>The three loads\<close>

lemma first_bad_None_iff: "first_bad fs = None \<longleftrightarrow> (\<forall>name \<in> set asset_files. file_ok fs name)"
  by (auto simp: first_bad_def find_None_iff)

lemma first_bad_in_files: "first_bad fs = Some name \<Longrightarrow> name \<in> set asset_files \<and> \<not> file_ok fs name"
  by (auto simp: first_bad_def find_Some_iff)

lemma load_assets_try_ok:
  "first_bad fs = None \<Longrightarrow> load_assets_try fs = Return (assets_in fs)"
  by (simp add: first_bad_None_iff asset_files_def load_assets_try_def load_file_ok assets_in_def)

lemma load_assets_try_bad:
  assumes "first_bad fs = Some name"
  shows "load_assets_try fs =
     Raise (if fs name = None then FileNotFoundError name else OtherException)"
proof -
  consider "\<not> file_ok fs ''ensemble_model.pkl''" "name = ''ensemble_model.pkl''"
    | "file_ok fs ''ensemble_model.pkl''" "\<not> file_ok fs ''scaler.pkl''" "name = ''scaler.pkl''"
    | "file_ok fs ''ensemble_model.pkl''" "file_ok fs ''scaler.pkl''"
      "\<not> file_ok fs ''model_columns.pkl''" "name = ''model_columns.pkl''"
    using assms by (auto simp: first_bad_def asset_files_def split: if_splits)
  then show ?thesis
    by cases (simp_all add: load_assets_try_def load_file_ok load_file_bad)
qed

lemma load_assets_try_Return_iff:
  "load_assets_try fs = Return (m, s, c) \<longleftrightarrow>
     fs ''ensemble_model.pkl'' = Some (Pickle m) \<and> fs ''scaler.pkl'' = Some (Pickle s) \<and>
     fs ''model_columns.pkl'' = Some (Pickle c)"
  by (auto simp: load_assets_try_def and_then_Return_iff load_file_Return_iff)

lemma load_assets_ok: "first_bad fs = None \<Longrightarrow> load_assets fs = ([], Continue (assets_in fs))"
  by (simp add: load_assets_def load_assets_try_ok)

lemma load_assets_cached_hit [simp]:
  "load_assets_cached (Some a) fs = (Some a, ([], Continue a))"
  by (simp add: load_assets_cached_def)

lemma load_assets_bad_Stop: "first_bad fs = Some name \<Longrightarrow> snd (load_assets fs) = Stop"
  by (simp add: load_assets_def load_assets_try_bad)

lemma load_assets_cached_miss:
  "load_assets_cached None fs =
     (if first_bad fs = None then (Some (assets_in fs), ([], Continue (assets_in fs)))
      else (None, load_assets fs))"
proof (cases "first_bad fs")
  case None
  then show ?thesis
    by (simp add: load_assets_cached_def load_assets_ok)
next
  case (Some name)
  from load_assets_bad_Stop [OF this] show ?thesis
    using Some by (cases "load_assets fs") (simp add: load_assets_cached_def)
qed

lemmas loader_eval [py_eval] =
  open_rb_def pickle_load_def load_file_def asset_files_def load_assets_try_def
  load_assets_def load_assets_cached_def file_ok_def first_bad_def object_in_def assets_in_def

section \<open>Properties of the loader\<close>

text \<open>
  C18. The loader returns exactly when each of the three files holds a pickle;
  then it draws nothing and returns the three objects in the order model,
  scaler, columns.
\<close>
theorem load_assets_returns_iff:
  "load_assets fs = (out, Continue (m, s, c)) \<longleftrightarrow>
     out = [] \<and> fs ''ensemble_model.pkl'' = Some (Pickle m) \<and>
     fs ''scaler.pkl'' = Some (Pickle s) \<and> fs ''model_columns.pkl'' = Some (Pickle c)"
proof (cases "load_assets_try fs")
  case (Inl e)
  then have "load_assets_try fs \<noteq> Return (m, s, c)"
    by simp
  moreover have "snd (load_assets_except e :: 'a assets run) = Stop"
    by (cases e) simp_all
  then have "load_assets fs \<noteq> (out, Continue (m, s, c))"
    using Inl by (auto simp: load_assets_def)
  ultimately show ?thesis
    by (simp add: load_assets_try_Return_iff)
next
  case (Inr a)
  then show ?thesis
    using load_assets_try_Return_iff [of fs m s c] by (auto simp: load_assets_def)
qed

text \<open>
  C19. When a file is absent or is not a pickle, the loader stops the run after
  one \<^verbatim>\<open>st.error\<close>, and the message is decided by the first such file in the
  order model, scaler, columns: the not-found message when that file is absent,
  the load-error message when it is garbage. No triple is returned.
\<close>
theorem load_assets_reports_first_bad:
  assumes "first_bad fs = Some name"
  shows "load_assets fs =
     ([(Main_area, St_error (if fs name = None then [Lit not_found_text]
                             else [Lit load_error_text, Str_exc OtherException]))], Stop)"
  using assms by (simp add: load_assets_def load_assets_try_bad)

theorem load_assets_reports_first_bad_witness:
  "first_bad [''ensemble_model.pkl'' \<mapsto> Garbage, ''model_columns.pkl'' \<mapsto> Pickle (0 :: nat)] =
     Some ''ensemble_model.pkl'' \<and>
   load_assets [''ensemble_model.pkl'' \<mapsto> Garbage, ''model_columns.pkl'' \<mapsto> Pickle (0 :: nat)] =
     ([(Main_area, St_error [Lit load_error_text, Str_exc OtherException])], Stop)"
  using load_assets_reports_first_bad
    [of "[''ensemble_model.pkl'' \<mapsto> Garbage, ''model_columns.pkl'' \<mapsto> Pickle (0 :: nat)]"
      "''ensemble_model.pkl''"]
  by (simp add: first_bad_def asset_files_def file_ok_def)

end
