(* ===== verification/Predictor.thy ===== *)
theory Predictor
  imports Feature_Aligner Py_Float Artifact_Loader
begin

text \<open>
  The rest of the button handler of \<^verbatim>\<open>src/main.py\<close>: the scaler adapter (line
  147), the predictor (lines 150-153) and the result presenter (lines 156-166).

  \<^item> The three artifacts are objects whose class the script never checks. An
    \<open>artifact\<close> is either a list of column names or an \<open>estimator\<close>, an object known
    by the methods it has: \<open>transform\<close>, \<open>predict\<close>, \<open>predict_proba\<close>, each absent or
    a function that returns or raises. Calling an absent method raises
    \<open>AttributeError\<close>; using an estimator as the \<^verbatim>\<open>columns\<close> of a frame raises
    \<open>TypeError\<close>. What the methods compute belongs to scikit-learn and is a
    parameter of the model.
  \<^item> \<open>final_input_for\<close> is lines 123-143 over the loaded column object; on a list
    of names it is \<open>prepare_features\<close>.
  \<^item> \<open>risk_level_of\<close> is line 153, \<open>present\<close> lines 156-166, \<open>on_predict\<close> the whole
    body of \<^verbatim>\<open>if st.button(...)\<close>. An exception that leaves the handler ends the
    run with Streamlit's exception box (\<open>try_run\<close>): the script catches none.
  \<^item> \<open>standard_transform\<close> is the scaler the specification describes (section
    4.4): per-column centring and scaling in binary64, refusing a row of the
    wrong width with \<open>ValueError\<close>. \<open>constant_classifier\<close> is a classifier used
    to run the handler on examples.

  The lemmas give the page the handler draws on every path, and the agreement
  of verdict and percentage for a classifier that votes softly.
\<close>

section \<open>Artifacts\<close>

type_synonym matrix = "rat list list"

record estimator =
  transform_method :: "(frame \<Rightarrow> matrix result) option"
  predict_method :: "(matrix \<Rightarrow> int list result) option"
  predict_proba_method :: "(matrix \<Rightarrow> matrix result) option"

datatype artifact = Estimator estimator | Column_list "string list"

definition method_of :: "(estimator \<Rightarrow> 'm option) \<Rightarrow> artifact \<Rightarrow> 'm result" where
  "method_of sel obj =
     (case obj of
        Column_list cs \<Rightarrow> Raise AttributeError
      | Estimator e \<Rightarrow> (case sel e of None \<Rightarrow> Raise AttributeError | Some m \<Rightarrow> Return m))"

definition column_labels :: "artifact \<Rightarrow> string list result" where
  "column_labels obj = (case obj of Column_list cs \<Rightarrow> Return cs | Estimator e \<Rightarrow> Raise TypeError)"

definition item :: "'a list \<Rightarrow> nat \<Rightarrow> 'a result" where
  "item xs i = (if i < length xs then Return (xs ! i) else Raise IndexError)"

section \<open>The handler\<close>

definition final_input_for :: "collected \<Rightarrow> artifact \<Rightarrow> frame result" where
  "final_input_for c model_columns =
     and_then (convert_selections c) (\<lambda>d.
     and_then (encode_input d) (\<lambda>input_df_ohe.
     and_then (column_labels model_columns) (\<lambda>cols.
     fill_final_input input_df_ohe (columns input_df_ohe) (DataFrame_fill (IntC 0) [0] cols))))"

definition transform :: "artifact \<Rightarrow> frame \<Rightarrow> matrix result" where
  "transform scaler X = and_then (method_of transform_method scaler) (\<lambda>m. m X)"

definition predict :: "artifact \<Rightarrow> matrix \<Rightarrow> int list result" where
  "predict model X = and_then (method_of predict_method model) (\<lambda>m. m X)"

definition predict_proba :: "artifact \<Rightarrow> matrix \<Rightarrow> matrix result" where
  "predict_proba model X = and_then (method_of predict_proba_method model) (\<lambda>m. m X)"

definition risk_level_of :: "matrix \<Rightarrow> rat result" where
  "risk_level_of prediction_proba =
     and_then (item prediction_proba 0) (\<lambda>row.
     and_then (item row 1) (\<lambda>p. Return (fmul p 100)))"

definition result_header :: string where
  "result_header = [CHR 0xE2, CHR 0x9C, CHR 0xA8] @ '' Hasil Prediksi Model Ensemble''"

definition high_status :: string where
  "high_status = ''**Status: Risiko TINGGI Penyakit Jantung**''"

definition low_status :: string where
  "low_status = ''**Status: Risiko RENDAH Penyakit Jantung**''"

definition risk_label :: string where
  "risk_label = ''Tingkat Risiko (Probabilitas)''"

definition high_advice :: string where
  "high_advice = ''Model memprediksi pasien **Memiliki Penyakit Jantung** berdasarkan data klinis yang dimasukkan. Disarankan untuk konsultasi lebih lanjut.''"

definition low_advice :: string where
  "low_advice = ''Model memprediksi pasien **TIDAK Memiliki Penyakit Jantung**. Tetap pertahankan gaya hidup sehat.''"

definition verdict :: "int \<Rightarrow> rat \<Rightarrow> element list" where
  "verdict label risk_level =
     (if label = 1
      then [St_error [Lit high_status],
            St_metric risk_label (format_2f risk_level @ ''%'') None,
            St_markdown high_advice]
      else [St_success low_status,
            St_metric risk_label (format_2f risk_level @ ''%'') None,
            St_markdown low_advice])"

definition present :: "int list \<Rightarrow> rat \<Rightarrow> unit run" where
  "present prediction risk_level =
     then_run (draw (in_main [St_markdown ''---'', St_header result_header])) (\<lambda>_.
     then_run (try_run (item prediction 0)) (\<lambda>label.
     draw (in_main (verdict label risk_level))))"

definition on_predict :: "artifact assets \<Rightarrow> collected \<Rightarrow> unit run" where
  "on_predict assets c =
     (case assets of (ensemble_model, scaler, model_columns) \<Rightarrow>
        then_run (try_run (final_input_for c model_columns)) (\<lambda>final_input.
        then_run (try_run (transform scaler final_input)) (\<lambda>input_scaled.
        then_run (try_run (predict ensemble_model input_scaled)) (\<lambda>prediction.
        then_run (try_run (predict_proba ensemble_model input_scaled)) (\<lambda>prediction_proba.
        then_run (try_run (risk_level_of prediction_proba)) (\<lambda>risk_level.
        present prediction risk_level))))))"

definition one_outcome :: "unit run \<Rightarrow> bool" where
  "one_outcome r \<longleftrightarrow>
     (\<exists>e pre. r = (in_main (pre @ [St_exception e]), Uncaught e) \<and>
        (pre = [] \<or> pre = [St_markdown ''---'', St_header result_header])) \<or>
     (\<exists>label x. r =
        (in_main ([St_markdown ''---'', St_header result_header] @ verdict label x), Continue ()))"

section \<open>The scaler and a classifier of the specification\<close>

record standard_scaler =
  sc_mean :: "rat list"
  sc_scale :: "rat list"

definition cell_to_float :: "cell \<Rightarrow> rat" where
  "cell_to_float c = fl64 (num c)"

definition scale_row :: "standard_scaler \<Rightarrow> cell list \<Rightarrow> rat list" where
  "scale_row s row =
     map (\<lambda>(x, m, sd). fdiv (fsub (cell_to_float x) m) sd) (zip row (zip (sc_mean s) (sc_scale s)))"

definition standard_transform :: "standard_scaler \<Rightarrow> frame \<Rightarrow> matrix result" where
  "standard_transform s X =
     (if length (columns X) = length (sc_mean s)
      then Return (map (scale_row s) (to_numpy X))
      else Raise ValueError)"

definition standard_scaler_obj :: "standard_scaler \<Rightarrow> artifact" where
  "standard_scaler_obj s =
     Estimator \<lparr>transform_method = Some (standard_transform s),
                predict_method = None, predict_proba_method = None\<rparr>"

definition constant_classifier :: "rat \<Rightarrow> artifact" where
  "constant_classifier p =
     Estimator \<lparr>transform_method = None,
                predict_method = Some (\<lambda>X. Return (map (\<lambda>row. if 1 / 2 < p then 1 else 0) X)),
                predict_proba_method = Some (\<lambda>X. Return (map (\<lambda>row. [fsub 1 p, p]) X))\<rparr>"

definition soft_vote :: "int list \<Rightarrow> matrix \<Rightarrow> bool" where
  "soft_vote prediction prediction_proba =
     (length prediction = length prediction_proba \<and>
      list_all (\<lambda>(label, row). length row = 2 \<and> 0 \<le> row ! 1 \<and> row ! 1 \<le> 1 \<and>
                  (label = 1 \<and> 1 / 2 \<le> row ! 1 \<or> label = 0 \<and> row ! 1 \<le> 1 / 2))
        (zip prediction prediction_proba))"

section \<open>Calls\<close>

lemma method_of_simps [simp]:
  "method_of sel (Column_list cs) = Raise AttributeError"
  "method_of sel (Estimator e) = (case sel e of None \<Rightarrow> Raise AttributeError | Some m \<Rightarrow> Return m)"
  by (simp_all add: method_of_def)

lemma column_labels_simps [simp]:
  "column_labels (Column_list cs) = Return cs"
  "column_labels (Estimator e) = Raise TypeError"
  by (simp_all add: column_labels_def)

lemma item_simps [simp]:
  "item (x # xs) 0 = Return x"
  "item (x # xs) (Suc n) = item xs n"
  "item [] n = Raise IndexError"
  by (simp_all add: item_def)

lemma item_Return_iff: "item xs i = Return x \<longleftrightarrow> i < length xs \<and> xs ! i = x"
  by (simp add: item_def)

lemma final_input_for_columns [simp]:
  "final_input_for c (Column_list cols) = prepare_features c cols"
  by (simp add: final_input_for_def prepare_features_def build_final_input_def)

lemma transform_standard [simp]:
  "transform (standard_scaler_obj s) X = standard_transform s X"
  by (simp add: transform_def standard_scaler_obj_def)

lemma transform_Column_list [simp]: "transform (Column_list cs) X = Raise AttributeError"
  by (simp add: transform_def)

lemma constant_classifier_calls [simp]:
  "predict (constant_classifier p) X = Return (map (\<lambda>row. if 1 / 2 < p then 1 else 0) X)"
  "predict_proba (constant_classifier p) X = Return (map (\<lambda>row. [fsub 1 p, p]) X)"
  by (simp_all add: predict_def predict_proba_def constant_classifier_def)

section \<open>The presenter\<close>

lemma present_Cons:
  "present (label # rest) r =
     (in_main ([St_markdown ''---'', St_header result_header] @ verdict label r), Continue ())"
  by (simp add: present_def draw_def in_main_def)

lemma present_Nil:
  "present [] r =
     (in_main [St_markdown ''---'', St_header result_header, St_exception IndexError],
      Uncaught IndexError)"
  by (simp add: present_def draw_def in_main_def)

lemma length_verdict [simp]: "length (verdict label r) = 3"
  by (simp add: verdict_def)

lemma risk_level_of_Return:
  "risk_level_of ((p0 # p1 # ps) # rows) = Return (fmul p1 100)"
  by (simp add: risk_level_of_def)

lemma on_predict_steps:
  assumes "final_input_for c cols = Return f" and "transform scaler f = Return X"
    and "predict model X = Return prediction" and "predict_proba model X = Return proba"
    and "risk_level_of proba = Return r"
  shows "on_predict (model, scaler, cols) c = present prediction r"
  using assms by (simp add: on_predict_def)

lemma on_predict_transform_Raise:
  assumes "final_input_for c cols = Return f" and "transform scaler f = Raise e"
  shows "on_predict (model, scaler, cols) c = ([(Main_area, St_exception e)], Uncaught e)"
  using assms by (simp add: on_predict_def)

lemmas predictor_eval [py_eval] =
  method_of_def column_labels_def item_def final_input_for_def transform_def predict_def
  predict_proba_def risk_level_of_def result_header_def high_status_def low_status_def
  risk_label_def high_advice_def low_advice_def verdict_def present_def on_predict_def
  cell_to_float_def scale_row_def standard_transform_def standard_scaler_obj_def
  constant_classifier_def soft_vote_def then_run_def try_run_def

lemma fl64_fifty [simp]: "fl64 50 = 50"
  using fl64_of_int [of 50] by simp

lemma fmul_100_bounds:
  "0 \<le> p \<Longrightarrow> 0 \<le> fmul p 100"
  "p \<le> 1 \<Longrightarrow> fmul p 100 \<le> 100"
  "1 / 2 \<le> p \<Longrightarrow> 50 \<le> fmul p 100"
  "p \<le> 1 / 2 \<Longrightarrow> fmul p 100 \<le> 50"
  using fl64_mono [of 0 "p * 100"] fl64_mono [of "p * 100" 100]
    fl64_mono [of 50 "p * 100"] fl64_mono [of "p * 100" 50]
  by (simp_all add: fmul_def)

section \<open>Properties of the handler\<close>

text \<open>
  C24. The presenter on every input. It first draws a rule and the result
  header. Given at least one predicted label it then draws exactly one of the
  two templates, the high-risk one when the first label is 1 and the low-risk
  one otherwise, each with the risk level printed with two decimals and a
  percent sign, and the run continues. Given no label, \<^verbatim>\<open>prediction[0]\<close> raises
  \<open>IndexError\<close> after the header is on the page, and the run ends there.
\<close>
theorem present_one_template:
  "present prediction r =
     (case prediction of
        [] \<Rightarrow>
          (in_main [St_markdown ''---'', St_header result_header, St_exception IndexError],
           Uncaught IndexError)
      | label # rest \<Rightarrow>
          (in_main [St_markdown ''---'', St_header result_header,
                    if label = 1 then St_error [Lit high_status] else St_success low_status,
                    St_metric risk_label (format_2f r @ ''%'') None,
                    St_markdown (if label = 1 then high_advice else low_advice)],
           Continue ()))"
  by (cases prediction) (simp_all add: present_Cons present_Nil verdict_def)

text \<open>
  C25. For a classifier that votes softly (one label and one row of two
  probabilities per input row, the label 1 only when the probability of class 1
  is at least one half, the label 0 only when it is at most one half), the
  risk level is defined, lies between 0 and 100, and agrees with the verdict:
  at least 50 under the high-risk template, at most 50 under the low-risk one.
\<close>
theorem verdict_agrees_with_percentage:
  assumes "soft_vote prediction prediction_proba" and "prediction \<noteq> []"
  shows "\<exists>r. risk_level_of prediction_proba = Return r \<and> 0 \<le> r \<and> r \<le> 100 \<and>
             (hd prediction = 1 \<longrightarrow> 50 \<le> r) \<and> (hd prediction \<noteq> 1 \<longrightarrow> r \<le> 50)"
proof -
  from assms obtain label rest row rows where
    p: "prediction = label # rest" "prediction_proba = row # rows"
    by (cases prediction; cases prediction_proba) (auto simp: soft_vote_def)
  with assms(1) have row: "length row = 2" "0 \<le> row ! 1" "row ! 1 \<le> 1"
    "label = 1 \<and> 1 / 2 \<le> row ! 1 \<or> label = 0 \<and> row ! 1 \<le> 1 / 2"
    by (simp_all add: soft_vote_def)
  from row(1) have "risk_level_of prediction_proba = Return (fmul (row ! 1) 100)"
    by (simp add: p risk_level_of_def item_def)
  with row(2-) fmul_100_bounds [of "row ! 1"] show ?thesis
    by (auto simp: p)
qed

theorem verdict_agrees_with_percentage_witness:
  "soft_vote [1] [[1 / 4, 3 / 4]] \<and> [1 :: int] \<noteq> [] \<and>
   (\<exists>r. risk_level_of [[1 / 4, 3 / 4]] = Return r \<and> 0 \<le> r \<and> r \<le> 100 \<and>
        (hd [1 :: int] = 1 \<longrightarrow> 50 \<le> r) \<and> (hd [1 :: int] \<noteq> 1 \<longrightarrow> r \<le> 50))"
  using verdict_agrees_with_percentage [of "[1]" "[[1 / 4, 3 / 4]]"]
  by (simp add: soft_vote_def)

text \<open>
  C26. The loader does not look at what it loads. When \<^verbatim>\<open>scaler.pkl\<close> holds a list
  of names instead of a scaler, \<^verbatim>\<open>load_assets\<close> returns as usual, the page is
  drawn, and the failure comes only when the button is pressed: the handler
  ends with \<open>AttributeError\<close> and draws no verdict.
\<close>
theorem swapped_artifact_fails_on_click:
  assumes "fs ''ensemble_model.pkl'' = Some (Pickle m)"
    and "fs ''scaler.pkl'' = Some (Pickle (Column_list cs))"
    and "fs ''model_columns.pkl'' = Some (Pickle (Column_list cols))"
    and "prepare_features c cols = Return f"
  shows "load_assets fs = ([], Continue (m, Column_list cs, Column_list cols)) \<and>
         on_predict (m, Column_list cs, Column_list cols) c =
           ([(Main_area, St_exception AttributeError)], Uncaught AttributeError)"
proof -
  from assms(1-3) have "load_assets_try fs = Return (m, Column_list cs, Column_list cols)"
    by (simp add: load_assets_try_Return_iff)
  then have "load_assets fs = ([], Continue (m, Column_list cs, Column_list cols))"
    by (simp add: load_assets_def)
  moreover from assms(4) have "final_input_for c (Column_list cols) = Return f"
    by simp
  from on_predict_transform_Raise [OF this, of "Column_list cs" AttributeError m]
  have "on_predict (m, Column_list cs, Column_list cols) c =
      ([(Main_area, St_exception AttributeError)], Uncaught AttributeError)"
    by simp
  ultimately show ?thesis
    by simp
qed

theorem swapped_artifact_fails_on_click_witness:
  "load_assets [''ensemble_model.pkl'' \<mapsto> Pickle (constant_classifier (3 / 4)),
                ''scaler.pkl'' \<mapsto> Pickle (Column_list [''age'']),
                ''model_columns.pkl'' \<mapsto> Pickle (Column_list [''age''])] =
     ([], Continue (constant_classifier (3 / 4), Column_list [''age''], Column_list [''age''])) \<and>
   on_predict (constant_classifier (3 / 4), Column_list [''age''], Column_list [''age''])
       (collect initial_ui) =
     ([(Main_area, St_exception AttributeError)], Uncaught AttributeError)"
proof -
  have "prepare_features (collect initial_ui) [''age''] =
      Return \<lparr>index = [0], series = [(''age'', [IntC 50])]\<rparr>"
    by (simp add: py_eval)
  from swapped_artifact_fails_on_click [OF _ _ _ this,
      of "[''ensemble_model.pkl'' \<mapsto> Pickle (constant_classifier (3 / 4)),
           ''scaler.pkl'' \<mapsto> Pickle (Column_list [''age'']),
           ''model_columns.pkl'' \<mapsto> Pickle (Column_list [''age''])]"
         "constant_classifier (3 / 4)" "[''age'']"]
  show ?thesis
    by simp
qed

lemma one_outcome_raised:
  assumes "r = (in_main (pre @ [St_exception e]), Uncaught e)"
    and "pre = [] \<or> pre = [St_markdown ''---'', St_header result_header]"
  shows "one_outcome r"
  unfolding one_outcome_def
  by (rule disjI1, rule exI [where x = e], rule exI [where x = pre], rule conjI) (fact assms)+

lemma one_outcome_verdict:
  assumes "r = (in_main ([St_markdown ''---'', St_header result_header] @ verdict label x), Continue ())"
  shows "one_outcome r"
  unfolding one_outcome_def
  by (rule disjI2, rule exI [where x = label], rule exI [where x = x]) (fact assms)

lemma one_outcome_try:
  assumes "\<And>x. r = Return x \<Longrightarrow> one_outcome (f x)"
  shows "one_outcome (then_run (try_run r) f)"
proof (cases r)
  case (Inl e)
  then have "then_run (try_run r) f = (in_main ([] @ [St_exception e]), Uncaught e)"
    by (simp add: in_main_def)
  then show ?thesis
    by (rule one_outcome_raised) simp
next
  case (Inr x)
  with assms [of x] show ?thesis
    by simp
qed

lemma one_outcome_present: "one_outcome (present prediction r)"
proof (cases prediction)
  case Nil
  then have "present prediction r =
      (in_main ([St_markdown ''---'', St_header result_header] @ [St_exception IndexError]),
       Uncaught IndexError)"
    by (simp add: present_Nil)
  then show ?thesis
    by (rule one_outcome_raised) simp
next
  case (Cons label rest)
  then have "present prediction r =
      (in_main ([St_markdown ''---'', St_header result_header] @ verdict label r), Continue ())"
    by (simp add: present_Cons)
  then show ?thesis
    by (rule one_outcome_verdict)
qed

text \<open>
  C35. The handler on every path. Whatever the form holds and whatever the
  three objects are, the body of the button either ends with Streamlit's
  exception box, drawn first on the page or right after the rule and the result
  header, or draws the rule, the header and one verdict and continues. It never
  stops the script and never draws in the sidebar.
\<close>
theorem on_predict_outcomes:
  "(\<exists>e pre. on_predict assets c = (in_main (pre @ [St_exception e]), Uncaught e) \<and>
       (pre = [] \<or> pre = [St_markdown ''---'', St_header result_header])) \<or>
   (\<exists>label r. on_predict assets c =
       (in_main ([St_markdown ''---'', St_header result_header] @ verdict label r), Continue ()))"
proof -
  obtain model scaler cols where a: "assets = (model, scaler, cols)"
    by (cases assets)
  have "one_outcome (on_predict (model, scaler, cols) c)"
    unfolding on_predict_def prod.case
    by (intro one_outcome_try one_outcome_present)
  then show ?thesis
    unfolding a by (simp only: one_outcome_def)
qed

end
