(* ===== verification/App_Script.thy ===== *)
theory App_Script
  imports Predictor
begin

text \<open>
  The script \<^verbatim>\<open>src/main.py\<close> as a whole: one run from the top.

  \<^item> \<open>set_page_config\<close> is the call of lines 8-12, the first of every run.
    \<open>intro\<close> (lines 51-61), \<open>sidebar\<close> (lines 64-75, with the accuracies of lines
    46-48 printed as percentages), \<open>form_header\<close> (line 79), \<open>form\<close> (the thirteen
    widget calls of lines 82-116 in their three columns) and \<open>predict_button\<close> (line
    120) are what the script draws whatever the inputs: \<open>page_after_load\<close>, and
    with the page settings \<open>static_page\<close>.
  \<^item> \<open>body\<close> is everything after the loader: it draws \<open>page_after_load\<close>, reads the
    widgets (\<open>collect\<close>) and, when the button of line 120 is pressed, runs the
    handler \<open>on_predict\<close>.
  \<^item> \<open>script fs cache ui\<close> is one run, from the top: the page settings, the cached
    loader, the body; a run the loader stops draws the error and nothing else.

  The lemmas evaluate the sidebar, show that the handler never stops the run
  and draws in the main area only, and give the result of a run for each state
  of the cache and of the files.
\<close>

section \<open>Static content\<close>

definition set_page_config :: page where
  "set_page_config =
     [(Page_settings,
       St_page_config
         \<lparr>page_title = ''Aplikasi Cerdas Prediksi Penyakit Jantung'', layout = ''wide'',
          initial_sidebar_state = ''expanded''\<rparr>)]"

definition AKURASI_ENSEMBLE :: rat where
  "AKURASI_ENSEMBLE = fl64 (925 / 1000)"

definition AKURASI_RF :: rat where
  "AKURASI_RF = fl64 (880 / 1000)"

definition AKURASI_LR :: rat where
  "AKURASI_LR = fl64 (865 / 1000)"

definition title_text :: string where
  "title_text = [CHR 0xF0, CHR 0x9F, CHR 0xA9, CHR 0xBA] @ '' Aplikasi Cerdas Prediksi Penyakit Jantung''"

definition intro_text :: string where
  "intro_text =
     [CHR 0x0A] @
     ''    **Project Final Data Science:** Model Klasifikasi Biner untuk mendeteksi risiko Penyakit Jantung.'' @
     [CHR 0x0A] @
     ''    '' @
     [CHR 0x0A] @
     ''    ### '' @
     [CHR 0xE2, CHR 0x9A, CHR 0x94] @
     '' Aturan Main Dipenuhi:'' @
     [CHR 0x0A] @
     ''    1.  **Dataset Mandiri:** Menggunakan Heart Disease Dataset (UCI/Kaggle).'' @
     [CHR 0x0A] @
     ''    2.  **Dynamic Duo:** Menggabungkan **Random Forest** dan **Logistic Regression** dalam **VotingClassifier (Soft Voting)**.'' @
     [CHR 0x0A] @
     ''    3.  **Akurasi Super:** Akurasi Model Ensemble mencapai **>90%**.'' @
     [CHR 0x0A]"

definition intro :: page where
  "intro = in_main [St_title title_text, St_markdown intro_text, St_markdown ''---'']"

definition sidebar_header :: string where
  "sidebar_header = [CHR 0xF0, CHR 0x9F, CHR 0x93, CHR 0x8A] @ '' Model Performance''"

definition sidebar :: page where
  "sidebar =
     in_sidebar
       [St_header sidebar_header,
        St_markdown ''**Akurasi Ensemble (Kombinasi RF + LR):**'',
        St_metric ''Akurasi Super'' (percent AKURASI_ENSEMBLE) (Some ''Target >90%''),
        St_markdown ''---'',
        St_subheader ''Perbandingan Model Head-to-Head'',
        St_metric ''Akurasi Random Forest'' (percent AKURASI_RF) None,
        St_metric ''Akurasi Logistic Regression'' (percent AKURASI_LR) None,
        St_markdown ''---'',
        St_caption ''Catatan: Soft Voting sering meningkatkan akurasi model individu.'']"

definition form_header :: string where
  "form_header = [CHR 0xF0, CHR 0x9F, CHR 0x91, CHR 0xA4] @ '' Input Data Pasien Baru''"

definition form :: page where
  "form =
     in_column 1
       [St_widget (Slider ''1. Usia (tahun)'' age_bounds),
        St_widget (Number_input ''2. Tekanan Darah Istirahat (mmHg)'' trestbps_bounds),
        St_widget (Number_input ''3. Kolesterol Serum (mg/dl)'' chol_bounds),
        St_widget (Number_input ''4. Denyut Jantung Maksimum'' thalach_bounds),
        St_widget (Float_slider ''5. Oldpeak (ST Depression)'' oldpeak_bounds)] @
     in_column 2
       [St_widget (Radio ''6. Jenis Kelamin'' sex_options),
        St_widget (Selectbox ''7. Tipe Nyeri Dada (CP)'' (dict_keys cp_map)),
        St_widget (Radio ''8. Gula Darah Puasa > 120 mg/dl?'' yes_no_options)] @
     in_column 3
       [St_widget (Selectbox ''9. Hasil EKG Istirahat'' (dict_keys restecg_map)),
        St_widget (Radio ''10. Angina Akibat Olahraga?'' yes_no_options),
        St_widget (Selectbox ''11. Slope Peak ST Segment'' (dict_keys slope_map)),
        St_widget (Int_selectbox ''12. Jumlah Major Vessels (0-3)'' ca_options),
        St_widget (Selectbox ''13. Thal'' (dict_keys thal_map))]"

definition predict_button :: page where
  "predict_button = in_main [St_widget (Button ''PREDIKSI RISIKO PENYAKIT JANTUNG'' ''primary'')]"

definition page_after_load :: page where
  "page_after_load = intro @ sidebar @ in_main [St_header form_header] @ form @ predict_button"

definition static_page :: page where
  "static_page = set_page_config @ page_after_load"

section \<open>One run\<close>

definition body :: "artifact assets \<Rightarrow> ui_state \<Rightarrow> unit run" where
  "body assets ui =
     then_run (draw (intro @ sidebar @ in_main [St_header form_header] @ form @ predict_button)) (\<lambda>_.
     if button_w ui then on_predict assets (collect ui) else draw [])"

definition script ::
  "artifact files \<Rightarrow> artifact assets option \<Rightarrow> ui_state \<Rightarrow> artifact assets option \<times> unit run" where
  "script fs cache ui =
     (case load_assets_cached cache fs of
        (cache', loaded) \<Rightarrow>
          (cache', then_run (draw set_page_config) (\<lambda>_.
                   then_run loaded (\<lambda>assets. body assets ui))))"

section \<open>Files and assets used in the examples\<close>

definition demo_files :: "artifact files" where
  "demo_files =
     [''ensemble_model.pkl'' \<mapsto> Pickle (constant_classifier (3 / 4)),
      ''scaler.pkl'' \<mapsto> Pickle (standard_scaler_obj \<lparr>sc_mean = [54], sc_scale = [9]\<rparr>),
      ''model_columns.pkl'' \<mapsto> Pickle (Column_list [''age''])]"

definition demo_assets :: "artifact assets" where
  "demo_assets =
     (constant_classifier (3 / 4), standard_scaler_obj \<lparr>sc_mean = [54], sc_scale = [9]\<rparr>,
      Column_list [''age''])"

section \<open>The static part\<close>

lemma accuracy_products:
  "fmul AKURASI_ENSEMBLE 100 = 185 / 2"
  "fmul AKURASI_RF 100 = 88"
  "fmul AKURASI_LR 100 = 173 / 2"
  by code_simp+

lemmas format_eval =
  format_2f_def round_half_even_def tie_even_def hundredths_def str_nat.simps digit_char_def

lemma accuracy_percent:
  "percent AKURASI_ENSEMBLE = ''92.50%''"
  "percent AKURASI_RF = ''88.00%''"
  "percent AKURASI_LR = ''86.50%''"
  by (simp_all add: percent_def accuracy_products format_eval)

lemma sidebar_elements:
  "drawn_in Sidebar static_page =
     [St_header sidebar_header,
      St_markdown ''**Akurasi Ensemble (Kombinasi RF + LR):**'',
      St_metric ''Akurasi Super'' ''92.50%'' (Some ''Target >90%''),
      St_markdown ''---'',
      St_subheader ''Perbandingan Model Head-to-Head'',
      St_metric ''Akurasi Random Forest'' ''88.00%'' None,
      St_metric ''Akurasi Logistic Regression'' ''86.50%'' None,
      St_markdown ''---'',
      St_caption ''Catatan: Soft Voting sering meningkatkan akurasi model individu.'']"
  by (simp add: static_page_def page_after_load_def set_page_config_def intro_def sidebar_def
      form_def predict_button_def accuracy_percent)

lemma form_columns:
  "map (\<lambda>i. length (drawn_in (Column i) static_page)) [1, 2, 3] = [5, 3, 5]"
  by (simp add: static_page_def page_after_load_def set_page_config_def intro_def sidebar_def
      form_def predict_button_def in_main_def in_sidebar_def in_column_def)

section \<open>One run\<close>

lemma never_stops_present [simp]: "never_stops (present prediction r)"
  unfolding present_def by (intro never_stops_then_run never_stops_try_run never_stops_draw) simp_all

lemma never_stops_on_predict [simp]: "never_stops (on_predict assets c)"
  unfolding on_predict_def
  by (cases assets) (auto intro!: never_stops_then_run)

lemma body_eq:
  "body assets ui =
     (page_after_load @ (if button_w ui then fst (on_predict assets (collect ui)) else []),
      if button_w ui then snd (on_predict assets (collect ui)) else Continue ())"
  by (simp add: body_def draw_def page_after_load_def)

lemma body_not_Stop [simp]: "snd (body assets ui) \<noteq> Stop"
  using never_stops_on_predict [of assets "collect ui"] by (simp add: body_eq never_stops_def)

lemma sidebar_body:
  "drawn_in Sidebar (set_page_config @ fst (body assets ui)) = drawn_in Sidebar static_page"
  using never_stops_on_predict [of assets "collect ui"]
  by (simp add: body_eq never_stops_def static_page_def)

lemma script_hit:
  "script fs (Some a) ui =
     (Some a,
      static_page @ (if button_w ui then fst (on_predict a (collect ui)) else []),
      if button_w ui then snd (on_predict a (collect ui)) else Continue ())"
  by (simp add: script_def load_assets_cached_hit draw_def body_eq static_page_def)

lemma script_miss_ok:
  "first_bad fs = None \<Longrightarrow> script fs None ui = script fs (Some (assets_in fs)) ui"
  by (simp add: script_def load_assets_cached_miss load_assets_cached_hit)

lemma script_miss_bad:
  "first_bad fs = Some name \<Longrightarrow>
   script fs None ui = (None, set_page_config @ fst (load_assets fs), Stop)"
  using load_assets_bad_Stop [of fs name]
  by (cases "load_assets fs") (simp add: script_def load_assets_cached_miss draw_def)

lemma script_cases [case_names loaded stopped]:
  obtains a where "script fs c ui = script fs (Some a) ui" "c = Some a \<or> c = None \<and> a = assets_in fs"
  | name where "c = None" "first_bad fs = Some name"
      "script fs c ui = (None, set_page_config @ fst (load_assets fs), Stop)"
  by (cases c; cases "first_bad fs") (auto simp: script_miss_ok script_miss_bad)

lemma demo_files_ok: "first_bad demo_files = None" "assets_in demo_files = demo_assets"
  by (simp_all add: first_bad_def asset_files_def file_ok_def demo_files_def assets_in_def
      object_in_def demo_assets_def)

lemma script_no_click:
  "\<not> button_w ui \<Longrightarrow> script fs (Some a) ui = (Some a, static_page, Continue ())"
  by (simp add: script_hit)

lemma initial_no_click [simp]: "\<not> button_w initial_ui"
  by (simp add: initial_ui_def)

lemmas script_eval [py_eval] =
  set_page_config_def title_text_def intro_text_def intro_def sidebar_header_def sidebar_def
  form_header_def form_def predict_button_def page_after_load_def static_page_def body_def
  script_def

end
