(* ===== verification/Session.thy ===== *)
theory Session
  imports App_Script
begin

text \<open>
  The sessions Streamlit makes of the script: it runs \<^verbatim>\<open>src/main.py\<close> from the top
  after every interaction. The definitions of this theory describe Streamlit, not
  lines of the script; they say how the runs of \<open>script\<close> follow each other.

  \<^item> A \<open>session\<close> holds what survives a run: the resource cache of
    \<^verbatim>\<open>@st.cache_resource\<close> (line 15), the widget values, and the page and outcome
    of the last run. \<open>rerun fs ui s\<close> runs the script on the files \<open>fs\<close> and the
    widget values \<open>ui\<close>; a run the loader stopped drew no widget, so the widget
    values fall back to the defaults.
  \<^item> \<open>server_start\<close> is the server before the first visit: nothing is cached
    and no page is shown. Its outcome is written \<open>Stop\<close> because it offers what a
    stopped run offers, no widget and only the opening of the page.
  \<^item> An \<open>event\<close> is one interaction: \<open>Edit ui\<close> changes widget values (to any state
    the widgets allow, one widget or several), \<open>Click\<close> presses the button of line
    120, \<open>Reload\<close> opens the page again (the widgets return to their defaults,
    the cache stays). \<open>enabled\<close> says when the page offers the interaction:
    after a run the loader stopped there is no widget to touch. \<open>inputs_after\<close>
    gives the values the widget calls return in the run that follows;
    \<^verbatim>\<open>st.button\<close> returns \<^verbatim>\<open>True\<close> in the run a click starts and in no other.
  \<^item> \<open>transition s (fs, ev) s'\<close> is one interaction on the files \<open>fs\<close>, which may
    differ at every run; \<open>transitions\<close> is a sequence of them, and \<open>reachable\<close>
    what a server can come to from \<open>server_start\<close>.
  \<^item> \<open>session_ok\<close> is the invariant: the widget values are within the bounds and
    options of the form, and the cache is empty exactly when the loader stopped
    the last run.

  The lemmas show that a transition has one result, that \<open>session_ok\<close> holds of
  every reachable session (by induction on \<open>reachable\<close>), that loaded assets are
  never replaced, what one interaction with a loaded session shows, that a stopped
  session recovers on reload, and that the sidebar never changes.
\<close>

section \<open>Sessions and events\<close>

record session =
  cache :: "artifact assets option"
  widgets :: ui_state
  shown :: page
  ended :: "unit outcome"

definition rerun :: "artifact files \<Rightarrow> ui_state \<Rightarrow> session \<Rightarrow> session" where
  "rerun fs ui s =
     (case script fs (cache s) ui of
        (cache', (p, out)) \<Rightarrow>
          \<lparr>cache = cache', widgets = (if out = Stop then initial_ui else ui),
           shown = p, ended = out\<rparr>)"

definition server_start :: session where
  "server_start = \<lparr>cache = None, widgets = initial_ui, shown = [], ended = Stop\<rparr>"

datatype event = Edit ui_state | Click | Reload

fun enabled :: "session \<Rightarrow> event \<Rightarrow> bool" where
  "enabled s (Edit ui) \<longleftrightarrow> ended s \<noteq> Stop \<and> ui_ok ui \<and> \<not> button_w ui"
| "enabled s Click \<longleftrightarrow> ended s \<noteq> Stop"
| "enabled s Reload \<longleftrightarrow> True"

fun inputs_after :: "session \<Rightarrow> event \<Rightarrow> ui_state" where
  "inputs_after s (Edit ui) = ui"
| "inputs_after s Click = (widgets s)\<lparr>button_w := True\<rparr>"
| "inputs_after s Reload = initial_ui"

definition fire :: "artifact files \<Rightarrow> event \<Rightarrow> session \<Rightarrow> session" where
  "fire fs ev s = rerun fs (inputs_after s ev) s"

inductive transition :: "session \<Rightarrow> artifact files \<times> event \<Rightarrow> session \<Rightarrow> bool" where
  fire: "enabled s ev \<Longrightarrow> transition s (fs, ev) (fire fs ev s)"

inductive transitions :: "session \<Rightarrow> (artifact files \<times> event) list \<Rightarrow> session \<Rightarrow> bool" where
  nil: "transitions s [] s"
| cons: "transition s x s' \<Longrightarrow> transitions s' xs s'' \<Longrightarrow> transitions s (x # xs) s''"

inductive reachable :: "session \<Rightarrow> bool" where
  start: "reachable server_start"
| after: "reachable s \<Longrightarrow> transition s x s' \<Longrightarrow> reachable s'"

definition session_ok :: "session \<Rightarrow> bool" where
  "session_ok s \<longleftrightarrow> ui_ok (widgets s) \<and> (cache s = None \<longleftrightarrow> ended s = Stop)"

inductive_simps transition_iff: "transition s (fs, ev) s'"

inductive_simps transitions_Nil [simp]: "transitions s [] s'"

inductive_simps transitions_Cons: "transitions s (x # xs) s'"

inductive_cases transitionE [elim]: "transition s x s'"

section \<open>One run of a session\<close>

lemma rerun_loaded:
  assumes "script fs (cache s) ui = script fs (Some a) ui"
  shows "rerun fs ui s =
     \<lparr>cache = Some a, widgets = ui,
      shown = static_page @ (if button_w ui then fst (on_predict a (collect ui)) else []),
      ended = (if button_w ui then snd (on_predict a (collect ui)) else Continue ())\<rparr>"
  using never_stops_on_predict [of a "collect ui"]
  by (simp add: rerun_def assms script_hit never_stops_def)

lemma rerun_stopped:
  assumes "cache s = None" and "first_bad fs = Some name"
  shows "rerun fs ui s =
     \<lparr>cache = None, widgets = initial_ui, shown = set_page_config @ fst (load_assets fs),
      ended = Stop\<rparr>"
  using assms by (simp add: rerun_def script_miss_bad)

lemma rerun_recovers:
  assumes "cache s = None" and "first_bad fs = None"
  shows "rerun fs ui s =
     \<lparr>cache = Some (assets_in fs), widgets = ui,
      shown = static_page @ (if button_w ui then fst (on_predict (assets_in fs) (collect ui)) else []),
      ended = (if button_w ui then snd (on_predict (assets_in fs) (collect ui)) else Continue ())\<rparr>"
  using assms by (simp add: rerun_loaded script_miss_ok)

lemma ui_ok_button [simp]: "ui_ok (ui\<lparr>button_w := b\<rparr>) = ui_ok ui"
  by (simp add: ui_ok_def)

lemma collect_button [simp]: "collect (ui\<lparr>button_w := b\<rparr>) = collect ui"
  by (simp add: collect_def)

lemma session_ok_rerun:
  assumes "ui_ok ui"
  shows "session_ok (rerun fs ui s)"
proof (cases rule: script_cases [of fs "cache s" ui])
  case (loaded a)
  with assms never_stops_on_predict [of a "collect ui"] show ?thesis
    by (simp add: session_ok_def rerun_loaded never_stops_def)
next
  case (stopped name)
  then show ?thesis
    by (simp add: session_ok_def rerun_stopped)
qed

lemma rerun_sidebar:
  assumes "ended (rerun fs ui s) \<noteq> Stop"
  shows "drawn_in Sidebar (shown (rerun fs ui s)) = drawn_in Sidebar static_page"
proof (cases rule: script_cases [of fs "cache s" ui])
  case (loaded a)
  with never_stops_on_predict [of a "collect ui"] show ?thesis
    by (simp add: rerun_loaded never_stops_def)
next
  case (stopped name)
  with assms show ?thesis
    by (simp add: rerun_stopped)
qed

section \<open>Transitions\<close>

lemma ui_ok_inputs_after: "enabled s ev \<Longrightarrow> ui_ok (widgets s) \<Longrightarrow> ui_ok (inputs_after s ev)"
  by (cases ev) simp_all

lemma session_ok_fire:
  assumes "enabled s ev" and "session_ok s"
  shows "session_ok (fire fs ev s)"
proof -
  from assms have "ui_ok (inputs_after s ev)"
    by (simp add: ui_ok_inputs_after session_ok_def)
  then show ?thesis
    unfolding fire_def by (rule session_ok_rerun)
qed

lemma transition_uniq: "transition s x s' \<Longrightarrow> transition s x s'' \<Longrightarrow> s'' = s'"
  by (cases x) (simp add: transition_iff)

lemma transitions_invariant:
  assumes "transitions s xs s'" and "Q s"
    and "\<And>r x r'. transition r x r' \<Longrightarrow> Q r \<Longrightarrow> Q r'"
  shows "Q s'"
  using assms(1,2) by (induction rule: transitions.induct) (auto intro: assms(3))

lemma reachable_transitions: "reachable s \<Longrightarrow> transitions s xs s' \<Longrightarrow> reachable s'"
  by (rotate_tac, induction rule: transitions.induct) (auto intro: reachable.after)

lemmas session_eval [py_eval] =
  rerun_def server_start_def fire_def session_ok_def

lemma fire_loaded:
  assumes "cache s = Some a"
  shows "cache (fire fs ev s) = Some a" and "ended (fire fs ev s) \<noteq> Stop"
  using assms never_stops_on_predict [of a "collect (inputs_after s ev)"]
  by (simp_all add: fire_def rerun_loaded never_stops_def)

lemma button_after: "enabled s ev \<Longrightarrow> button_w (inputs_after s ev) \<longleftrightarrow> ev = Click"
  by (cases ev) simp_all

lemma reachable_demo: "reachable (fire demo_files Reload server_start)"
  by (rule reachable.after [OF reachable.start, of "(demo_files, Reload)"]) (simp add: transition_iff)

lemma fire_demo:
  "fire demo_files Reload server_start =
     \<lparr>cache = Some demo_assets, widgets = initial_ui, shown = static_page, ended = Continue ()\<rparr>"
  by (simp add: fire_def rerun_recovers server_start_def demo_files_ok)

section \<open>Properties of sessions\<close>

text \<open>
  C27. In every reachable session the widget values are within the bounds and
  options the form offers, and the resource cache is empty exactly when the
  loader stopped the last run: a page with the form on it always has its three
  artifacts behind it.
\<close>
theorem reachable_session_ok:
  assumes "reachable s"
  shows "session_ok s"
  using assms
proof (induction rule: reachable.induct)
  case start
  show ?case
    by (simp add: session_ok_def server_start_def)
next
  case (after s x s')
  from after.hyps(2) after.IH show ?case
    by (auto intro: session_ok_fire)
qed

theorem reachable_session_ok_witness:
  "session_ok \<lparr>cache = Some demo_assets, widgets = initial_ui, shown = static_page,
               ended = Continue ()\<rparr>"
  using reachable_session_ok [OF reachable_demo] by (simp only: fire_demo)

text \<open>
  C28. Assets are loaded once. After a run has loaded them, no sequence of
  interactions replaces them, whatever the files hold at the later runs: the
  cache of every later session is the same triple.
\<close>
theorem assets_loaded_once:
  assumes "transitions s xs s'" and "cache s = Some a"
  shows "cache s' = Some a"
  using assms
  by (induction rule: transitions.induct) (auto simp: fire_loaded)

theorem assets_loaded_once_witness:
  "cache (fire Map.empty Click (fire Map.empty Reload (fire demo_files Reload server_start))) =
     Some demo_assets"
proof -
  let ?s = "fire demo_files Reload server_start"
  have "transitions ?s [(Map.empty, Reload), (Map.empty, Click)]
      (fire Map.empty Click (fire Map.empty Reload ?s))"
    by (simp add: transitions_Cons transition_iff fire_loaded [where a = demo_assets] fire_demo)
  from assets_loaded_once [OF this, of demo_assets] show ?thesis
    by (simp add: fire_demo)
qed

text \<open>
  C29. One interaction with a loaded session, in closed form. The page offers
  the interaction, the files are not read again, the widgets take the values
  the interaction gives them, and the page is the static page, followed by the
  output of the handler exactly when the interaction is a click. The handler
  reads the values the widgets had before the click; any other interaction
  removes the verdict from the page.
\<close>
theorem loaded_session_step:
  assumes "cache s = Some a"
  shows "transition s (fs, ev) s' \<longleftrightarrow>
     enabled s ev \<and>
     s' = \<lparr>cache = Some a, widgets = inputs_after s ev,
           shown = static_page @ (if ev = Click then fst (on_predict a (collect (widgets s))) else []),
           ended = (if ev = Click then snd (on_predict a (collect (widgets s))) else Continue ())\<rparr>"
proof (cases "enabled s ev")
  case True
  have "script fs (cache s) (inputs_after s ev) = script fs (Some a) (inputs_after s ev)"
    by (simp add: assms)
  from rerun_loaded [OF this] button_after [OF True]
  have "fire fs ev s =
      \<lparr>cache = Some a, widgets = inputs_after s ev,
       shown = static_page @ (if ev = Click then fst (on_predict a (collect (widgets s))) else []),
       ended = (if ev = Click then snd (on_predict a (collect (widgets s))) else Continue ())\<rparr>"
    by (cases ev) (simp_all add: fire_def)
  with True show ?thesis
    by (auto simp: transition_iff)
next
  case False
  then show ?thesis
    by (simp add: transition_iff)
qed

theorem loaded_session_step_witness:
  "transition (fire demo_files Reload server_start) (Map.empty, Click)
     \<lparr>cache = Some demo_assets, widgets = initial_ui\<lparr>button_w := True\<rparr>,
      shown = static_page @ fst (on_predict demo_assets (collect initial_ui)),
      ended = snd (on_predict demo_assets (collect initial_ui))\<rparr>"
  using loaded_session_step [of "fire demo_files Reload server_start" demo_assets Map.empty Click]
  by (simp add: fire_demo)

text \<open>
  C30. A failed load does not end the application. In a session whose last
  run the loader stopped, opening the page again is always possible, and once
  the three files are in place it loads them and shows the form: the run is
  not stopped and the page is the static page.
\<close>
theorem stopped_session_recovers:
  assumes "cache s = None" and "first_bad fs = None"
  shows "transition s (fs, Reload)
           \<lparr>cache = Some (assets_in fs), widgets = initial_ui, shown = static_page,
            ended = Continue ()\<rparr>"
proof -
  from assms have "fire fs Reload s =
      \<lparr>cache = Some (assets_in fs), widgets = initial_ui, shown = static_page, ended = Continue ()\<rparr>"
    by (simp add: fire_def rerun_recovers)
  then show ?thesis
    by (simp add: transition_iff)
qed

theorem stopped_session_recovers_witness:
  "transition server_start (demo_files, Reload)
     \<lparr>cache = Some demo_assets, widgets = initial_ui, shown = static_page, ended = Continue ()\<rparr>"
  using stopped_session_recovers [of server_start demo_files]
  by (simp add: demo_files_ok server_start_def)

text \<open>
  C31. Every reachable session whose last run passed the loader shows the same
  sidebar, whatever the inputs and the prediction: the three accuracies of
  lines 46-48, printed as \<^verbatim>\<open>92.50%\<close>, \<^verbatim>\<open>88.00%\<close> and \<^verbatim>\<open>86.50%\<close>. They are constants
  of the script, not measurements of the loaded model.
\<close>
theorem sidebar_is_constant:
  assumes "reachable s" and "ended s \<noteq> Stop"
  shows "drawn_in Sidebar (shown s) =
     [St_header sidebar_header,
      St_markdown ''**Akurasi Ensemble (Kombinasi RF + LR):**'',
      St_metric ''Akurasi Super'' ''92.50%'' (Some ''Target >90%''),
      St_markdown ''---'',
      St_subheader ''Perbandingan Model Head-to-Head'',
      St_metric ''Akurasi Random Forest'' ''88.00%'' None,
      St_metric ''Akurasi Logistic Regression'' ''86.50%'' None,
      St_markdown ''---'',
      St_caption ''Catatan: Soft Voting sering meningkatkan akurasi model individu.'']"
  using assms
proof (cases rule: reachable.cases)
  case start
  with assms(2) show ?thesis
    by (simp add: server_start_def)
next
  case (after s0 x)
  with assms(2) have "drawn_in Sidebar (shown s) = drawn_in Sidebar static_page"
    by (auto simp: fire_def rerun_sidebar)
  then show ?thesis
    by (simp only: sidebar_elements)
qed

theorem sidebar_is_constant_witness:
  "drawn_in Sidebar (shown (fire demo_files Reload server_start)) =
     [St_header sidebar_header,
      St_markdown ''**Akurasi Ensemble (Kombinasi RF + LR):**'',
      St_metric ''Akurasi Super'' ''92.50%'' (Some ''Target >90%''),
      St_markdown ''---'',
      St_subheader ''Perbandingan Model Head-to-Head'',
      St_metric ''Akurasi Random Forest'' ''88.00%'' None,
      St_metric ''Akurasi Logistic Regression'' ''86.50%'' None,
      St_markdown ''---'',
      St_caption ''Catatan: Soft Voting sering meningkatkan akurasi model individu.'']"
proof -
  have "ended (fire demo_files Reload server_start) \<noteq> Stop"
    by (simp add: fire_demo)
  from sidebar_is_constant [OF reachable_demo this] show ?thesis .
qed

end
