(* ===== verification/Spec2Isabelle.thy ===== *)
theory Spec2Isabelle
  imports Align_Spec Session
begin

text \<open>
  \<^bold>\<open>A verification development for the heart-disease prediction form\<close>
  (\<^verbatim>\<open>src/main.py\<close>, a Streamlit script of 166 lines).

  \<^bold>\<open>The program.\<close> The script sets the page up, loads three pickled artifacts (a
  classifier, a scaler and the list \<^verbatim>\<open>model_columns\<close> of the columns the classifier
  was trained on), draws a form of thirteen widgets in three columns, and, when the
  button is pressed, turns the form into a one-row data frame over \<^verbatim>\<open>model_columns\<close>,
  scales it, asks the classifier for a label and a probability, and prints a
  verdict. Streamlit reruns the whole script on every interaction, so one run is a
  function of the artifacts and of the state of the widgets.

  \<^bold>\<open>The theories\<close>, in import order.
  \<^item> \<open>Py_Prelude\<close>: exceptions as values (\<open>py_error\<close>, \<open>'a result\<close>, \<open>and_then\<close>),
    scalars (\<open>cell\<close>, a linear order), Python's \<^verbatim>\<open>str\<close> on scalars, insertion-ordered
    dictionaries (\<open>dict_set\<close>, \<open>dict_get\<close>, \<open>dict_keys\<close>), and the shared lemmas,
    among them that printed integers are read back (\<open>str_int\<close> is injective).
  \<^item> \<open>Py_Float\<close>: binary64 arithmetic on exact rationals (\<open>fl64\<close>, \<open>fmul\<close>) and the
    format \<^verbatim>\<open>.2f\<close> (\<open>format_2f\<close>, \<open>percent\<close>): lines 46 to 48, 68 to 73, 153, 161, 165.
  \<^item> \<open>Input_Collector\<close>: lines 85 to 116. The widget calls as data (\<open>widget\<close>) and
    as readers of a \<open>ui_state\<close>; \<open>collect\<close> builds \<^verbatim>\<open>input_data\<close> and the four selected
    labels; \<open>ui_ok\<close> is what the browser guarantees about the state.
  \<^item> \<open>St_Page\<close>: the page as a list of \<open>element\<close>s per \<open>container\<close> (main area,
    sidebar, the three columns, the page settings), and a part of the script as an
    \<open>'a run\<close>: what it drew and whether it continues, stopped (\<^verbatim>\<open>st.stop\<close>) or let an
    exception out; \<open>then_run\<close> sequences two parts.
  \<^item> \<open>Artifact_Loader\<close>: lines 15 to 40. Files as a map to \<open>blob\<close>s, \<open>load_assets_try\<close>
    and \<open>load_assets_except\<close> for the \<^verbatim>\<open>try\<close> and its two handlers, \<open>load_assets\<close>, and
    \<open>load_assets_cached\<close> for \<^verbatim>\<open>@st.cache_resource\<close>.
  \<^item> \<open>Data_Frame\<close>: the pandas calls of the script on an explicit \<open>frame\<close> record:
    \<open>DataFrame_row\<close>, \<open>DataFrame_fill\<close>, \<open>has_column\<close>, \<open>getitem\<close>, \<open>iloc\<close>,
    \<open>setitem\<close>, \<open>to_numpy\<close> and \<open>get_dummies\<close>. What pandas does inside
    \<open>get_dummies\<close> (\<open>getitems\<close>, \<open>drop_columns\<close>, \<open>levels\<close>, \<open>dummy_column\<close>,
    \<open>get_dummies_1d\<close>) is modelled from its documented behaviour, for frames of any
    number of rows, with the invariant \<open>frame_ok\<close>.
  \<^item> \<open>Feature_Aligner\<close>: lines 120 to 143. \<open>convert_selections\<close>, \<open>encode_input\<close>,
    the loop \<open>fill_final_input\<close>, their composition \<open>build_final_input\<close> and
    \<open>prepare_features\<close>; the reference \<open>reindex_row\<close>.
  \<^item> \<open>Align_Spec\<close>: the aligner the specification describes (\<open>expand\<close>,
    \<open>align_spec\<close>, over the \<open>domains\<close> of the categorical fields), the records of the
    specification (\<open>in_domain\<close>) with the indicators they set (\<open>chosen_indicators\<close>),
    and the refinement between the specification and the handler.
  \<^item> \<open>Predictor\<close>: lines 147 to 166. The artifacts as objects known by their
    methods (\<open>artifact\<close>, \<open>estimator\<close>), the calls \<open>transform\<close>, \<open>predict\<close>,
    \<open>predict_proba\<close>, \<open>risk_level_of\<close>, the presenter \<open>present\<close> and the whole handler
    \<open>on_predict\<close>; the standard scaler of the specification.
  \<^item> \<open>App_Script\<close>: what every run draws (\<open>set_page_config\<close> of lines 8 to 12,
    \<open>intro\<close>, \<open>sidebar\<close>, \<open>form\<close> with the widgets in their columns,
    \<open>predict_button\<close>: lines 46 to 120) and one run of the script from the top,
    \<open>script\<close>.
  \<^item> \<open>Session\<close>: what survives a run (\<open>session\<close>), the interactions (\<open>event\<close>), the
    relation \<open>transition\<close>, sequences of interactions, and the sessions \<open>reachable\<close>
    from the start of the server.
  \<^item> this theory: the guarded handler \<open>predict_features\<close>, the contract of the loader
    (\<open>spec_load\<close>), and the properties that span the form, the handler, the page and
    the specification.

  \<^bold>\<open>What is shown.\<close>
  \<^item> The handler never fails on a state the browser can produce, and its result is
    known in closed form (\<open>prepare_features_numeric_only\<close>): the frame over
    \<^verbatim>\<open>model_columns\<close> holding the five numeric inputs under their names and zero
    everywhere else. On arbitrary records the alignment is characterised on every
    branch, \<open>KeyError\<close> included (\<open>build_final_input_cases\<close>,
    \<open>convert_selections_KeyError\<close>).
  \<^item> The shape contract of the specification holds: the result always has exactly the
    model's columns in the model's order (\<open>final_input_shape\<close>), numeric fields round
    trip (\<open>final_input_roundtrip\<close>), absent names are zero (\<open>final_input_zero_fill\<close>).
  \<^item> The categorical inputs are lost. \<^verbatim>\<open>pd.get_dummies(..., drop_first=True)\<close> is
    applied to a frame of one row; each encoded column then has one level, the one
    that is dropped (\<open>get_dummies_one_row_drops\<close>; \<open>get_dummies_1d_indicator\<close> says
    what the encoding holds in general). So the frame given to the scaler is the
    same for every choice of sex, chest pain, and so on
    (\<open>final_input_ignores_categoricals\<close>), and the handler implements the
    specification's aligner for the record with every categorical field reset to its
    reference value (\<open>build_final_input_refines\<close>). It computes the specified vector
    of the record itself exactly when the model has no column for a non-reference
    category of the patient (\<open>handler_meets_spec_iff\<close>, and for every state of the
    form \<open>form_meets_spec_iff\<close>); \<open>default_form_diverges\<close> exhibits the difference on
    the untouched form. On the page this means that two forms with the same numeric
    inputs give the same run (\<open>prediction_ignores_categoricals\<close>).
  \<^item> The specification's \<open>UnknownCategoryCode\<close> cannot arise from the form
    (\<open>collected_record_in_spec_domain\<close>) and is not checked by the handler
    (\<open>out_of_domain_code_accepted\<close>).
  \<^item> The loader returns exactly when the three files unpickle
    (\<open>load_assets_returns_iff\<close>), reports the first bad file otherwise
    (\<open>load_assets_reports_first_bad\<close>), and agrees with its contract except when a
    garbage file comes before a missing one (\<open>loader_refines_contract\<close>). It does not
    look at what it loads (\<open>swapped_artifact_fails_on_click\<close>).
  \<^item> Floating point: \<open>fl64\<close> returns a binary64 number and none is nearer
    (\<open>fl64_nearest_double\<close>), with relative error \<open>2^(-53)\<close> (\<open>fl64_relative_error\<close>); a
    probability times 100 stays in \<open>[0, 100]\<close> (\<open>percentage_in_range\<close>); the printed
    text, read as a decimal numeral, is the value rounded to hundredths
    (\<open>format_2f_decimal\<close>).
  \<^item> The handler draws exactly one verdict or ends with one exception box
    (\<open>present_one_template\<close>, \<open>on_predict_outcomes\<close>, \<open>click_shows_one_verdict\<close>), a
    scaler of the wrong width ends the run with an uncaught \<open>ValueError\<close>
    (\<open>dimension_mismatch_on_click\<close>), and verdict and percentage agree for a
    classifier that votes softly (\<open>verdict_agrees_with_percentage\<close>).
  \<^item> Sessions: \<open>session_ok\<close> is an invariant (\<open>reachable_session_ok\<close>), assets are
    loaded once (\<open>assets_loaded_once\<close>), one interaction with a loaded session shows
    the static page and, after a click only, the handler's output
    (\<open>loaded_session_step\<close>), a stopped session recovers on reload
    (\<open>stopped_session_recovers\<close>), and the sidebar is a constant
    (\<open>sidebar_is_constant\<close>).

  \<^bold>\<open>Modelling decisions.\<close> Python integers are \<open>int\<close>; no arithmetic is done on them.
  A float is the exact rational value of a binary64 number; a literal and the
  result of an operation are rounded by \<open>fl64\<close>, whose exponent is not bounded above:
  infinities and NaN are not values of the model, and \<open>fl64\<close> is binary64 rounding on
  the finite range, which the probabilities and percentages of the script never
  leave. A float in a widget or a frame, \<open>FloatC q\<close>, is named by its decimal.
  Exceptions are values of \<open>py_error\<close>, and a step after a raising step is not run
  (\<open>and_then\<close>); an exception that leaves the script ends the run (\<open>Uncaught\<close>). A
  file is absent, holds a pickle, or holds bytes that do not unpickle; every
  failure of \<^verbatim>\<open>open\<close> or \<^verbatim>\<open>pickle.load\<close> other than a missing file is one exception,
  \<open>OtherException\<close>, because the script treats them alike (line 36). The widgets
  return the value the browser holds; that it respects the bounds and options is
  the assumption \<open>ui_ok\<close>, which every reachable session satisfies. No definition
  uses fuel: the loops are over lists and structurally recursive, and the one
  recursion that is not, the exponent search \<open>log2_up\<close>, has a termination proof by
  a measure. Indicator cells are bools (pandas 2); nothing proved of the handler
  depends on it, since no indicator is ever produced by the handler. Texts are the
  UTF-8 bytes of the source's literals. A widget on the page is the widget as the
  script declares it; the value it shows belongs to the browser. The files may
  change between two runs; an \<open>Edit\<close> may change several widgets at once, which
  includes every single change. The priority of \<open>ArtifactMissing\<close> over
  \<open>ArtifactCorrupt\<close> in \<open>spec_load\<close> and the ascending order of the \<open>domains\<close> are
  readings of the specification, which states neither.

  \<^bold>\<open>Not modelled.\<close> What the scaler and the classifier compute: they are objects of
  scikit-learn loaded from files, and enter as parameters (\<open>estimator\<close>); only the
  standard scaler of the specification is given a definition. How the browser
  renders the elements: the width of the columns, the look of a widget, the
  \<^verbatim>\<open>textwrap\<close> cleaning of markdown by Streamlit, the rendering of the exception
  box. Overflow of floats. The unused imports of lines 3 and 5.
\<close>

section \<open>The handler behind the button\<close>

definition predict_features :: "string list \<Rightarrow> ui_state \<Rightarrow> frame result option" where
  "predict_features model_columns ui =
     (if button_w ui then Some (prepare_features (collect ui) model_columns) else None)"

definition numeric_inputs :: "ui_state \<Rightarrow> (string, cell) dict" where
  "numeric_inputs ui =
     [(''age'', IntC (slider age_bounds (age_w ui))),
      (''trestbps'', IntC (number_input trestbps_bounds (trestbps_w ui))),
      (''chol'', IntC (number_input chol_bounds (chol_w ui))),
      (''thalach'', IntC (number_input thalach_bounds (thalach_w ui))),
      (''oldpeak'', FloatC (slider oldpeak_bounds (oldpeak_w ui)))]"

section \<open>The loader's contract\<close>

definition spec_load :: "'o files \<Rightarrow> spec_error + 'o assets" where
  "spec_load fs =
     (if list_ex (\<lambda>name. fs name = None) asset_files then Inl ArtifactMissing
      else if list_ex (\<lambda>name. fs name = Some Garbage) asset_files then Inl ArtifactCorrupt
      else Inr (assets_in fs))"

fun reported :: "'a result \<Rightarrow> spec_error + 'a" where
  "reported (Inr x) = Inr x"
| "reported (Inl (FileNotFoundError name)) = Inl ArtifactMissing"
| "reported (Inl e) = Inl ArtifactCorrupt"

definition shadowed :: "'o files \<Rightarrow> bool" where
  "shadowed fs \<longleftrightarrow>
     (case first_bad fs of
        None \<Rightarrow> False
      | Some name \<Rightarrow> fs name = Some Garbage \<and> list_ex (\<lambda>n. fs n = None) asset_files)"

section \<open>Scenario A on the form\<close>

definition scenario_A_ui :: ui_state where
  "scenario_A_ui =
     initial_ui\<lparr>sex_w := Some (''Pria'', 1), fbs_w := Some (''Tidak'', 0),
                exang_w := Some (''Tidak'', 0), button_w := True\<rparr>"

section \<open>From the form to the record\<close>

lemma label_codes:
  "map_of cp_map l = Some c \<Longrightarrow> c \<in> {0, 1, 2, 3}"
  "map_of restecg_map l = Some c \<Longrightarrow> c \<in> {0, 1, 2}"
  "map_of slope_map l = Some c \<Longrightarrow> c \<in> {0, 1, 2}"
  "map_of thal_map l = Some c \<Longrightarrow> c \<in> {3, 6, 7}"
  by (auto simp: cp_map_def restecg_map_def slope_map_def thal_map_def split: if_splits)

lemma radio_codes:
  assumes "ui_ok ui"
  shows "snd (radio sex_options (sex_w ui)) \<in> {0, 1}"
    and "snd (radio yes_no_options (fbs_w ui)) \<in> {0, 1}"
    and "snd (radio yes_no_options (exang_w ui)) \<in> {0, 1}"
    and "selectbox ca_options (ca_w ui) \<in> {0, 1, 2, 3}"
  using assms
  by (auto simp: ui_ok_def offered_def radio_def selectbox_def sex_options_def
      yes_no_options_def ca_options_def split: option.splits)

lemma converted_record:
  assumes "ui_ok ui"
  obtains cp restecg slope thal where
    "cp \<in> {0, 1, 2, 3}" and "restecg \<in> {0, 1, 2}" and "slope \<in> {0, 1, 2}" and "thal \<in> {3, 6, 7}"
    and "convert_selections (collect ui) =
      Return (input_data (collect ui) @
        [(''cp'', IntC cp), (''restecg'', IntC restecg), (''slope'', IntC slope),
         (''thal'', IntC thal)])"
proof -
  from selections_offered [OF assms] obtain cp restecg slope thal
    where m: "map_of cp_map (cp_selection (collect ui)) = Some cp"
      "map_of restecg_map (restecg_selection (collect ui)) = Some restecg"
      "map_of slope_map (slope_selection (collect ui)) = Some slope"
      "map_of thal_map (thal_selection (collect ui)) = Some thal"
    by (meson map_of_present)
  have "convert_selections (collect ui) =
      Return (input_data (collect ui) @
        [(''cp'', IntC cp), (''restecg'', IntC restecg), (''slope'', IntC slope),
         (''thal'', IntC thal)])"
    unfolding convert_selections_Return [OF m]
    by (simp add: input_data_collect dict_set_def)
  moreover have "cp \<in> {0, 1, 2, 3}" "restecg \<in> {0, 1, 2}" "slope \<in> {0, 1, 2}" "thal \<in> {3, 6, 7}"
    using m label_codes by blast+
  ultimately show ?thesis
    using that by blast
qed

lemma numeric_part_converted:
  "numeric_part (input_data (collect ui) @
      [(''cp'', cp), (''restecg'', restecg), (''slope'', slope), (''thal'', thal)]) =
    numeric_inputs ui"
  by (simp add: numeric_part_def cols_to_ohe_def input_data_collect numeric_inputs_def)

lemma keys_converted:
  "dict_keys (input_data (collect ui) @
      [(''cp'', cp), (''restecg'', restecg), (''slope'', slope), (''thal'', thal)]) =
    [''age'', ''trestbps'', ''chol'', ''thalach'', ''oldpeak'', ''sex'', ''fbs'', ''exang'', ''ca'',
     ''cp'', ''restecg'', ''slope'', ''thal'']"
  by (simp add: dict_keys_def input_data_collect)

lemma converted_for_encoding:
  assumes "ui_ok ui"
  obtains d where "convert_selections (collect ui) = Return d"
    and "set cols_to_ohe \<subseteq> set (dict_keys d)" and "numeric_part d = numeric_inputs ui"
proof -
  from assms obtain cp restecg slope thal where
    "convert_selections (collect ui) =
      Return (input_data (collect ui) @
        [(''cp'', IntC cp), (''restecg'', IntC restecg), (''slope'', IntC slope),
         (''thal'', IntC thal)])"
    by (rule converted_record)
  then show ?thesis
    by (rule that) (simp_all add: keys_converted cols_to_ohe_def numeric_part_converted)
qed

lemma converted_in_domain:
  assumes "ui_ok ui"
  obtains d where "convert_selections (collect ui) = Return d"
    and "dict_ok d" and "list_all (in_domain d) domains"
    and "numeric_part d = numeric_inputs ui"
proof -
  from assms obtain cp restecg slope thal where
    codes: "cp \<in> {0, 1, 2, 3}" "restecg \<in> {0, 1, 2}" "slope \<in> {0, 1, 2}" "thal \<in> {3, 6, 7}"
    and c: "convert_selections (collect ui) =
      Return (input_data (collect ui) @
        [(''cp'', IntC cp), (''restecg'', IntC restecg), (''slope'', IntC slope),
         (''thal'', IntC thal)])" (is "_ = Return ?d")
    by (rule converted_record)
  have dom: "list_all (in_domain ?d) domains"
    using codes radio_codes [OF assms]
    by (simp add: in_domain_def domains_def input_data_collect)
  have ok: "dict_ok ?d"
    by (simp add: keys_converted dict_ok_def)
  show ?thesis
    by (rule that [OF c ok dom numeric_part_converted])
qed

lemma numeric_inputs_not_indicators:
  "set (dict_keys (numeric_inputs ui)) \<inter> set indicator_names = {}"
  by (simp add: numeric_inputs_def indicator_names_eq)

lemma final_input_for_ui:
  assumes "ui_ok ui"
  shows "final_input_for (collect ui) cols =
     (case cols of
        Column_list model_columns \<Rightarrow> Return (reindex_row (numeric_inputs ui) model_columns)
      | Estimator e \<Rightarrow> Raise TypeError)"
proof -
  from assms obtain d where d: "convert_selections (collect ui) = Return d"
    "set cols_to_ohe \<subseteq> set (dict_keys d)" "numeric_part d = numeric_inputs ui"
    by (rule converted_for_encoding)
  from build_final_input_eq [OF d(2), of "[]"] have "returns (encode_input d)"
    by (auto simp: build_final_input_def and_then_Return_iff returns_def)
  then obtain ohe where "encode_input d = Return ohe"
    by (cases "encode_input d") (simp_all add: returns_def)
  with d build_final_input_eq [OF d(2)] show ?thesis
    by (cases cols)
      (simp_all add: final_input_for_def prepare_features_def build_final_input_def)
qed

lemma on_predict_cong:
  "final_input_for c cols = final_input_for c' cols \<Longrightarrow>
   on_predict (model, scaler, cols) c = on_predict (model, scaler, cols) c'"
  by (simp add: on_predict_def)

lemma spec_load_ok: "first_bad fs = None \<Longrightarrow> spec_load fs = Inr (assets_in fs)"
  by (auto simp: spec_load_def first_bad_None_iff list_ex_iff file_ok_def
      split: option.splits blob.splits)

lemma spec_load_bad:
  assumes "first_bad fs = Some name"
  shows "spec_load fs =
     Inl (if list_ex (\<lambda>n. fs n = None) asset_files then ArtifactMissing else ArtifactCorrupt)"
proof -
  from first_bad_in_files [OF assms] have "name \<in> set asset_files" and "\<not> file_ok fs name"
    by simp_all
  then have "fs name = None \<or> fs name = Some Garbage"
    by (auto simp: file_ok_def split: option.splits blob.splits)
  with \<open>name \<in> set asset_files\<close> show ?thesis
    by (auto simp: spec_load_def list_ex_iff)
qed

lemma scenario_A_ui_ok [simp]: "ui_ok scenario_A_ui"
  by (simp add: scenario_A_ui_def ui_ok_def initial_ui_def bounded_def offered_def
      sex_options_def yes_no_options_def)

lemma scenario_A_clicked [simp]: "button_w scenario_A_ui"
  by (simp add: scenario_A_ui_def)

lemma numeric_inputs_scenario_A:
  "numeric_inputs scenario_A_ui =
     [(''age'', IntC 50), (''trestbps'', IntC 120), (''chol'', IntC 240), (''thalach'', IntC 150),
      (''oldpeak'', FloatC 1)]"
  by (simp add: numeric_inputs_def scenario_A_ui_def py_eval)

lemmas root_eval [py_eval] =
  predict_features_def numeric_inputs_def spec_load_def shadowed_def
  scenario_A_ui_def

section \<open>Properties that span the components\<close>


text \<open>
  C10. End to end, for every state of the form that the browser can produce: the
  handler returns, and the frame it gives to the scaler is the model's columns filled
  from the five numeric widgets alone, zero elsewhere. None of the eight categorical
  widgets has any influence on it.
\<close>

theorem prepare_features_numeric_only:
  assumes "ui_ok ui"
  shows "prepare_features (collect ui) model_columns =
     Return (reindex_row (numeric_inputs ui) model_columns)"
proof -
  from assms obtain d where "convert_selections (collect ui) = Return d"
    and "set cols_to_ohe \<subseteq> set (dict_keys d)" and "numeric_part d = numeric_inputs ui"
    by (rule converted_for_encoding)
  then show ?thesis
    by (simp add: prepare_features_def build_final_input_eq)
qed

theorem prepare_features_numeric_only_witness:
  "prepare_features (collect initial_ui) [''age'', ''cp_2'', ''oldpeak''] =
     Return \<lparr>index = [0],
       series = [(''age'', [IntC 50]), (''cp_2'', [IntC 0]), (''oldpeak'', [FloatC 1])]\<rparr>"
  using prepare_features_numeric_only [of initial_ui "[''age'', ''cp_2'', ''oldpeak'']"]
  by (simp add: reindex_row_def py_eval)

text \<open>
  C11. Every record the form can produce lies in the domains of the specification:
  the handler's conversion returns a record on which the specification's aligner is
  defined (it does not fail with \<open>UnknownCategoryCode\<close>) and yields a vector as long
  as the model's column list.
\<close>

theorem collected_record_in_spec_domain:
  assumes "ui_ok ui"
  shows "\<exists>d v. convert_selections (collect ui) = Return d \<and> list_all (in_domain d) domains \<and>
     align_spec d model_columns = Inr v \<and> length v = length model_columns"
proof -
  from assms obtain cp restecg slope thal where
    codes: "cp \<in> {0, 1, 2, 3}" "restecg \<in> {0, 1, 2}" "slope \<in> {0, 1, 2}" "thal \<in> {3, 6, 7}"
    and c: "convert_selections (collect ui) =
      Return (input_data (collect ui) @
        [(''cp'', IntC cp), (''restecg'', IntC restecg), (''slope'', IntC slope),
         (''thal'', IntC thal)])" (is "_ = Return ?d")
    by (rule converted_record)
  have dom: "list_all (in_domain ?d) domains"
    using codes radio_codes [OF assms]
    by (simp add: in_domain_def domains_def input_data_collect)
  have "list_all (\<lambda>(k, v). case map_of domains k of None \<Rightarrow> True
      | Some codes \<Rightarrow> (\<exists>code \<in> set codes. v = IntC code)) ?d"
    using codes radio_codes [OF assms]
    by (simp add: domains_def input_data_collect)
  then obtain ex where "expand domains ?d = Inr ex"
    using expand_returns by blast
  with c dom show ?thesis
    by (simp add: align_spec_def)
qed

theorem collected_record_in_spec_domain_witness:
  "\<exists>d v. convert_selections (collect initial_ui) = Return d \<and> list_all (in_domain d) domains \<and>
     align_spec d [''age'', ''sex_1''] = Inr v \<and> length v = length [''age'', ''sex_1'']"
  by (rule collected_record_in_spec_domain) simp

text \<open>
  C14. The record invariant of the specification: after the conversion of the
  labels the record has the thirteen fields, each exactly once, in the order in
  which the script assigns them.
\<close>

theorem converted_fields:
  assumes "ui_ok ui"
  shows "\<exists>d. convert_selections (collect ui) = Return d \<and> dict_ok d \<and>
     dict_keys d =
       [''age'', ''trestbps'', ''chol'', ''thalach'', ''oldpeak'', ''sex'', ''fbs'', ''exang'',
        ''ca'', ''cp'', ''restecg'', ''slope'', ''thal'']"
proof -
  from assms obtain cp restecg slope thal where
    "convert_selections (collect ui) =
      Return (input_data (collect ui) @
        [(''cp'', IntC cp), (''restecg'', IntC restecg), (''slope'', IntC slope),
         (''thal'', IntC thal)])"
    by (rule converted_record)
  then show ?thesis
    by (simp add: keys_converted dict_ok_def)
qed

theorem converted_fields_witness:
  "\<exists>d. convert_selections (collect initial_ui) = Return d \<and> dict_ok d \<and>
     dict_keys d =
       [''age'', ''trestbps'', ''chol'', ''thalach'', ''oldpeak'', ''sex'', ''fbs'', ''exang'',
        ''ca'', ''cp'', ''restecg'', ''slope'', ''thal'']"
  by (rule converted_fields) simp

text \<open>
  C15. The handler has no check of the categorical codes. For the record of
  scenario A with the thalassemia code replaced by 99, which is in no domain, the
  specification's aligner fails with \<open>UnknownCategoryCode\<close>, while the handler's
  alignment returns a frame for every model.
\<close>

theorem out_of_domain_code_accepted:
  "returns (build_final_input (dict_set scenario_A ''thal'' (IntC 99)) model_columns) \<and>
   align_spec (dict_set scenario_A ''thal'' (IntC 99)) model_columns = Inl UnknownCategoryCode"
proof -
  have "set cols_to_ohe \<subseteq> set (dict_keys (dict_set scenario_A ''thal'' (IntC 99)))"
    by (simp add: cols_to_ohe_def scenario_A_def dict_keys_def dict_set_def)
  then have "returns (build_final_input (dict_set scenario_A ''thal'' (IntC 99)) model_columns)"
    by (simp add: build_final_input_eq)
  moreover have "expand domains (dict_set scenario_A ''thal'' (IntC 99)) = Inl UnknownCategoryCode"
    by (simp add: scenario_A_def dict_set_def domains_def indicators_def)
  ultimately show ?thesis
    by (simp add: align_spec_def)
qed

text \<open>
  C32. End to end, on the page: two states of the form that agree on the five
  numeric widgets and on the button give the same run of the script, whatever
  the eight categorical widgets hold, for any files, any cache and any loaded
  model. The verdict and the percentage shown cannot depend on sex, chest pain,
  blood sugar, ECG, angina, slope, vessels or thal.
\<close>

theorem prediction_ignores_categoricals:
  assumes "ui_ok ui" and "ui_ok ui'"
    and "numeric_inputs ui = numeric_inputs ui'" and "button_w ui = button_w ui'"
  shows "script fs c ui = script fs c ui'"
proof -
  have "on_predict a (collect ui) = on_predict a (collect ui')" for a
    using assms(1-3) by (cases a) (auto intro!: on_predict_cong simp: final_input_for_ui split: artifact.splits)
  with assms(4) have "body a ui = body a ui'" for a
    by (simp add: body_eq)
  then show ?thesis
    by (simp add: script_def)
qed

theorem prediction_ignores_categoricals_witness:
  "script demo_files None scenario_A_ui =
   script demo_files None
     (scenario_A_ui\<lparr>sex_w := Some (''Wanita'', 0), cp_w := Some ''Asymptomatic'',
                     ca_w := Some 3, thal_w := Some ''Reversable Defect (7)''\<rparr>)"
  using prediction_ignores_categoricals [of scenario_A_ui
      "scenario_A_ui\<lparr>sex_w := Some (''Wanita'', 0), cp_w := Some ''Asymptomatic'',
                      ca_w := Some 3, thal_w := Some ''Reversable Defect (7)''\<rparr>"
      demo_files None]
  by (simp add: numeric_inputs_def)
    (simp add: scenario_A_ui_def ui_ok_def initial_ui_def bounded_def offered_def
      sex_options_def yes_no_options_def ca_options_def cp_map_def thal_map_def dict_keys_def)

text \<open>
  C37. When the form is aligned as the specification asks, for every state of
  the form the browser can produce: the conversion and both aligners return, and
  the row the handler gives to the scaler is the specification's vector of the
  collected record exactly when the model has no column for a non-reference
  category chosen in the form. On the untouched form the model must have none
  of \<^verbatim>\<open>sex_1\<close>, \<^verbatim>\<open>fbs_1\<close> and \<^verbatim>\<open>exang_1\<close>.
\<close>

theorem form_meets_spec_iff:
  assumes "ui_ok ui"
  shows "\<exists>d f v. convert_selections (collect ui) = Return d \<and>
     prepare_features (collect ui) model_columns = Return f \<and>
     align_spec d model_columns = Inr v \<and>
     (to_numpy f = [v] \<longleftrightarrow> set (chosen_indicators d) \<inter> set model_columns = {})"
proof -
  from assms obtain d where d: "convert_selections (collect ui) = Return d"
    "dict_ok d" "list_all (in_domain d) domains" "numeric_part d = numeric_inputs ui"
    by (rule converted_in_domain)
  note fields = in_domain_fields [OF d(2,3)]
  have disj: "set (dict_keys (numeric_part d)) \<inter> set indicator_names = {}"
    by (simp add: d(4) numeric_inputs_not_indicators)
  from expand_chosen [OF d(2) fields(2) disj] obtain ex where "expand domains d = Inr ex"
    and "\<And>c. lookup_or_zero ex c =
        (if c \<in> set (chosen_indicators d) then IntC 1 else lookup_or_zero (numeric_part d) c)"
    by blast
  with vectors_agree_iff [OF this(2) disj, of model_columns] show ?thesis
    by (simp add: d(1) prepare_features_def build_final_input_eq [OF fields(1)] align_spec_def
        to_numpy_reindex_row)
qed

theorem form_meets_spec_iff_witness:
  "\<exists>d f v. convert_selections (collect initial_ui) = Return d \<and>
     prepare_features (collect initial_ui) [''age'', ''sex_1''] = Return f \<and>
     align_spec d [''age'', ''sex_1''] = Inr v \<and> to_numpy f \<noteq> [v]"
proof -
  let ?d = "[(''age'', IntC 50), (''trestbps'', IntC 120), (''chol'', IntC 240),
      (''thalach'', IntC 150), (''oldpeak'', FloatC 1), (''sex'', IntC 1), (''fbs'', IntC 1),
      (''exang'', IntC 1), (''ca'', IntC 0), (''cp'', IntC 0), (''restecg'', IntC 0),
      (''slope'', IntC 0), (''thal'', IntC 3)]"
  have "convert_selections (collect initial_ui) = Return ?d"
    by (simp add: py_eval Let_def)
  moreover have "chosen_indicators ?d = [''sex_1'', ''fbs_1'', ''exang_1'']"
    by (simp add: chosen_indicators_def domains_def indicator_name_def str_int_def
        str_nat.simps digit_char_def)
  ultimately show ?thesis
    using form_meets_spec_iff [of initial_ui "[''age'', ''sex_1'']"] by auto
qed

text \<open>
  C33. Scenario A of the specification, for any loaded model: when the button is
  pressed on a valid form, the scaler accepts the aligned row, the classifier
  returns a label and a row of two probabilities, then the run shows the static
  page, a rule, the result header and exactly one verdict, the template chosen
  by the label and the percentage computed from the probability of class 1;
  the run is not stopped and the assets stay cached.
\<close>

theorem click_shows_one_verdict:
  assumes "ui_ok ui" and "button_w ui"
    and "transform scaler (reindex_row (numeric_inputs ui) cols) = Return X"
    and "predict model X = Return (label # rest)"
    and "predict_proba model X = Return ((p0 # p1 # ps) # rows)"
  shows "script fs (Some (model, scaler, Column_list cols)) ui =
     (Some (model, scaler, Column_list cols),
      static_page @
        in_main ([St_markdown ''---'', St_header result_header] @ verdict label (fmul p1 100)),
      Continue ())"
proof -
  from final_input_for_ui [OF assms(1), of "Column_list cols"]
  have "final_input_for (collect ui) (Column_list cols) =
      Return (reindex_row (numeric_inputs ui) cols)"
    by simp
  from on_predict_steps [OF this assms(3-5) risk_level_of_Return]
  have "on_predict (model, scaler, Column_list cols) (collect ui) =
      present (label # rest) (fmul p1 100)" .
  with assms(2) show ?thesis
    by (simp add: script_hit present_Cons in_main_def)
qed

theorem click_shows_one_verdict_witness:
  "script demo_files (Some demo_assets) scenario_A_ui =
     (Some demo_assets,
      static_page @
        in_main [St_markdown ''---'', St_header result_header, St_error [Lit high_status],
                 St_metric risk_label ''75.00%'' None, St_markdown high_advice],
      Continue ())"
proof -
  have "fmul (3 / 4) 100 = 75"
    using fl64_of_int [of 75] by (simp add: fmul_def)
  then have "verdict 1 (fmul (3 / 4) 100) =
      [St_error [Lit high_status], St_metric risk_label ''75.00%'' None, St_markdown high_advice]"
    by (simp add: verdict_def format_eval)
  with click_shows_one_verdict [of scenario_A_ui "standard_scaler_obj \<lparr>sc_mean = [54], sc_scale = [9]\<rparr>"
      "[''age'']" "[scale_row \<lparr>sc_mean = [54], sc_scale = [9]\<rparr> [IntC 50]]"
      "constant_classifier (3 / 4)" 1 "[]" "fsub 1 (3 / 4)" "3 / 4" "[]" "[]" demo_files]
  show ?thesis
    by (simp add: demo_assets_def numeric_inputs_scenario_A standard_transform_def
        to_numpy_reindex_row lookup_or_zero_def columns_reindex_row)
qed

text \<open>
  C34. The loader against its contract. The specification's loader fails with
  \<open>ArtifactMissing\<close> when any file is absent and with \<open>ArtifactCorrupt\<close> when one
  does not unpickle. The loader of the script reports the first failure in the
  order model, scaler, columns. The two agree on every state of the files
  except one kind: the first bad file is garbage and a file is absent; there
  the script reports a load error although a file is missing.
\<close>

theorem loader_refines_contract:
  "reported (load_assets_try fs) = spec_load fs \<longleftrightarrow> \<not> shadowed fs"
proof (cases "first_bad fs")
  case None
  then show ?thesis
    by (simp add: load_assets_try_ok spec_load_ok shadowed_def)
next
  case (Some name)
  from first_bad_in_files [OF this] have "name \<in> set asset_files" and "\<not> file_ok fs name"
    by simp_all
  with Some show ?thesis
    by (auto simp: load_assets_try_bad spec_load_bad shadowed_def list_ex_iff file_ok_def
        split: option.splits blob.splits)
qed

text \<open>
  C36. The dimension contract on the page. With a standard scaler trained on a
  width other than the length of \<^verbatim>\<open>model_columns\<close>, pressing the button on any
  valid form ends the run with the exception box for \<open>ValueError\<close> right after
  the static page: no verdict is drawn. The exception is not caught by the
  script, the assets stay cached, and the run is not stopped, so the form stays
  usable.
\<close>

theorem dimension_mismatch_on_click:
  assumes "ui_ok ui" and "button_w ui" and "length cols \<noteq> length (sc_mean sc)"
  shows "script fs (Some (model, standard_scaler_obj sc, Column_list cols)) ui =
     (Some (model, standard_scaler_obj sc, Column_list cols),
      static_page @ [(Main_area, St_exception ValueError)], Uncaught ValueError)"
proof -
  from final_input_for_ui [OF assms(1), of "Column_list cols"]
  have "final_input_for (collect ui) (Column_list cols) =
      Return (reindex_row (numeric_inputs ui) cols)"
    by simp
  moreover from assms(3)
  have "transform (standard_scaler_obj sc) (reindex_row (numeric_inputs ui) cols) = Raise ValueError"
    by (simp add: standard_transform_def columns_reindex_row)
  ultimately have "on_predict (model, standard_scaler_obj sc, Column_list cols) (collect ui) =
      ([(Main_area, St_exception ValueError)], Uncaught ValueError)"
    by (rule on_predict_transform_Raise)
  with assms(2) show ?thesis
    by (simp add: script_hit)
qed

theorem dimension_mismatch_on_click_witness:
  "script demo_files
     (Some (constant_classifier (3 / 4), standard_scaler_obj \<lparr>sc_mean = [54], sc_scale = [9]\<rparr>,
            Column_list [''age'', ''chol'']))
     scenario_A_ui =
     (Some (constant_classifier (3 / 4), standard_scaler_obj \<lparr>sc_mean = [54], sc_scale = [9]\<rparr>,
            Column_list [''age'', ''chol'']),
      static_page @ [(Main_area, St_exception ValueError)], Uncaught ValueError)"
  using dimension_mismatch_on_click [of scenario_A_ui "[''age'', ''chol'']"
      "\<lparr>sc_mean = [54], sc_scale = [9]\<rparr>" demo_files "constant_classifier (3 / 4)"]
  by simp

end
